theory Spec2Isabelle
  imports Main "HOL-Library.Word"
begin

section \<open>Errors\<close>

text \<open>
  The manager raises plain \<open>Error\<close> objects that differ only in their message; the
  constructors below name them after the situation that raises them. \<open>RangeError\<close> and
  \<open>TypeError\<close> are the two errors of the JavaScript platform that the modelled code can
  meet (typed-array construction over a buffer of unsuitable length, an atomic access
  out of range, a wrong argument shape).
\<close>

datatype error =
    UseAfterFree
  | CapacityExceeded
  | NullTerminatorNotFound
  | InvalidArgument
  | AllocationFailure
  | RangeError
  | TypeError

section \<open>Computations over a state that may raise\<close>

text \<open>
  Every method is a function from the state before the call to a result and the state
  after it. A raised error is \<open>Inl\<close>; the state that comes with it is the state at the
  moment of the raise, since JavaScript does not roll back what was assigned before.
\<close>

definition returnM :: "'a \<Rightarrow> 's \<Rightarrow> (error + 'a) \<times> 's" where
  "returnM x s = (Inr x, s)"

definition throwM :: "error \<Rightarrow> 's \<Rightarrow> (error + 'a) \<times> 's" where
  "throwM e s = (Inl e, s)"

definition bindM ::
  "('s \<Rightarrow> (error + 'a) \<times> 's) \<Rightarrow> ('a \<Rightarrow> 's \<Rightarrow> (error + 'b) \<times> 's) \<Rightarrow> 's \<Rightarrow> (error + 'b) \<times> 's" where
  "bindM f g s = (case f s of (Inl e, s') \<Rightarrow> (Inl e, s') | (Inr x, s') \<Rightarrow> g x s')"

definition getsM :: "('s \<Rightarrow> 'a) \<Rightarrow> 's \<Rightarrow> (error + 'a) \<times> 's" where
  "getsM f s = (Inr (f s), s)"

definition modifyM :: "('s \<Rightarrow> 's) \<Rightarrow> 's \<Rightarrow> (error + unit) \<times> 's" where
  "modifyM f s = (Inr (), f s)"

section \<open>Array buffers and typed arrays of the platform\<close>

type_synonym byte = "8 word"
type_synonym bufid = nat

text \<open>
  An \<open>ArrayBuffer\<close> is an object with an identity; the store maps each identity to the
  bytes it holds now. A detached buffer holds no bytes.
\<close>

type_synonym store = "bufid \<Rightarrow> byte list"

datatype kind =
    Int8 | Uint8 | Uint8Clamped
  | Int16 | Uint16
  | Int32 | Uint32
  | BigInt64 | BigUint64
  | Float32 | Float64

fun bytesPerElementOf :: "kind \<Rightarrow> nat" where
  "bytesPerElementOf Int8 = 1"
| "bytesPerElementOf Uint8 = 1"
| "bytesPerElementOf Uint8Clamped = 1"
| "bytesPerElementOf Int16 = 2"
| "bytesPerElementOf Uint16 = 2"
| "bytesPerElementOf Int32 = 4"
| "bytesPerElementOf Uint32 = 4"
| "bytesPerElementOf BigInt64 = 8"
| "bytesPerElementOf BigUint64 = 8"
| "bytesPerElementOf Float32 = 4"
| "bytesPerElementOf Float64 = 8"

fun isSigned :: "kind \<Rightarrow> bool" where
  "isSigned Int8 = True"
| "isSigned Int16 = True"
| "isSigned Int32 = True"
| "isSigned BigInt64 = True"
| "isSigned _ = False"

text \<open>Only the integer arrays other than the clamped one accept \<open>Atomics\<close> operations.\<close>

fun isAtomicKind :: "kind \<Rightarrow> bool" where
  "isAtomicKind Uint8Clamped = False"
| "isAtomicKind Float32 = False"
| "isAtomicKind Float64 = False"
| "isAtomicKind _ = True"

subsection \<open>Little-endian elements\<close>

fun le_bytes :: "nat \<Rightarrow> nat \<Rightarrow> byte list" where
  "le_bytes 0 v = []"
| "le_bytes (Suc n) v = of_nat (v mod 256) # le_bytes n (v div 256)"

fun le_val :: "byte list \<Rightarrow> nat" where
  "le_val [] = 0"
| "le_val (b # bs) = unat b + 256 * le_val bs"

definition loadRaw :: "nat \<Rightarrow> nat \<Rightarrow> byte list \<Rightarrow> nat" where
  "loadRaw w off bs = le_val (take w (drop off bs))"

definition storeRaw :: "nat \<Rightarrow> nat \<Rightarrow> nat \<Rightarrow> byte list \<Rightarrow> byte list" where
  "storeRaw w off raw bs = take off bs @ le_bytes w raw @ drop (off + w) bs"

text \<open>
  A value is an integer. For the integer kinds it is the number (or BigInt) itself. For
  \<open>Float32\<close> and \<open>Float64\<close> it is the IEEE-754 bit pattern of the floating-point value,
  the representation the typed array stores; rounding a double to single precision and
  the payload of a NaN are outside this model.

  \<open>toRaw\<close> is the conversion the platform applies when an element is stored (wrap-around
  modulo the width, saturation for the clamped kind); \<open>fromRaw\<close> reads the stored bits
  back (two's complement for the signed kinds).
\<close>

definition toRaw :: "kind \<Rightarrow> int \<Rightarrow> nat" where
  "toRaw k v =
     (if k = Uint8Clamped then nat (max 0 (min 255 v))
      else nat (v mod 2 ^ (8 * bytesPerElementOf k)))"

definition fromRaw :: "kind \<Rightarrow> nat \<Rightarrow> int" where
  "fromRaw k raw =
     (if isSigned k \<and> 2 ^ (8 * bytesPerElementOf k - 1) \<le> raw
      then int raw - 2 ^ (8 * bytesPerElementOf k)
      else int raw)"

subsection \<open>Typed arrays\<close>

text \<open>
  A typed array is a window of \<open>ta_length\<close> elements of one kind over a buffer, starting
  \<open>ta_begin\<close> elements into it. It shares the buffer's bytes: it holds none itself.
\<close>

record typedArray =
  ta_kind :: kind
  ta_buffer :: bufid
  ta_begin :: nat
  ta_length :: nat

text \<open>
  The number of elements that can be reached now: none once the buffer is detached.
\<close>

definition ta_currentLength :: "store \<Rightarrow> typedArray \<Rightarrow> nat" where
  "ta_currentLength B ta =
     (if (ta_begin ta + ta_length ta) * bytesPerElementOf (ta_kind ta) \<le> length (B (ta_buffer ta))
      then ta_length ta else 0)"

definition ta_byteOffset :: "typedArray \<Rightarrow> nat \<Rightarrow> nat" where
  "ta_byteOffset ta i = (ta_begin ta + i) * bytesPerElementOf (ta_kind ta)"

text \<open>
  \<open>view[i]\<close> and \<open>view[i] = v\<close>. The index is \<open>None\<close> when the JavaScript number is not
  an integer (an address that is not a multiple of the element width, divided by the
  width): reading then gives \<open>undefined\<close> and writing does nothing, as for an index out
  of range.
\<close>

definition ta_get :: "store \<Rightarrow> typedArray \<Rightarrow> nat option \<Rightarrow> int option" where
  "ta_get B ta idx =
     (case idx of
        None \<Rightarrow> None
      | Some i \<Rightarrow>
          if i < ta_currentLength B ta
          then Some (fromRaw (ta_kind ta)
                 (loadRaw (bytesPerElementOf (ta_kind ta)) (ta_byteOffset ta i) (B (ta_buffer ta))))
          else None)"

definition ta_set :: "store \<Rightarrow> typedArray \<Rightarrow> nat option \<Rightarrow> int \<Rightarrow> store" where
  "ta_set B ta idx v =
     (case idx of
        None \<Rightarrow> B
      | Some i \<Rightarrow>
          if i < ta_currentLength B ta
          then B(ta_buffer ta :=
                 storeRaw (bytesPerElementOf (ta_kind ta)) (ta_byteOffset ta i)
                   (toRaw (ta_kind ta) v) (B (ta_buffer ta)))
          else B)"

text \<open>
  \<open>address / width\<close> as a JavaScript number: an integer index only when the width
  divides the address.
\<close>

definition elementIndex :: "nat \<Rightarrow> nat \<Rightarrow> nat option" where
  "elementIndex address w = (if address mod w = 0 then Some (address div w) else None)"

text \<open>
  \<open>subarray(begin, end)\<close>: a negative bound counts from the end, both bounds are
  clamped to the array, and a missing end is the end of the array.
\<close>

definition relativeIndex :: "nat \<Rightarrow> int \<Rightarrow> nat" where
  "relativeIndex len i = (if i < 0 then nat (max 0 (int len + i)) else min (nat i) len)"

definition subarray :: "store \<Rightarrow> typedArray \<Rightarrow> int \<Rightarrow> int option \<Rightarrow> typedArray" where
  "subarray B ta begin end =
     (let len = ta_currentLength B ta;
          b = relativeIndex len begin;
          e = (case end of None \<Rightarrow> len | Some x \<Rightarrow> relativeIndex len x)
      in ta\<lparr>ta_begin := ta_begin ta + b, ta_length := e - b\<rparr>)"

text \<open>The elements of a typed array, as the raw bit patterns stored.\<close>

definition ta_elements :: "store \<Rightarrow> typedArray \<Rightarrow> nat list" where
  "ta_elements B ta =
     map (\<lambda>i. loadRaw (bytesPerElementOf (ta_kind ta)) (ta_byteOffset ta i) (B (ta_buffer ta)))
       [0 ..< ta_currentLength B ta]"

text \<open>\<open>view.fill(v)\<close> stores \<open>v\<close> in every element, first to last.\<close>

fun fillFrom :: "nat \<Rightarrow> nat \<Rightarrow> typedArray \<Rightarrow> int \<Rightarrow> store \<Rightarrow> store" where
  "fillFrom 0 i ta v B = B"
| "fillFrom (Suc n) i ta v B = fillFrom n (Suc i) ta v (ta_set B ta (Some i) v)"

definition ta_fill :: "store \<Rightarrow> typedArray \<Rightarrow> int \<Rightarrow> store" where
  "ta_fill B ta v = fillFrom (ta_currentLength B ta) 0 ta v B"

text \<open>\<open>view.indexOf(0)\<close>: the first index holding the value, or \<open>None\<close> for \<open>-1\<close>.\<close>

fun indexOfFrom :: "nat \<Rightarrow> nat \<Rightarrow> nat list \<Rightarrow> nat option" where
  "indexOfFrom x i [] = None"
| "indexOfFrom x i (y # ys) = (if y = x then Some i else indexOfFrom x (Suc i) ys)"

definition ta_indexOf :: "store \<Rightarrow> typedArray \<Rightarrow> nat \<Rightarrow> nat option" where
  "ta_indexOf B ta x = indexOfFrom x 0 (ta_elements B ta)"


section \<open>The embedder and the manager's state\<close>

text \<open>
  The embedder owns the buffers and whatever state its allocator keeps (\<open>'e\<close>). The three
  capabilities it hands to the manager are functions over that world: \<open>heapGetter\<close>
  names the buffer that is current, \<open>allocate\<close> returns an address or raises and may
  replace or grow buffers, \<open>deallocate\<close> releases an address. The manager assumes
  nothing more about them.
\<close>

record 'e world =
  buffers :: store
  embedder :: 'e

text \<open>The calls the manager makes to the capabilities, in the order made.\<close>

datatype call = CallHeapGetter | CallAllocate nat | CallDeallocate nat

text \<open>
  The atomic primitives executed, in order: the kind of the array, the buffer, the
  element index within the buffer and, for a store, the bits stored.
\<close>

datatype atomicOp = AtomicLoad kind bufid nat | AtomicStore kind bufid nat nat

datatype pollingMode = always | whenEmpty | never

record WasmHeapManagerOptions =
  clearAllocatedRegions :: "bool option"
  pollingMode :: "pollingMode option"
  enableGarbageCollection :: "bool option"

definition defaultWasmHeapManagerOptions :: WasmHeapManagerOptions where
  "defaultWasmHeapManagerOptions =
     \<lparr>clearAllocatedRegions = Some True,
      pollingMode = Some whenEmpty,
      enableGarbageCollection = Some False\<rparr>"

text \<open>
  \<open>{ ...defaultWasmHeapManagerOptions, ...(options || {}) }\<close>: a field the caller gave
  replaces the default.
\<close>

definition mergeOptions :: "WasmHeapManagerOptions \<Rightarrow> WasmHeapManagerOptions option \<Rightarrow> WasmHeapManagerOptions" where
  "mergeOptions d given =
     (case given of
        None \<Rightarrow> d
      | Some g \<Rightarrow>
          \<lparr>clearAllocatedRegions =
             (case clearAllocatedRegions g of None \<Rightarrow> clearAllocatedRegions d | Some b \<Rightarrow> Some b),
           pollingMode =
             (case pollingMode g of None \<Rightarrow> pollingMode d | Some p \<Rightarrow> Some p),
           enableGarbageCollection =
             (case enableGarbageCollection g of None \<Rightarrow> enableGarbageCollection d | Some b \<Rightarrow> Some b)\<rparr>)"

text \<open>
  The state: the world, the two logs, and the fields of the one \<open>WasmHeapManager\<close>
  object (its three capabilities, its options, the cached buffer and the eleven cached
  views, the addresses registered for finalization).
\<close>

record 'e state =
  world :: "'e world"
  calls :: "call list"
  atomicOps :: "atomicOp list"
  heapGetter :: "'e \<Rightarrow> bufid"
  allocate :: "nat \<Rightarrow> 'e world \<Rightarrow> (error + nat) \<times> 'e world"
  deallocate :: "nat \<Rightarrow> 'e world \<Rightarrow> 'e world"
  options :: WasmHeapManagerOptions
  cachedHeap :: bufid
  cachedHeapInt8 :: typedArray
  cachedHeapUint8 :: typedArray
  cachedHeapUint8Clamped :: typedArray
  cachedHeapInt16 :: typedArray
  cachedHeapUint16 :: typedArray
  cachedHeapInt32 :: typedArray
  cachedHeapUint32 :: typedArray
  cachedHeapBigInt64 :: typedArray
  cachedHeapBigUint64 :: typedArray
  cachedHeapFloat32 :: typedArray
  cachedHeapFloat64 :: typedArray
  finalizationRegistry :: "nat list"

definition byteLength :: "'e state \<Rightarrow> bufid \<Rightarrow> nat" where
  "byteLength s b = length (buffers (world s) b)"

subsection \<open>Calling the capabilities\<close>

definition callHeapGetter :: "'e state \<Rightarrow> (error + bufid) \<times> 'e state" where
  "callHeapGetter s =
     (Inr (heapGetter s (embedder (world s))), s\<lparr>calls := calls s @ [CallHeapGetter]\<rparr>)"

definition callAllocate :: "nat \<Rightarrow> 'e state \<Rightarrow> (error + nat) \<times> 'e state" where
  "callAllocate byteSize s =
     (case allocate s byteSize (world s) of
        (r, w') \<Rightarrow> (r, s\<lparr>world := w', calls := calls s @ [CallAllocate byteSize]\<rparr>))"

definition callDeallocate :: "nat \<Rightarrow> 'e state \<Rightarrow> (error + unit) \<times> 'e state" where
  "callDeallocate address s =
     (Inr (), s\<lparr>world := deallocate s address (world s),
               calls := calls s @ [CallDeallocate address]\<rparr>)"

subsection \<open>Typed-array construction and the atomic primitives\<close>

text \<open>
  \<open>new Int16Array(buffer)\<close> and its siblings: a view of the whole buffer, or a
  \<open>RangeError\<close> when the byte length is not a multiple of the element width.
\<close>

definition newTypedArray :: "kind \<Rightarrow> bufid \<Rightarrow> 'e state \<Rightarrow> (error + typedArray) \<times> 'e state" where
  "newTypedArray k b s =
     (if byteLength s b mod bytesPerElementOf k = 0
      then (Inr \<lparr>ta_kind = k, ta_buffer = b, ta_begin = 0,
                 ta_length = byteLength s b div bytesPerElementOf k\<rparr>, s)
      else (Inl RangeError, s))"

text \<open>
  \<open>Atomics.load\<close> and \<open>Atomics.store\<close>. The index arrives as a JavaScript number and
  is truncated to an integer (\<open>toIndex\<close>); an index outside the array is a
  \<open>RangeError\<close>, an array of a kind without atomic access a \<open>TypeError\<close>.
\<close>

definition toIndex :: "nat \<Rightarrow> nat \<Rightarrow> nat" where
  "toIndex address w = address div w"

definition Atomics_load :: "typedArray \<Rightarrow> nat \<Rightarrow> 'e state \<Rightarrow> (error + int) \<times> 'e state" where
  "Atomics_load ta i s =
     (if \<not> isAtomicKind (ta_kind ta) then (Inl TypeError, s)
      else if \<not> i < ta_currentLength (buffers (world s)) ta then (Inl RangeError, s)
      else (Inr (fromRaw (ta_kind ta)
                  (loadRaw (bytesPerElementOf (ta_kind ta)) (ta_byteOffset ta i)
                     (buffers (world s) (ta_buffer ta)))),
            s\<lparr>atomicOps := atomicOps s @ [AtomicLoad (ta_kind ta) (ta_buffer ta) (ta_begin ta + i)]\<rparr>))"

definition Atomics_store :: "typedArray \<Rightarrow> nat \<Rightarrow> int \<Rightarrow> 'e state \<Rightarrow> (error + unit) \<times> 'e state" where
  "Atomics_store ta i v s =
     (if \<not> isAtomicKind (ta_kind ta) then (Inl TypeError, s)
      else if \<not> i < ta_currentLength (buffers (world s)) ta then (Inl RangeError, s)
      else (Inr (),
            s\<lparr>world := (world s)\<lparr>buffers := ta_set (buffers (world s)) ta (Some i) v\<rparr>,
              atomicOps := atomicOps s @
                [AtomicStore (ta_kind ta) (ta_buffer ta) (ta_begin ta + i) (toRaw (ta_kind ta) v)]\<rparr>))"

text \<open>Plain element access through a view, as a computation over the state.\<close>

definition viewGet :: "typedArray \<Rightarrow> nat option \<Rightarrow> 'e state \<Rightarrow> (error + int option) \<times> 'e state" where
  "viewGet ta idx s = (Inr (ta_get (buffers (world s)) ta idx), s)"

definition viewSet :: "typedArray \<Rightarrow> nat option \<Rightarrow> int \<Rightarrow> 'e state \<Rightarrow> (error + unit) \<times> 'e state" where
  "viewSet ta idx v s =
     (Inr (), s\<lparr>world := (world s)\<lparr>buffers := ta_set (buffers (world s)) ta idx v\<rparr>\<rparr>)"

section \<open>Managing the cached heap views\<close>

text \<open>
  \<open>updateCache\<close> assigns the cached buffer and then the eleven views one after the
  other, in the order of the source. A constructor that raises leaves the fields
  assigned before it as they are.
\<close>

definition updateCache :: "bufid \<Rightarrow> 'e state \<Rightarrow> (error + unit) \<times> 'e state" where
  "updateCache newHeap =
     bindM (modifyM (\<lambda>s. s\<lparr>cachedHeap := newHeap\<rparr>)) (\<lambda>_.
     bindM (newTypedArray Int8 newHeap) (\<lambda>v. bindM (modifyM (\<lambda>s. s\<lparr>cachedHeapInt8 := v\<rparr>)) (\<lambda>_.
     bindM (newTypedArray Uint8 newHeap) (\<lambda>v. bindM (modifyM (\<lambda>s. s\<lparr>cachedHeapUint8 := v\<rparr>)) (\<lambda>_.
     bindM (newTypedArray Uint8Clamped newHeap) (\<lambda>v. bindM (modifyM (\<lambda>s. s\<lparr>cachedHeapUint8Clamped := v\<rparr>)) (\<lambda>_.
     bindM (newTypedArray Int16 newHeap) (\<lambda>v. bindM (modifyM (\<lambda>s. s\<lparr>cachedHeapInt16 := v\<rparr>)) (\<lambda>_.
     bindM (newTypedArray Uint16 newHeap) (\<lambda>v. bindM (modifyM (\<lambda>s. s\<lparr>cachedHeapUint16 := v\<rparr>)) (\<lambda>_.
     bindM (newTypedArray Int32 newHeap) (\<lambda>v. bindM (modifyM (\<lambda>s. s\<lparr>cachedHeapInt32 := v\<rparr>)) (\<lambda>_.
     bindM (newTypedArray Uint32 newHeap) (\<lambda>v. bindM (modifyM (\<lambda>s. s\<lparr>cachedHeapUint32 := v\<rparr>)) (\<lambda>_.
     bindM (newTypedArray BigInt64 newHeap) (\<lambda>v. bindM (modifyM (\<lambda>s. s\<lparr>cachedHeapBigInt64 := v\<rparr>)) (\<lambda>_.
     bindM (newTypedArray BigUint64 newHeap) (\<lambda>v. bindM (modifyM (\<lambda>s. s\<lparr>cachedHeapBigUint64 := v\<rparr>)) (\<lambda>_.
     bindM (newTypedArray Float32 newHeap) (\<lambda>v. bindM (modifyM (\<lambda>s. s\<lparr>cachedHeapFloat32 := v\<rparr>)) (\<lambda>_.
     bindM (newTypedArray Float64 newHeap) (\<lambda>v. bindM (modifyM (\<lambda>s. s\<lparr>cachedHeapFloat64 := v\<rparr>)) (\<lambda>_.
     returnM ())))))))))))))))))))))))"

definition resolvedPollingMode :: "'e state \<Rightarrow> pollingMode option" where
  "resolvedPollingMode s = pollingMode (options s)"

definition updateCacheIfNeeded :: "'e state \<Rightarrow> (error + unit) \<times> 'e state" where
  "updateCacheIfNeeded s =
     (if resolvedPollingMode s = Some never \<or>
         (resolvedPollingMode s = Some whenEmpty \<and> byteLength s (cachedHeap s) > 0)
      then (Inr (), s)
      else bindM callHeapGetter (\<lambda>newHeap s'.
             if byteLength s' newHeap > 0 then updateCache newHeap s' else (Inr (), s')) s)"

definition heapInt8 :: "'e state \<Rightarrow> (error + typedArray) \<times> 'e state" where
  "heapInt8 = bindM updateCacheIfNeeded (\<lambda>_. getsM cachedHeapInt8)"

definition heapUint8 :: "'e state \<Rightarrow> (error + typedArray) \<times> 'e state" where
  "heapUint8 = bindM updateCacheIfNeeded (\<lambda>_. getsM cachedHeapUint8)"

definition heapUint8Clamped :: "'e state \<Rightarrow> (error + typedArray) \<times> 'e state" where
  "heapUint8Clamped = bindM updateCacheIfNeeded (\<lambda>_. getsM cachedHeapUint8Clamped)"

definition heapInt16 :: "'e state \<Rightarrow> (error + typedArray) \<times> 'e state" where
  "heapInt16 = bindM updateCacheIfNeeded (\<lambda>_. getsM cachedHeapInt16)"

definition heapUint16 :: "'e state \<Rightarrow> (error + typedArray) \<times> 'e state" where
  "heapUint16 = bindM updateCacheIfNeeded (\<lambda>_. getsM cachedHeapUint16)"

definition heapInt32 :: "'e state \<Rightarrow> (error + typedArray) \<times> 'e state" where
  "heapInt32 = bindM updateCacheIfNeeded (\<lambda>_. getsM cachedHeapInt32)"

definition heapUint32 :: "'e state \<Rightarrow> (error + typedArray) \<times> 'e state" where
  "heapUint32 = bindM updateCacheIfNeeded (\<lambda>_. getsM cachedHeapUint32)"

definition heapBigInt64 :: "'e state \<Rightarrow> (error + typedArray) \<times> 'e state" where
  "heapBigInt64 = bindM updateCacheIfNeeded (\<lambda>_. getsM cachedHeapBigInt64)"

definition heapBigUint64 :: "'e state \<Rightarrow> (error + typedArray) \<times> 'e state" where
  "heapBigUint64 = bindM updateCacheIfNeeded (\<lambda>_. getsM cachedHeapBigUint64)"

definition heapFloat32 :: "'e state \<Rightarrow> (error + typedArray) \<times> 'e state" where
  "heapFloat32 = bindM updateCacheIfNeeded (\<lambda>_. getsM cachedHeapFloat32)"

definition heapFloat64 :: "'e state \<Rightarrow> (error + typedArray) \<times> 'e state" where
  "heapFloat64 = bindM updateCacheIfNeeded (\<lambda>_. getsM cachedHeapFloat64)"


text \<open>The cached view and its getter by kind, for statements that range over every kind.\<close>

fun cachedView :: "kind \<Rightarrow> 'e state \<Rightarrow> typedArray" where
  "cachedView Int8 s = cachedHeapInt8 s"
| "cachedView Uint8 s = cachedHeapUint8 s"
| "cachedView Uint8Clamped s = cachedHeapUint8Clamped s"
| "cachedView Int16 s = cachedHeapInt16 s"
| "cachedView Uint16 s = cachedHeapUint16 s"
| "cachedView Int32 s = cachedHeapInt32 s"
| "cachedView Uint32 s = cachedHeapUint32 s"
| "cachedView BigInt64 s = cachedHeapBigInt64 s"
| "cachedView BigUint64 s = cachedHeapBigUint64 s"
| "cachedView Float32 s = cachedHeapFloat32 s"
| "cachedView Float64 s = cachedHeapFloat64 s"

fun heapView :: "kind \<Rightarrow> 'e state \<Rightarrow> (error + typedArray) \<times> 'e state" where
  "heapView Int8 = heapInt8"
| "heapView Uint8 = heapUint8"
| "heapView Uint8Clamped = heapUint8Clamped"
| "heapView Int16 = heapInt16"
| "heapView Uint16 = heapUint16"
| "heapView Int32 = heapInt32"
| "heapView Uint32 = heapUint32"
| "heapView BigInt64 = heapBigInt64"
| "heapView BigUint64 = heapBigUint64"
| "heapView Float32 = heapFloat32"
| "heapView Float64 = heapFloat64"

definition allKinds :: "kind list" where
  "allKinds = [Int8, Uint8, Uint8Clamped, Int16, Uint16, Int32, Uint32, BigInt64, BigUint64, Float32, Float64]"

text \<open>
  The constructor: merge the options, then build the cache from the buffer the getter
  returns. The view fields hold no array before \<open>updateCache\<close> has run; when it raises
  no manager comes into being.
\<close>

definition unassignedView :: typedArray where
  "unassignedView = \<lparr>ta_kind = Uint8, ta_buffer = 0, ta_begin = 0, ta_length = 0\<rparr>"

definition initialFields ::
  "('e \<Rightarrow> bufid) \<Rightarrow> (nat \<Rightarrow> 'e world \<Rightarrow> (error + nat) \<times> 'e world) \<Rightarrow> (nat \<Rightarrow> 'e world \<Rightarrow> 'e world) \<Rightarrow>
   WasmHeapManagerOptions option \<Rightarrow> 'e world \<Rightarrow> 'e state" where
  "initialFields getter alloc dealloc opts w =
     \<lparr>world = w, calls = [], atomicOps = [],
      heapGetter = getter, allocate = alloc, deallocate = dealloc,
      options = mergeOptions defaultWasmHeapManagerOptions opts,
      cachedHeap = 0,
      cachedHeapInt8 = unassignedView,
      cachedHeapUint8 = unassignedView,
      cachedHeapUint8Clamped = unassignedView,
      cachedHeapInt16 = unassignedView,
      cachedHeapUint16 = unassignedView,
      cachedHeapInt32 = unassignedView,
      cachedHeapUint32 = unassignedView,
      cachedHeapBigInt64 = unassignedView,
      cachedHeapBigUint64 = unassignedView,
      cachedHeapFloat32 = unassignedView,
      cachedHeapFloat64 = unassignedView,
      finalizationRegistry = []\<rparr>"

definition newWasmHeapManager ::
  "('e \<Rightarrow> bufid) \<Rightarrow> (nat \<Rightarrow> 'e world \<Rightarrow> (error + nat) \<times> 'e world) \<Rightarrow> (nat \<Rightarrow> 'e world \<Rightarrow> 'e world) \<Rightarrow>
   WasmHeapManagerOptions option \<Rightarrow> 'e world \<Rightarrow> error + 'e state" where
  "newWasmHeapManager getter alloc dealloc opts w =
     (case bindM callHeapGetter updateCache (initialFields getter alloc dealloc opts w) of
        (Inl e, _) \<Rightarrow> Inl e
      | (Inr _, s) \<Rightarrow> Inr s)"

section \<open>The bit reinterpretation unit\<close>

text \<open>
  \<open>IEEE754Converter\<close> keeps a one-element \<open>Uint32Array\<close> and a \<open>Float32Array\<close> over
  the same four bytes (and the 64-bit pair over the same eight): it stores through one
  view and loads through the other. The scratch bytes are overwritten before each load,
  so the conversions are functions of their argument alone.
\<close>

definition float32ToUint32 :: "int \<Rightarrow> int" where
  "float32ToUint32 v =
     fromRaw Uint32 (loadRaw 4 0 (storeRaw 4 0 (toRaw Float32 v) (replicate 4 0)))"

definition uint32ToFloat32 :: "int \<Rightarrow> int" where
  "uint32ToFloat32 v =
     fromRaw Float32 (loadRaw 4 0 (storeRaw 4 0 (toRaw Uint32 v) (replicate 4 0)))"

definition float64ToBigUint64 :: "int \<Rightarrow> int" where
  "float64ToBigUint64 v =
     fromRaw BigUint64 (loadRaw 8 0 (storeRaw 8 0 (toRaw Float64 v) (replicate 8 0)))"

definition bigUint64ToFloat64 :: "int \<Rightarrow> int" where
  "bigUint64ToFloat64 v =
     fromRaw Float64 (loadRaw 8 0 (storeRaw 8 0 (toRaw BigUint64 v) (replicate 8 0)))"

section \<open>Reading and writing numeric values at an address\<close>

text \<open>
  One group of four methods per kind, as in the source: the plain pair indexes the
  cached view with \<open>address / width\<close>, the atomic pair hands the same quotient to
  \<open>Atomics\<close>. A plain read gives \<open>None\<close> where JavaScript gives \<open>undefined\<close>.
\<close>

definition readInt8 :: "nat \<Rightarrow> 'e state \<Rightarrow> (error + int option) \<times> 'e state" where
  "readInt8 address = bindM heapInt8 (\<lambda>view. viewGet view (Some address))"

definition readInt8Atomic :: "nat \<Rightarrow> 'e state \<Rightarrow> (error + int) \<times> 'e state" where
  "readInt8Atomic address = bindM heapInt8 (\<lambda>view. Atomics_load view address)"

definition writeInt8 :: "nat \<Rightarrow> int \<Rightarrow> 'e state \<Rightarrow> (error + unit) \<times> 'e state" where
  "writeInt8 address value = bindM heapInt8 (\<lambda>view. viewSet view (Some address) value)"

definition writeInt8Atomic :: "nat \<Rightarrow> int \<Rightarrow> 'e state \<Rightarrow> (error + unit) \<times> 'e state" where
  "writeInt8Atomic address value = bindM heapInt8 (\<lambda>view. Atomics_store view address value)"

definition readUint8 :: "nat \<Rightarrow> 'e state \<Rightarrow> (error + int option) \<times> 'e state" where
  "readUint8 address = bindM heapUint8 (\<lambda>view. viewGet view (Some address))"

definition readUint8Atomic :: "nat \<Rightarrow> 'e state \<Rightarrow> (error + int) \<times> 'e state" where
  "readUint8Atomic address = bindM heapUint8 (\<lambda>view. Atomics_load view address)"

definition writeUint8 :: "nat \<Rightarrow> int \<Rightarrow> 'e state \<Rightarrow> (error + unit) \<times> 'e state" where
  "writeUint8 address value = bindM heapUint8 (\<lambda>view. viewSet view (Some address) value)"

definition writeUint8Atomic :: "nat \<Rightarrow> int \<Rightarrow> 'e state \<Rightarrow> (error + unit) \<times> 'e state" where
  "writeUint8Atomic address value = bindM heapUint8 (\<lambda>view. Atomics_store view address value)"

definition readUint8Clamped :: "nat \<Rightarrow> 'e state \<Rightarrow> (error + int option) \<times> 'e state" where
  "readUint8Clamped address = bindM heapUint8Clamped (\<lambda>view. viewGet view (Some address))"

definition readUint8ClampedAtomic :: "nat \<Rightarrow> 'e state \<Rightarrow> (error + int) \<times> 'e state" where
  "readUint8ClampedAtomic address = readUint8Atomic address"

definition writeUint8Clamped :: "nat \<Rightarrow> int \<Rightarrow> 'e state \<Rightarrow> (error + unit) \<times> 'e state" where
  "writeUint8Clamped address value = bindM heapUint8Clamped (\<lambda>view. viewSet view (Some address) value)"

definition writeUint8ClampedAtomic :: "nat \<Rightarrow> int \<Rightarrow> 'e state \<Rightarrow> (error + unit) \<times> 'e state" where
  "writeUint8ClampedAtomic address value =
     (let value = (if value < 0 then 0 else if value > 255 then 255 else value)
      in writeUint8Atomic address value)"

definition readInt16 :: "nat \<Rightarrow> 'e state \<Rightarrow> (error + int option) \<times> 'e state" where
  "readInt16 address = bindM heapInt16 (\<lambda>view. viewGet view (elementIndex address 2))"

definition readInt16Atomic :: "nat \<Rightarrow> 'e state \<Rightarrow> (error + int) \<times> 'e state" where
  "readInt16Atomic address = bindM heapInt16 (\<lambda>view. Atomics_load view (toIndex address 2))"

definition writeInt16 :: "nat \<Rightarrow> int \<Rightarrow> 'e state \<Rightarrow> (error + unit) \<times> 'e state" where
  "writeInt16 address value = bindM heapInt16 (\<lambda>view. viewSet view (elementIndex address 2) value)"

definition writeInt16Atomic :: "nat \<Rightarrow> int \<Rightarrow> 'e state \<Rightarrow> (error + unit) \<times> 'e state" where
  "writeInt16Atomic address value = bindM heapInt16 (\<lambda>view. Atomics_store view (toIndex address 2) value)"

definition readUint16 :: "nat \<Rightarrow> 'e state \<Rightarrow> (error + int option) \<times> 'e state" where
  "readUint16 address = bindM heapUint16 (\<lambda>view. viewGet view (elementIndex address 2))"

definition readUint16Atomic :: "nat \<Rightarrow> 'e state \<Rightarrow> (error + int) \<times> 'e state" where
  "readUint16Atomic address = bindM heapUint16 (\<lambda>view. Atomics_load view (toIndex address 2))"

definition writeUint16 :: "nat \<Rightarrow> int \<Rightarrow> 'e state \<Rightarrow> (error + unit) \<times> 'e state" where
  "writeUint16 address value = bindM heapUint16 (\<lambda>view. viewSet view (elementIndex address 2) value)"

definition writeUint16Atomic :: "nat \<Rightarrow> int \<Rightarrow> 'e state \<Rightarrow> (error + unit) \<times> 'e state" where
  "writeUint16Atomic address value = bindM heapUint16 (\<lambda>view. Atomics_store view (toIndex address 2) value)"

definition readInt32 :: "nat \<Rightarrow> 'e state \<Rightarrow> (error + int option) \<times> 'e state" where
  "readInt32 address = bindM heapInt32 (\<lambda>view. viewGet view (elementIndex address 4))"

definition readInt32Atomic :: "nat \<Rightarrow> 'e state \<Rightarrow> (error + int) \<times> 'e state" where
  "readInt32Atomic address = bindM heapInt32 (\<lambda>view. Atomics_load view (toIndex address 4))"

definition writeInt32 :: "nat \<Rightarrow> int \<Rightarrow> 'e state \<Rightarrow> (error + unit) \<times> 'e state" where
  "writeInt32 address value = bindM heapInt32 (\<lambda>view. viewSet view (elementIndex address 4) value)"

definition writeInt32Atomic :: "nat \<Rightarrow> int \<Rightarrow> 'e state \<Rightarrow> (error + unit) \<times> 'e state" where
  "writeInt32Atomic address value = bindM heapInt32 (\<lambda>view. Atomics_store view (toIndex address 4) value)"

definition readUint32 :: "nat \<Rightarrow> 'e state \<Rightarrow> (error + int option) \<times> 'e state" where
  "readUint32 address = bindM heapUint32 (\<lambda>view. viewGet view (elementIndex address 4))"

definition readUint32Atomic :: "nat \<Rightarrow> 'e state \<Rightarrow> (error + int) \<times> 'e state" where
  "readUint32Atomic address = bindM heapUint32 (\<lambda>view. Atomics_load view (toIndex address 4))"

definition writeUint32 :: "nat \<Rightarrow> int \<Rightarrow> 'e state \<Rightarrow> (error + unit) \<times> 'e state" where
  "writeUint32 address value = bindM heapUint32 (\<lambda>view. viewSet view (elementIndex address 4) value)"

definition writeUint32Atomic :: "nat \<Rightarrow> int \<Rightarrow> 'e state \<Rightarrow> (error + unit) \<times> 'e state" where
  "writeUint32Atomic address value = bindM heapUint32 (\<lambda>view. Atomics_store view (toIndex address 4) value)"

definition readBigInt64 :: "nat \<Rightarrow> 'e state \<Rightarrow> (error + int option) \<times> 'e state" where
  "readBigInt64 address = bindM heapBigInt64 (\<lambda>view. viewGet view (elementIndex address 8))"

definition readBigInt64Atomic :: "nat \<Rightarrow> 'e state \<Rightarrow> (error + int) \<times> 'e state" where
  "readBigInt64Atomic address = bindM heapBigInt64 (\<lambda>view. Atomics_load view (toIndex address 8))"

definition writeBigInt64 :: "nat \<Rightarrow> int \<Rightarrow> 'e state \<Rightarrow> (error + unit) \<times> 'e state" where
  "writeBigInt64 address value = bindM heapBigInt64 (\<lambda>view. viewSet view (elementIndex address 8) value)"

definition writeBigInt64Atomic :: "nat \<Rightarrow> int \<Rightarrow> 'e state \<Rightarrow> (error + unit) \<times> 'e state" where
  "writeBigInt64Atomic address value = bindM heapBigInt64 (\<lambda>view. Atomics_store view (toIndex address 8) value)"

definition readBigUint64 :: "nat \<Rightarrow> 'e state \<Rightarrow> (error + int option) \<times> 'e state" where
  "readBigUint64 address = bindM heapBigUint64 (\<lambda>view. viewGet view (elementIndex address 8))"

definition readBigUint64Atomic :: "nat \<Rightarrow> 'e state \<Rightarrow> (error + int) \<times> 'e state" where
  "readBigUint64Atomic address = bindM heapBigUint64 (\<lambda>view. Atomics_load view (toIndex address 8))"

definition writeBigUint64 :: "nat \<Rightarrow> int \<Rightarrow> 'e state \<Rightarrow> (error + unit) \<times> 'e state" where
  "writeBigUint64 address value = bindM heapBigUint64 (\<lambda>view. viewSet view (elementIndex address 8) value)"

definition writeBigUint64Atomic :: "nat \<Rightarrow> int \<Rightarrow> 'e state \<Rightarrow> (error + unit) \<times> 'e state" where
  "writeBigUint64Atomic address value = bindM heapBigUint64 (\<lambda>view. Atomics_store view (toIndex address 8) value)"

definition readFloat32 :: "nat \<Rightarrow> 'e state \<Rightarrow> (error + int option) \<times> 'e state" where
  "readFloat32 address = bindM heapFloat32 (\<lambda>view. viewGet view (elementIndex address 4))"

definition readFloat32Atomic :: "nat \<Rightarrow> 'e state \<Rightarrow> (error + int) \<times> 'e state" where
  "readFloat32Atomic address =
     bindM (readUint32Atomic address) (\<lambda>uint32Value.
     returnM (uint32ToFloat32 uint32Value))"

definition writeFloat32 :: "nat \<Rightarrow> int \<Rightarrow> 'e state \<Rightarrow> (error + unit) \<times> 'e state" where
  "writeFloat32 address value = bindM heapFloat32 (\<lambda>view. viewSet view (elementIndex address 4) value)"

definition writeFloat32Atomic :: "nat \<Rightarrow> int \<Rightarrow> 'e state \<Rightarrow> (error + unit) \<times> 'e state" where
  "writeFloat32Atomic address value =
     (let uint32Value = float32ToUint32 value
      in writeUint32Atomic address uint32Value)"

definition readFloat64 :: "nat \<Rightarrow> 'e state \<Rightarrow> (error + int option) \<times> 'e state" where
  "readFloat64 address = bindM heapFloat64 (\<lambda>view. viewGet view (elementIndex address 8))"

definition readFloat64Atomic :: "nat \<Rightarrow> 'e state \<Rightarrow> (error + int) \<times> 'e state" where
  "readFloat64Atomic address =
     bindM (readBigUint64Atomic address) (\<lambda>bitUint64Value.
     returnM (bigUint64ToFloat64 bitUint64Value))"

definition writeFloat64 :: "nat \<Rightarrow> int \<Rightarrow> 'e state \<Rightarrow> (error + unit) \<times> 'e state" where
  "writeFloat64 address value = bindM heapFloat64 (\<lambda>view. viewSet view (elementIndex address 8) value)"

definition writeFloat64Atomic :: "nat \<Rightarrow> int \<Rightarrow> 'e state \<Rightarrow> (error + unit) \<times> 'e state" where
  "writeFloat64Atomic address value =
     (let bigUint64Value = float64ToBigUint64 value
      in writeBigUint64Atomic address bigUint64Value)"

text \<open>
  The same methods by kind, for statements that range over every kind.
\<close>

fun readNumeric :: "kind \<Rightarrow> nat \<Rightarrow> 'e state \<Rightarrow> (error + int option) \<times> 'e state" where
  "readNumeric Int8 = readInt8"
| "readNumeric Uint8 = readUint8"
| "readNumeric Uint8Clamped = readUint8Clamped"
| "readNumeric Int16 = readInt16"
| "readNumeric Uint16 = readUint16"
| "readNumeric Int32 = readInt32"
| "readNumeric Uint32 = readUint32"
| "readNumeric BigInt64 = readBigInt64"
| "readNumeric BigUint64 = readBigUint64"
| "readNumeric Float32 = readFloat32"
| "readNumeric Float64 = readFloat64"

fun readNumericAtomic :: "kind \<Rightarrow> nat \<Rightarrow> 'e state \<Rightarrow> (error + int) \<times> 'e state" where
  "readNumericAtomic Int8 = readInt8Atomic"
| "readNumericAtomic Uint8 = readUint8Atomic"
| "readNumericAtomic Uint8Clamped = readUint8ClampedAtomic"
| "readNumericAtomic Int16 = readInt16Atomic"
| "readNumericAtomic Uint16 = readUint16Atomic"
| "readNumericAtomic Int32 = readInt32Atomic"
| "readNumericAtomic Uint32 = readUint32Atomic"
| "readNumericAtomic BigInt64 = readBigInt64Atomic"
| "readNumericAtomic BigUint64 = readBigUint64Atomic"
| "readNumericAtomic Float32 = readFloat32Atomic"
| "readNumericAtomic Float64 = readFloat64Atomic"

fun writeNumeric :: "kind \<Rightarrow> nat \<Rightarrow> int \<Rightarrow> 'e state \<Rightarrow> (error + unit) \<times> 'e state" where
  "writeNumeric Int8 = writeInt8"
| "writeNumeric Uint8 = writeUint8"
| "writeNumeric Uint8Clamped = writeUint8Clamped"
| "writeNumeric Int16 = writeInt16"
| "writeNumeric Uint16 = writeUint16"
| "writeNumeric Int32 = writeInt32"
| "writeNumeric Uint32 = writeUint32"
| "writeNumeric BigInt64 = writeBigInt64"
| "writeNumeric BigUint64 = writeBigUint64"
| "writeNumeric Float32 = writeFloat32"
| "writeNumeric Float64 = writeFloat64"

fun writeNumericAtomic :: "kind \<Rightarrow> nat \<Rightarrow> int \<Rightarrow> 'e state \<Rightarrow> (error + unit) \<times> 'e state" where
  "writeNumericAtomic Int8 = writeInt8Atomic"
| "writeNumericAtomic Uint8 = writeUint8Atomic"
| "writeNumericAtomic Uint8Clamped = writeUint8ClampedAtomic"
| "writeNumericAtomic Int16 = writeInt16Atomic"
| "writeNumericAtomic Uint16 = writeUint16Atomic"
| "writeNumericAtomic Int32 = writeInt32Atomic"
| "writeNumericAtomic Uint32 = writeUint32Atomic"
| "writeNumericAtomic BigInt64 = writeBigInt64Atomic"
| "writeNumericAtomic BigUint64 = writeBigUint64Atomic"
| "writeNumericAtomic Float32 = writeFloat32Atomic"
| "writeNumericAtomic Float64 = writeFloat64Atomic"

subsection \<open>Pointer types\<close>

text \<open>
  \<open>Pointer32\<close> is \<open>Uint32\<close> and \<open>Pointer64\<close> is \<open>BigUint64\<close> under another name.
  \<open>Pointer53\<close> is stored as \<open>BigUint64\<close> and handed to the caller as a number:
  \<open>Number(...)\<close> and \<open>BigInt(...)\<close> change the JavaScript type, not the integer (up to
  \<open>2^53 - 1\<close>, beyond which a number is no longer exact).
\<close>

definition readPointer32 :: "nat \<Rightarrow> 'e state \<Rightarrow> (error + int option) \<times> 'e state" where
  "readPointer32 address = readUint32 address"

definition readPointer32Atomic :: "nat \<Rightarrow> 'e state \<Rightarrow> (error + int) \<times> 'e state" where
  "readPointer32Atomic address = readUint32Atomic address"

definition writePointer32 :: "nat \<Rightarrow> int \<Rightarrow> 'e state \<Rightarrow> (error + unit) \<times> 'e state" where
  "writePointer32 address value = writeUint32 address value"

definition writePointer32Atomic :: "nat \<Rightarrow> int \<Rightarrow> 'e state \<Rightarrow> (error + unit) \<times> 'e state" where
  "writePointer32Atomic address value = writeUint32Atomic address value"

definition readPointer53 :: "nat \<Rightarrow> 'e state \<Rightarrow> (error + int option) \<times> 'e state" where
  "readPointer53 address = readBigUint64 address"

definition readPointer53Atomic :: "nat \<Rightarrow> 'e state \<Rightarrow> (error + int) \<times> 'e state" where
  "readPointer53Atomic address = readBigUint64Atomic address"

definition writePointer53 :: "nat \<Rightarrow> int \<Rightarrow> 'e state \<Rightarrow> (error + unit) \<times> 'e state" where
  "writePointer53 address value = writeBigUint64 address value"

definition writePointer53Atomic :: "nat \<Rightarrow> int \<Rightarrow> 'e state \<Rightarrow> (error + unit) \<times> 'e state" where
  "writePointer53Atomic address value = writeBigUint64Atomic address value"

definition readPointer64 :: "nat \<Rightarrow> 'e state \<Rightarrow> (error + int option) \<times> 'e state" where
  "readPointer64 address = readBigUint64 address"

definition readPointer64Atomic :: "nat \<Rightarrow> 'e state \<Rightarrow> (error + int) \<times> 'e state" where
  "readPointer64Atomic address = readBigUint64Atomic address"

definition writePointer64 :: "nat \<Rightarrow> int \<Rightarrow> 'e state \<Rightarrow> (error + unit) \<times> 'e state" where
  "writePointer64 address value = writeBigUint64 address value"

definition writePointer64Atomic :: "nat \<Rightarrow> int \<Rightarrow> 'e state \<Rightarrow> (error + unit) \<times> 'e state" where
  "writePointer64Atomic address value = writeBigUint64Atomic address value"

subsection \<open>Views of a region\<close>

text \<open>
  \<open>viewXArray(address, elementCount)\<close> is
  \<open>this.heapX.subarray(address / width, address / width + elementCount)\<close>;
  \<open>subarray\<close> truncates a fractional bound.
\<close>

definition viewUint8Array :: "nat \<Rightarrow> nat \<Rightarrow> 'e state \<Rightarrow> (error + typedArray) \<times> 'e state" where
  "viewUint8Array address elementCount =
     bindM heapUint8 (\<lambda>view s.
       (Inr (subarray (buffers (world s)) view (int address) (Some (int address + int elementCount))), s))"

definition viewArray :: "kind \<Rightarrow> nat \<Rightarrow> nat \<Rightarrow> 'e state \<Rightarrow> (error + typedArray) \<times> 'e state" where
  "viewArray k address elementCount =
     bindM (heapView k) (\<lambda>view s.
       (let startIndex = int (address div bytesPerElementOf k);
            endIndex = startIndex + int elementCount
        in (Inr (subarray (buffers (world s)) view startIndex (Some endIndex)), s)))"


section \<open>Allocating and freeing through the capabilities\<close>

definition writeElements :: "typedArray \<Rightarrow> nat list \<Rightarrow> store \<Rightarrow> store" where
  "writeElements ta es B =
     fold (\<lambda>(i, e) B'. ta_set B' ta (Some i) (int e)) (zip [0 ..< length es] es) B"

definition fillView :: "typedArray \<Rightarrow> int \<Rightarrow> 'e state \<Rightarrow> (error + unit) \<times> 'e state" where
  "fillView ta v s =
     (Inr (), s\<lparr>world := (world s)\<lparr>buffers := ta_fill (buffers (world s)) ta v\<rparr>\<rparr>)"

definition alloc :: "nat \<Rightarrow> 'e state \<Rightarrow> (error + nat) \<times> 'e state" where
  "alloc allocatedByteCount =
     bindM (callAllocate allocatedByteCount) (\<lambda>address.
     bindM (getsM (\<lambda>s. clearAllocatedRegions (options s))) (\<lambda>clear.
       if clear = Some True
       then bindM (viewUint8Array address allocatedByteCount) (\<lambda>region.
            bindM (fillView region 0) (\<lambda>_.
            returnM address))
       else returnM address))"

section \<open>Heap references\<close>

text \<open>
  A reference object holds its address and, for strings and arrays, its element count;
  its class decides which methods it has and what they do. The eleven \<open>XRef\<close> classes
  of numeric references differ only in the kind they read and write, so they are one
  constructor with the kind as argument; likewise the eleven \<open>XArrayRef\<close> classes.

  The class hierarchy of the source: \<open>NumericRef\<close>, \<open>StringRef\<close> and \<open>TypedArrayRef\<close>
  extend \<open>HeapRef\<close>; the three pointer references extend \<open>NumericRef\<close>; the three
  pointer array references extend \<open>PointerArrayRef\<close>, which extends \<open>TypedArrayRef\<close>.
  No class extends \<open>PointerRef\<close>.
\<close>

datatype refClass =
    NumericRef kind
  | Pointer32Ref | Pointer53Ref | Pointer64Ref
  | NullTerminatedAsciiStringRef
  | NullTerminatedUtf8StringRef
  | NullTerminatedUtf16StringRef
  | NullTerminatedUtf32StringRef
  | TypedArrayRef kind
  | Pointer32ArrayRef | Pointer53ArrayRef | Pointer64ArrayRef

record heapRef =
  ref_address :: nat
  ref_class :: refClass
  ref_elementCount :: nat

definition isFreed :: "heapRef \<Rightarrow> bool" where
  "isFreed r = (ref_address r = 0)"

definition assertNotFreed :: "heapRef \<Rightarrow> 's \<Rightarrow> (error + unit) \<times> 's" where
  "assertNotFreed r = (if isFreed r then throwM UseAfterFree else returnM ())"

text \<open>
  \<open>WasmHeapManager.free\<close> has two overloads. Given a number it calls the deallocator.
  Given a reference it returns at once when the reference is freed, and otherwise calls
  the deallocator with the reference's address and sets the address to 0; the mutated
  reference is the result.
\<close>

definition free_address :: "nat \<Rightarrow> 'e state \<Rightarrow> (error + unit) \<times> 'e state" where
  "free_address address = callDeallocate address"

definition free_heapReference :: "heapRef \<Rightarrow> 'e state \<Rightarrow> (error + heapRef) \<times> 'e state" where
  "free_heapReference heapReference =
     (if isFreed heapReference then returnM heapReference
      else bindM (callDeallocate (ref_address heapReference)) (\<lambda>_.
           returnM (heapReference\<lparr>ref_address := 0\<rparr>)))"

definition registerFinalizerIfEnabled :: "heapRef \<Rightarrow> 'e state \<Rightarrow> (error + unit) \<times> 'e state" where
  "registerFinalizerIfEnabled r s =
     (if enableGarbageCollection (options s) = Some True
      then (Inr (), s\<lparr>finalizationRegistry := finalizationRegistry s @ [ref_address r]\<rparr>)
      else (Inr (), s))"

subsection \<open>What every reference has\<close>

fun stringBytesPerElement :: "refClass \<Rightarrow> nat" where
  "stringBytesPerElement NullTerminatedUtf16StringRef = 2"
| "stringBytesPerElement NullTerminatedUtf32StringRef = 4"
| "stringBytesPerElement _ = 1"

fun allocatedByteCount :: "heapRef \<Rightarrow> nat" where
  "allocatedByteCount r =
     (case ref_class r of
        NumericRef k \<Rightarrow> bytesPerElementOf k
      | Pointer32Ref \<Rightarrow> 4
      | Pointer53Ref \<Rightarrow> 8
      | Pointer64Ref \<Rightarrow> 8
      | TypedArrayRef k \<Rightarrow> ref_elementCount r * bytesPerElementOf k
      | Pointer32ArrayRef \<Rightarrow> ref_elementCount r * 4
      | Pointer53ArrayRef \<Rightarrow> ref_elementCount r * 8
      | Pointer64ArrayRef \<Rightarrow> ref_elementCount r * 8
      | c \<Rightarrow> ref_elementCount r * stringBytesPerElement c)"

definition HeapRef_free :: "heapRef \<Rightarrow> 'e state \<Rightarrow> (error + heapRef) \<times> 'e state" where
  "HeapRef_free r = free_heapReference r"

definition allocatedBytesView :: "heapRef \<Rightarrow> 'e state \<Rightarrow> (error + typedArray) \<times> 'e state" where
  "allocatedBytesView r = viewUint8Array (ref_address r) (allocatedByteCount r)"

definition HeapRef_clear :: "heapRef \<Rightarrow> 'e state \<Rightarrow> (error + unit) \<times> 'e state" where
  "HeapRef_clear r =
     bindM (assertNotFreed r) (\<lambda>_.
     bindM (allocatedBytesView r) (\<lambda>view.
     fillView view 0))"

subsection \<open>Numeric and pointer references\<close>

text \<open>
  Each of \<open>read\<close>, \<open>readAtomic\<close>, \<open>write\<close>, \<open>writeAtomic\<close> asserts that the reference
  is not freed and then calls the manager's method of the same kind at the reference's
  address. A class without the method has no such property: the call is a
  \<open>TypeError\<close>.
\<close>

definition NumericRef_read :: "heapRef \<Rightarrow> 'e state \<Rightarrow> (error + int option) \<times> 'e state" where
  "NumericRef_read r =
     bindM (assertNotFreed r) (\<lambda>_.
       case ref_class r of
         NumericRef k \<Rightarrow> readNumeric k (ref_address r)
       | Pointer32Ref \<Rightarrow> readPointer32 (ref_address r)
       | Pointer53Ref \<Rightarrow> readPointer53 (ref_address r)
       | Pointer64Ref \<Rightarrow> readPointer64 (ref_address r)
       | _ \<Rightarrow> throwM TypeError)"

definition NumericRef_readAtomic :: "heapRef \<Rightarrow> 'e state \<Rightarrow> (error + int) \<times> 'e state" where
  "NumericRef_readAtomic r =
     bindM (assertNotFreed r) (\<lambda>_.
       case ref_class r of
         NumericRef k \<Rightarrow> readNumericAtomic k (ref_address r)
       | Pointer32Ref \<Rightarrow> readPointer32Atomic (ref_address r)
       | Pointer53Ref \<Rightarrow> readPointer53Atomic (ref_address r)
       | Pointer64Ref \<Rightarrow> readPointer64Atomic (ref_address r)
       | _ \<Rightarrow> throwM TypeError)"

definition NumericRef_write :: "heapRef \<Rightarrow> int \<Rightarrow> 'e state \<Rightarrow> (error + unit) \<times> 'e state" where
  "NumericRef_write r newValue =
     bindM (assertNotFreed r) (\<lambda>_.
       case ref_class r of
         NumericRef k \<Rightarrow> writeNumeric k (ref_address r) newValue
       | Pointer32Ref \<Rightarrow> writePointer32 (ref_address r) newValue
       | Pointer53Ref \<Rightarrow> writePointer53 (ref_address r) newValue
       | Pointer64Ref \<Rightarrow> writePointer64 (ref_address r) newValue
       | _ \<Rightarrow> throwM TypeError)"

definition NumericRef_writeAtomic :: "heapRef \<Rightarrow> int \<Rightarrow> 'e state \<Rightarrow> (error + unit) \<times> 'e state" where
  "NumericRef_writeAtomic r newValue =
     bindM (assertNotFreed r) (\<lambda>_.
       case ref_class r of
         NumericRef k \<Rightarrow> writeNumericAtomic k (ref_address r) newValue
       | Pointer32Ref \<Rightarrow> writePointer32Atomic (ref_address r) newValue
       | Pointer53Ref \<Rightarrow> writePointer53Atomic (ref_address r) newValue
       | Pointer64Ref \<Rightarrow> writePointer64Atomic (ref_address r) newValue
       | _ \<Rightarrow> throwM TypeError)"

text \<open>The \<open>value\<close> getter and setter assert, then call \<open>read\<close> or \<open>write\<close>.\<close>

definition NumericRef_get_value :: "heapRef \<Rightarrow> 'e state \<Rightarrow> (error + int option) \<times> 'e state" where
  "NumericRef_get_value r = bindM (assertNotFreed r) (\<lambda>_. NumericRef_read r)"

definition NumericRef_set_value :: "heapRef \<Rightarrow> int \<Rightarrow> 'e state \<Rightarrow> (error + unit) \<times> 'e state" where
  "NumericRef_set_value r newValue = bindM (assertNotFreed r) (\<lambda>_. NumericRef_write r newValue)"

text \<open>
  \<open>PointerRef.free(options)\<close>, the method of the abstract class \<open>PointerRef\<close>: with
  \<open>freePointedAddress\<close> it reads the pointer, frees the address read through the
  manager, and then frees the reference as \<open>HeapRef.free\<close> does. \<open>undefined\<close> read
  from a cell out of range would reach the deallocator as \<open>NaN\<close>, which is no
  address; the model stops there with a \<open>TypeError\<close>.
\<close>

definition PointerRef_free :: "bool option \<Rightarrow> heapRef \<Rightarrow> 'e state \<Rightarrow> (error + heapRef) \<times> 'e state" where
  "PointerRef_free freePointedAddress r =
     (if freePointedAddress = Some True
      then bindM (NumericRef_read r) (\<lambda>pointed.
           case pointed of
             None \<Rightarrow> throwM TypeError
           | Some pointedAddress \<Rightarrow>
               bindM (free_address (nat pointedAddress)) (\<lambda>_. HeapRef_free r))
      else HeapRef_free r)"

text \<open>
  \<open>Pointer32Ref\<close>, \<open>Pointer53Ref\<close> and \<open>Pointer64Ref\<close> extend \<open>NumericRef\<close> and define no
  \<open>free\<close> of their own: the \<open>free\<close> they inherit is \<open>HeapRef.free()\<close>, which takes no
  argument, so an options object passed to it is not looked at.
\<close>

definition Pointer32Ref_free :: "bool option \<Rightarrow> heapRef \<Rightarrow> 'e state \<Rightarrow> (error + heapRef) \<times> 'e state" where
  "Pointer32Ref_free freePointedAddress r = HeapRef_free r"

definition Pointer53Ref_free :: "bool option \<Rightarrow> heapRef \<Rightarrow> 'e state \<Rightarrow> (error + heapRef) \<times> 'e state" where
  "Pointer53Ref_free freePointedAddress r = HeapRef_free r"

definition Pointer64Ref_free :: "bool option \<Rightarrow> heapRef \<Rightarrow> 'e state \<Rightarrow> (error + heapRef) \<times> 'e state" where
  "Pointer64Ref_free freePointedAddress r = HeapRef_free r"

subsection \<open>Typed array references\<close>

fun arrayKind :: "refClass \<Rightarrow> kind option" where
  "arrayKind (TypedArrayRef k) = Some k"
| "arrayKind Pointer32ArrayRef = Some Uint32"
| "arrayKind Pointer53ArrayRef = Some BigUint64"
| "arrayKind Pointer64ArrayRef = Some BigUint64"
| "arrayKind _ = None"

definition TypedArrayRef_view :: "heapRef \<Rightarrow> 'e state \<Rightarrow> (error + typedArray) \<times> 'e state" where
  "TypedArrayRef_view r =
     bindM (assertNotFreed r) (\<lambda>_.
       case arrayKind (ref_class r) of
         Some k \<Rightarrow> viewArray k (ref_address r) (ref_elementCount r)
       | None \<Rightarrow> throwM TypeError)"

definition TypedArrayRef_readAt :: "heapRef \<Rightarrow> nat \<Rightarrow> 'e state \<Rightarrow> (error + int option) \<times> 'e state" where
  "TypedArrayRef_readAt r index =
     bindM (assertNotFreed r) (\<lambda>_.
       case ref_class r of
         TypedArrayRef k \<Rightarrow> readNumeric k (ref_address r + index * bytesPerElementOf k)
       | Pointer32ArrayRef \<Rightarrow> readPointer32 (ref_address r + index * 4)
       | Pointer53ArrayRef \<Rightarrow> readPointer53 (ref_address r + index * 8)
       | Pointer64ArrayRef \<Rightarrow> readPointer64 (ref_address r + index * 8)
       | _ \<Rightarrow> throwM TypeError)"

definition TypedArrayRef_readAtomicAt :: "heapRef \<Rightarrow> nat \<Rightarrow> 'e state \<Rightarrow> (error + int) \<times> 'e state" where
  "TypedArrayRef_readAtomicAt r index =
     bindM (assertNotFreed r) (\<lambda>_.
       case ref_class r of
         TypedArrayRef k \<Rightarrow> readNumericAtomic k (ref_address r + index * bytesPerElementOf k)
       | Pointer32ArrayRef \<Rightarrow> readPointer32Atomic (ref_address r + index * 4)
       | Pointer53ArrayRef \<Rightarrow> readPointer53Atomic (ref_address r + index * 8)
       | Pointer64ArrayRef \<Rightarrow> readPointer64Atomic (ref_address r + index * 8)
       | _ \<Rightarrow> throwM TypeError)"

definition TypedArrayRef_writeAt :: "heapRef \<Rightarrow> nat \<Rightarrow> int \<Rightarrow> 'e state \<Rightarrow> (error + unit) \<times> 'e state" where
  "TypedArrayRef_writeAt r index value =
     bindM (assertNotFreed r) (\<lambda>_.
       case ref_class r of
         TypedArrayRef k \<Rightarrow> writeNumeric k (ref_address r + index * bytesPerElementOf k) value
       | Pointer32ArrayRef \<Rightarrow> writePointer32 (ref_address r + index * 4) value
       | Pointer53ArrayRef \<Rightarrow> writePointer53 (ref_address r + index * 8) value
       | Pointer64ArrayRef \<Rightarrow> writePointer64 (ref_address r + index * 8) value
       | _ \<Rightarrow> throwM TypeError)"

definition TypedArrayRef_writeAtomicAt :: "heapRef \<Rightarrow> nat \<Rightarrow> int \<Rightarrow> 'e state \<Rightarrow> (error + unit) \<times> 'e state" where
  "TypedArrayRef_writeAtomicAt r index value =
     bindM (assertNotFreed r) (\<lambda>_.
       case ref_class r of
         TypedArrayRef k \<Rightarrow> writeNumericAtomic k (ref_address r + index * bytesPerElementOf k) value
       | Pointer32ArrayRef \<Rightarrow> writePointer32Atomic (ref_address r + index * 4) value
       | Pointer53ArrayRef \<Rightarrow> writePointer53Atomic (ref_address r + index * 8) value
       | Pointer64ArrayRef \<Rightarrow> writePointer64Atomic (ref_address r + index * 8) value
       | _ \<Rightarrow> throwM TypeError)"

text \<open>
  \<open>PointerArrayRef.free(options)\<close>: with \<open>freeElements\<close> it asserts, frees every
  element as an address, first to last, and then frees the reference.
\<close>

fun freeElementsFrom :: "nat \<Rightarrow> nat \<Rightarrow> heapRef \<Rightarrow> 'e state \<Rightarrow> (error + unit) \<times> 'e state" where
  "freeElementsFrom 0 i r = returnM ()"
| "freeElementsFrom (Suc n) i r =
     bindM (TypedArrayRef_readAt r i) (\<lambda>element.
       case element of
         None \<Rightarrow> throwM TypeError
       | Some a \<Rightarrow> bindM (free_address (nat a)) (\<lambda>_. freeElementsFrom n (Suc i) r))"

definition PointerArrayRef_free :: "bool option \<Rightarrow> heapRef \<Rightarrow> 'e state \<Rightarrow> (error + heapRef) \<times> 'e state" where
  "PointerArrayRef_free freeElements r =
     (if freeElements = Some True
      then bindM (assertNotFreed r) (\<lambda>_.
           bindM (freeElementsFrom (ref_elementCount r) 0 r) (\<lambda>_.
           HeapRef_free r))
      else HeapRef_free r)"


section \<open>Null-terminated strings\<close>

text \<open>A JavaScript string is a sequence of UTF-16 code units; \<open>length\<close> counts them.\<close>

type_synonym jsString = "16 word list"

subsection \<open>The encoders\<close>

text \<open>
  Modelled from the spec: \<open>encodeAsciiInto\<close>, \<open>encodeUtf8Into\<close>, \<open>encodeUtf8\<close>,
  \<open>encodeUtf16Into\<close> and \<open>encodeUtf32Into\<close> (the modules under \<open>./encodings\<close>) are
  not among the sources. The spec gives their contract: \<open>encodeInto(text, span)\<close>
  encodes as many source characters as fit in the span and reports how many source
  characters were consumed (\<open>read\<close>) and how many destination elements were produced
  (\<open>written\<close>); an ASCII or UTF-8 element is a byte, a UTF-16 element a code unit, a
  UTF-32 element a code point.

  A source is first cut into characters, each with the elements that encode it and the
  number of code units it takes; \<open>encodeFit\<close> then takes whole characters while they
  fit. The result is the elements to store from the start of the span, and \<open>read\<close>.
\<close>

definition isHighSurrogate :: "16 word \<Rightarrow> bool" where
  "isHighSurrogate c = (55296 \<le> unat c \<and> unat c < 56320)"

definition isLowSurrogate :: "16 word \<Rightarrow> bool" where
  "isLowSurrogate c = (56320 \<le> unat c \<and> unat c < 57344)"

fun codePoints :: "jsString \<Rightarrow> (nat \<times> nat) list" where
  "codePoints [] = []"
| "codePoints [c] = [(unat c, 1)]"
| "codePoints (h # l # rest) =
     (if isHighSurrogate h \<and> isLowSurrogate l
      then (65536 + (unat h - 55296) * 1024 + (unat l - 56320), 2) # codePoints rest
      else (unat h, 1) # codePoints (l # rest))"

definition utf8Bytes :: "nat \<Rightarrow> nat list" where
  "utf8Bytes cp =
     (if cp < 128 then [cp]
      else if cp < 2048 then [192 + cp div 64, 128 + cp mod 64]
      else if 55296 \<le> cp \<and> cp < 57344 then [239, 191, 189]
      else if cp < 65536 then [224 + cp div 4096, 128 + (cp div 64) mod 64, 128 + cp mod 64]
      else [240 + cp div 262144, 128 + (cp div 4096) mod 64, 128 + (cp div 64) mod 64,
            128 + cp mod 64])"

fun encodeFit :: "(nat list \<times> nat) list \<Rightarrow> nat \<Rightarrow> nat list \<times> nat" where
  "encodeFit [] cap = ([], 0)"
| "encodeFit ((es, units) # rest) cap =
     (if length es \<le> cap
      then (case encodeFit rest (cap - length es) of (ws, r) \<Rightarrow> (es @ ws, units + r))
      else ([], 0))"

definition encodeAsciiInto :: "jsString \<Rightarrow> nat \<Rightarrow> nat list \<times> nat" where
  "encodeAsciiInto text cap = encodeFit (map (\<lambda>c. ([unat c mod 128], 1)) text) cap"

definition encodeUtf8Into :: "jsString \<Rightarrow> nat \<Rightarrow> nat list \<times> nat" where
  "encodeUtf8Into text cap = encodeFit (map (\<lambda>(cp, units). (utf8Bytes cp, units)) (codePoints text)) cap"

definition encodeUtf8 :: "jsString \<Rightarrow> nat list" where
  "encodeUtf8 text = concat (map (\<lambda>(cp, units). utf8Bytes cp) (codePoints text))"

definition encodeUtf16Into :: "jsString \<Rightarrow> nat \<Rightarrow> nat list \<times> nat" where
  "encodeUtf16Into text cap = encodeFit (map (\<lambda>c. ([unat c], 1)) text) cap"

definition encodeUtf32Into :: "jsString \<Rightarrow> nat \<Rightarrow> nat list \<times> nat" where
  "encodeUtf32Into text cap = encodeFit (map (\<lambda>(cp, units). ([cp], units)) (codePoints text)) cap"

text \<open>
  The decoders are not among the sources either, and no claim here depends on what they
  return: the reading methods take them as a parameter.
\<close>

record decoders =
  decodeAscii :: "nat list \<Rightarrow> jsString"
  decodeUtf8 :: "nat list \<Rightarrow> jsString"
  decodeUtf16 :: "nat list \<Rightarrow> jsString"
  decodeUtf32 :: "nat list \<Rightarrow> jsString"

subsection \<open>Common string utilities\<close>

definition scanForZero :: "typedArray \<Rightarrow> 'e state \<Rightarrow> (error + nat) \<times> 'e state" where
  "scanForZero memoryRegionToScan s =
     (case ta_indexOf (buffers (world s)) memoryRegionToScan 0 of
        None \<Rightarrow> (Inl NullTerminatorNotFound, s)
      | Some result \<Rightarrow> (Inr result, s))"

definition getElementCountOfNullTerminatedString ::
  "nat \<Rightarrow> nat \<Rightarrow> nat option \<Rightarrow> 'e state \<Rightarrow> (error + nat) \<times> 'e state" where
  "getElementCountOfNullTerminatedString address bytesPerElement maxElementCount =
     (let startIndex = int (address div bytesPerElement);
          endIndex = (case maxElementCount of None \<Rightarrow> None | Some m \<Rightarrow> Some (startIndex + int m))
      in if bytesPerElement = 1
         then bindM heapUint8 (\<lambda>h s. scanForZero (subarray (buffers (world s)) h startIndex endIndex) s)
         else if bytesPerElement = 2
         then bindM heapUint16 (\<lambda>h s. scanForZero (subarray (buffers (world s)) h startIndex endIndex) s)
         else if bytesPerElement = 4
         then bindM heapUint32 (\<lambda>h s. scanForZero (subarray (buffers (world s)) h startIndex endIndex) s)
         else throwM InvalidArgument)"

subsection \<open>Reading and writing strings at an address\<close>

definition readEncoded ::
  "kind \<Rightarrow> nat \<Rightarrow> nat option \<Rightarrow> 'e state \<Rightarrow> (error + nat list) \<times> 'e state" where
  "readEncoded k address maxElementCount =
     bindM (getElementCountOfNullTerminatedString address (bytesPerElementOf k) maxElementCount)
       (\<lambda>stringElementCount.
     bindM (heapView k) (\<lambda>h s.
       (let addressAsIndex = int (address div bytesPerElementOf k)
        in (Inr (ta_elements (buffers (world s))
                  (subarray (buffers (world s)) h addressAsIndex
                     (Some (addressAsIndex + int stringElementCount)))), s))))"

definition readNullTerminatedAsciiString ::
  "decoders \<Rightarrow> nat \<Rightarrow> nat option \<Rightarrow> 'e state \<Rightarrow> (error + jsString) \<times> 'e state" where
  "readNullTerminatedAsciiString d address maxElementCount =
     bindM (readEncoded Uint8 address maxElementCount) (\<lambda>encodedString.
     returnM (decodeAscii d encodedString))"

definition readNullTerminatedUtf8String ::
  "decoders \<Rightarrow> nat \<Rightarrow> nat option \<Rightarrow> 'e state \<Rightarrow> (error + jsString) \<times> 'e state" where
  "readNullTerminatedUtf8String d address maxElementCount =
     bindM (readEncoded Uint8 address maxElementCount) (\<lambda>encodedString.
     returnM (decodeUtf8 d encodedString))"

definition readNullTerminatedUtf16String ::
  "decoders \<Rightarrow> nat \<Rightarrow> nat option \<Rightarrow> 'e state \<Rightarrow> (error + jsString) \<times> 'e state" where
  "readNullTerminatedUtf16String d address maxElementCount =
     bindM (readEncoded Uint16 address maxElementCount) (\<lambda>encodedString.
     returnM (decodeUtf16 d encodedString))"

definition readNullTerminatedUtf32String ::
  "decoders \<Rightarrow> nat \<Rightarrow> nat option \<Rightarrow> 'e state \<Rightarrow> (error + jsString) \<times> 'e state" where
  "readNullTerminatedUtf32String d address maxElementCount =
     bindM (readEncoded Uint32 address maxElementCount) (\<lambda>encodedString.
     returnM (decodeUtf32 d encodedString))"

text \<open>
  The four writers. Each takes the view once, cuts the destination region out of it,
  lets the encoder fill the region, and stores the terminator through the view at the
  index after the last element written.

  The ASCII writer has no capacity parameter. The UTF-16 and UTF-32 writers have an
  optional one and test it only when it is given and not 0. The UTF-8 writer requires
  it, leaves the last element of the capacity to the terminator, and raises when the
  encoder could not consume the whole string.
\<close>

definition writeNullTerminatedAsciiString ::
  "nat \<Rightarrow> jsString \<Rightarrow> 'e state \<Rightarrow> (error + unit) \<times> 'e state" where
  "writeNullTerminatedAsciiString address value =
     bindM heapUint8 (\<lambda>heapUint8' s.
       (let B = buffers (world s);
            charCount = length value;
            memoryRegion = subarray B heapUint8' (int address) (Some (int address + int charCount));
            (elements, read) = encodeAsciiInto value (ta_currentLength B memoryRegion);
            written = length elements;
            B' = writeElements memoryRegion elements B
        in (Inr (), s\<lparr>world := (world s)\<lparr>buffers := ta_set B' heapUint8' (Some (address + written)) 0\<rparr>\<rparr>)))"

definition writeNullTerminatedUtf8String ::
  "nat \<Rightarrow> jsString \<Rightarrow> nat \<Rightarrow> 'e state \<Rightarrow> (error + nat) \<times> 'e state" where
  "writeNullTerminatedUtf8String address value maxElementCount =
     bindM heapUint8 (\<lambda>heapUint8' s.
       (let B = buffers (world s);
            memoryRegion = subarray B heapUint8' (int address)
                             (Some ((int address + int maxElementCount) - 1));
            (elements, read) = encodeUtf8Into value (ta_currentLength B memoryRegion);
            written = length elements;
            B' = writeElements memoryRegion elements B;
            s' = s\<lparr>world := (world s)\<lparr>buffers := B'\<rparr>\<rparr>
        in if read < length value then (Inl CapacityExceeded, s')
           else (Inr written,
                 s\<lparr>world := (world s)\<lparr>buffers := ta_set B' heapUint8' (Some (address + written)) 0\<rparr>\<rparr>)))"

definition writeNullTerminatedUtf16String ::
  "nat \<Rightarrow> jsString \<Rightarrow> nat option \<Rightarrow> 'e state \<Rightarrow> (error + unit) \<times> 'e state" where
  "writeNullTerminatedUtf16String address value maxElementCount =
     bindM heapUint16 (\<lambda>heapUint16' s.
       (let B = buffers (world s);
            stringElementCount = length value
        in if (case maxElementCount of None \<Rightarrow> False
               | Some m \<Rightarrow> m \<noteq> 0 \<and> stringElementCount + 1 > m)
           then (Inl CapacityExceeded, s)
           else
             (let addressAsIndex = elementIndex address 2;
                  startIndex = int (address div 2);
                  memoryRegion = subarray B heapUint16' startIndex
                                   (Some (startIndex + int stringElementCount));
                  (elements, read) = encodeUtf16Into value (ta_currentLength B memoryRegion);
                  written = length elements;
                  B' = writeElements memoryRegion elements B
              in (Inr (), s\<lparr>world := (world s)\<lparr>buffers :=
                    ta_set B' heapUint16' (map_option (\<lambda>i. i + written) addressAsIndex) 0\<rparr>\<rparr>))))"

definition writeNullTerminatedUtf32String ::
  "nat \<Rightarrow> jsString \<Rightarrow> nat option \<Rightarrow> 'e state \<Rightarrow> (error + unit) \<times> 'e state" where
  "writeNullTerminatedUtf32String address value maxElementCount =
     bindM heapUint32 (\<lambda>heapUint32' s.
       (let B = buffers (world s);
            stringElementCount = length value
        in if (case maxElementCount of None \<Rightarrow> False
               | Some m \<Rightarrow> m \<noteq> 0 \<and> stringElementCount + 1 > m)
           then (Inl CapacityExceeded, s)
           else
             (let addressAsIndex = elementIndex address 4;
                  startIndex = int (address div 4);
                  memoryRegion = subarray B heapUint32' startIndex
                                   (Some (startIndex + int stringElementCount));
                  (elements, read) = encodeUtf32Into value (ta_currentLength B memoryRegion);
                  written = length elements;
                  B' = writeElements memoryRegion elements B
              in (Inr (), s\<lparr>world := (world s)\<lparr>buffers :=
                    ta_set B' heapUint32' (map_option (\<lambda>i. i + written) addressAsIndex) 0\<rparr>\<rparr>))))"


subsection \<open>String references\<close>

fun isStringClass :: "refClass \<Rightarrow> bool" where
  "isStringClass NullTerminatedAsciiStringRef = True"
| "isStringClass NullTerminatedUtf8StringRef = True"
| "isStringClass NullTerminatedUtf16StringRef = True"
| "isStringClass NullTerminatedUtf32StringRef = True"
| "isStringClass _ = False"

definition encodedElementCount :: "heapRef \<Rightarrow> 'e state \<Rightarrow> (error + nat) \<times> 'e state" where
  "encodedElementCount r =
     bindM (assertNotFreed r) (\<lambda>_.
       if isStringClass (ref_class r)
       then getElementCountOfNullTerminatedString (ref_address r)
              (stringBytesPerElement (ref_class r)) (Some (ref_elementCount r))
       else throwM TypeError)"

definition encodedByteCount :: "heapRef \<Rightarrow> 'e state \<Rightarrow> (error + nat) \<times> 'e state" where
  "encodedByteCount r =
     bindM (encodedElementCount r) (\<lambda>n. returnM (n * stringBytesPerElement (ref_class r)))"

definition encodedBytesView :: "heapRef \<Rightarrow> 'e state \<Rightarrow> (error + typedArray) \<times> 'e state" where
  "encodedBytesView r =
     bindM (assertNotFreed r) (\<lambda>_.
     bindM heapUint8 (\<lambda>h.
     bindM (encodedByteCount r) (\<lambda>n s.
       (Inr (subarray (buffers (world s)) h (int (ref_address r)) (Some (int (ref_address r) + int n))), s))))"

definition StringRef_read :: "decoders \<Rightarrow> heapRef \<Rightarrow> 'e state \<Rightarrow> (error + jsString) \<times> 'e state" where
  "StringRef_read d r =
     bindM (assertNotFreed r) (\<lambda>_.
       case ref_class r of
         NullTerminatedAsciiStringRef \<Rightarrow>
           readNullTerminatedAsciiString d (ref_address r) (Some (ref_elementCount r))
       | NullTerminatedUtf8StringRef \<Rightarrow>
           readNullTerminatedUtf8String d (ref_address r) (Some (ref_elementCount r))
       | NullTerminatedUtf16StringRef \<Rightarrow>
           readNullTerminatedUtf16String d (ref_address r) (Some (ref_elementCount r))
       | NullTerminatedUtf32StringRef \<Rightarrow>
           readNullTerminatedUtf32String d (ref_address r) (Some (ref_elementCount r))
       | _ \<Rightarrow> throwM TypeError)"

text \<open>
  \<open>write\<close>: only the UTF-8 class passes its \<open>allocatedElementCount\<close> to the manager;
  the ASCII, UTF-16 and UTF-32 classes pass the address and the string alone.
\<close>

definition StringRef_write :: "heapRef \<Rightarrow> jsString \<Rightarrow> 'e state \<Rightarrow> (error + unit) \<times> 'e state" where
  "StringRef_write r newValue =
     bindM (assertNotFreed r) (\<lambda>_.
       case ref_class r of
         NullTerminatedAsciiStringRef \<Rightarrow>
           writeNullTerminatedAsciiString (ref_address r) newValue
       | NullTerminatedUtf8StringRef \<Rightarrow>
           bindM (writeNullTerminatedUtf8String (ref_address r) newValue (ref_elementCount r))
             (\<lambda>_. returnM ())
       | NullTerminatedUtf16StringRef \<Rightarrow>
           writeNullTerminatedUtf16String (ref_address r) newValue None
       | NullTerminatedUtf32StringRef \<Rightarrow>
           writeNullTerminatedUtf32String (ref_address r) newValue None
       | _ \<Rightarrow> throwM TypeError)"

definition StringRef_get_value :: "decoders \<Rightarrow> heapRef \<Rightarrow> 'e state \<Rightarrow> (error + jsString) \<times> 'e state" where
  "StringRef_get_value d r = bindM (assertNotFreed r) (\<lambda>_. StringRef_read d r)"

definition StringRef_set_value :: "heapRef \<Rightarrow> jsString \<Rightarrow> 'e state \<Rightarrow> (error + unit) \<times> 'e state" where
  "StringRef_set_value r newValue = bindM (assertNotFreed r) (\<lambda>_. StringRef_write r newValue)"

text \<open>
  \<open>allocatedElementsView\<close>: the ASCII and UTF-8 classes return \<open>allocatedBytesView\<close>
  as it is; the UTF-16 and UTF-32 classes assert first.
\<close>

definition allocatedElementsView :: "heapRef \<Rightarrow> 'e state \<Rightarrow> (error + typedArray) \<times> 'e state" where
  "allocatedElementsView r =
     (case ref_class r of
        NullTerminatedAsciiStringRef \<Rightarrow> allocatedBytesView r
      | NullTerminatedUtf8StringRef \<Rightarrow> allocatedBytesView r
      | NullTerminatedUtf16StringRef \<Rightarrow>
          bindM (assertNotFreed r) (\<lambda>_. viewArray Uint16 (ref_address r) (ref_elementCount r))
      | NullTerminatedUtf32StringRef \<Rightarrow>
          bindM (assertNotFreed r) (\<lambda>_. viewArray Uint32 (ref_address r) (ref_elementCount r))
      | _ \<Rightarrow> throwM TypeError)"

definition encodedElementsViewOf :: "kind \<Rightarrow> heapRef \<Rightarrow> 'e state \<Rightarrow> (error + typedArray) \<times> 'e state" where
  "encodedElementsViewOf k r =
     bindM (assertNotFreed r) (\<lambda>_.
     bindM (heapView k) (\<lambda>h.
     bindM (encodedElementCount r) (\<lambda>n s.
       (let addressAsIndex = int (ref_address r div bytesPerElementOf k)
        in (Inr (subarray (buffers (world s)) h addressAsIndex (Some (addressAsIndex + int n))), s)))))"

definition encodedElementsView :: "heapRef \<Rightarrow> 'e state \<Rightarrow> (error + typedArray) \<times> 'e state" where
  "encodedElementsView r =
     (case ref_class r of
        NullTerminatedAsciiStringRef \<Rightarrow> encodedBytesView r
      | NullTerminatedUtf8StringRef \<Rightarrow> bindM (assertNotFreed r) (\<lambda>_. encodedBytesView r)
      | NullTerminatedUtf16StringRef \<Rightarrow> encodedElementsViewOf Uint16 r
      | NullTerminatedUtf32StringRef \<Rightarrow> encodedElementsViewOf Uint32 r
      | _ \<Rightarrow> throwM TypeError)"

subsection \<open>Allocating and wrapping strings\<close>

datatype stringOrNumber = IsNumber nat | IsString jsString

definition wrapNullTerminatedString ::
  "refClass \<Rightarrow> nat \<Rightarrow> nat option \<Rightarrow> 'e state \<Rightarrow> (error + heapRef) \<times> 'e state" where
  "wrapNullTerminatedString c address maxElementCount =
     bindM (case maxElementCount of
              None \<Rightarrow> getElementCountOfNullTerminatedString address (stringBytesPerElement c) None
            | Some m \<Rightarrow> returnM m) (\<lambda>m.
     returnM \<lparr>ref_address = address, ref_class = c, ref_elementCount = m\<rparr>)"

definition wrapNullTerminatedAsciiString ::
  "nat \<Rightarrow> nat option \<Rightarrow> 'e state \<Rightarrow> (error + heapRef) \<times> 'e state" where
  "wrapNullTerminatedAsciiString = wrapNullTerminatedString NullTerminatedAsciiStringRef"

definition wrapNullTerminatedUtf8String ::
  "nat \<Rightarrow> nat option \<Rightarrow> 'e state \<Rightarrow> (error + heapRef) \<times> 'e state" where
  "wrapNullTerminatedUtf8String = wrapNullTerminatedString NullTerminatedUtf8StringRef"

definition wrapNullTerminatedUtf16String ::
  "nat \<Rightarrow> nat option \<Rightarrow> 'e state \<Rightarrow> (error + heapRef) \<times> 'e state" where
  "wrapNullTerminatedUtf16String = wrapNullTerminatedString NullTerminatedUtf16StringRef"

definition wrapNullTerminatedUtf32String ::
  "nat \<Rightarrow> nat option \<Rightarrow> 'e state \<Rightarrow> (error + heapRef) \<times> 'e state" where
  "wrapNullTerminatedUtf32String = wrapNullTerminatedString NullTerminatedUtf32StringRef"

text \<open>\<open>view.set(elements)\<close>: a \<open>RangeError\<close> when the source is longer than the view.\<close>

definition setElements :: "typedArray \<Rightarrow> nat list \<Rightarrow> 'e state \<Rightarrow> (error + unit) \<times> 'e state" where
  "setElements ta es s =
     (if length es > ta_currentLength (buffers (world s)) ta then (Inl RangeError, s)
      else (Inr (), s\<lparr>world := (world s)\<lparr>buffers := writeElements ta es (buffers (world s))\<rparr>\<rparr>))"

definition allocNullTerminatedAsciiString ::
  "stringOrNumber \<Rightarrow> 'e state \<Rightarrow> (error + heapRef) \<times> 'e state" where
  "allocNullTerminatedAsciiString valueOrMaxElementCount =
     bindM (case valueOrMaxElementCount of
              IsNumber maxElementCount \<Rightarrow>
                (let allocatedElementCount = maxElementCount + 1
                 in bindM (alloc allocatedElementCount) (\<lambda>address.
                    wrapNullTerminatedAsciiString address (Some allocatedElementCount)))
            | IsString value \<Rightarrow>
                (let allocatedElementCount = length value + 1
                 in bindM (alloc allocatedElementCount) (\<lambda>address.
                    bindM (wrapNullTerminatedAsciiString address (Some allocatedElementCount)) (\<lambda>r.
                    bindM (StringRef_write r value) (\<lambda>_.
                    returnM r))))) (\<lambda>r.
     bindM (registerFinalizerIfEnabled r) (\<lambda>_.
     returnM r))"

text \<open>
  \<open>allocNullTerminatedUtf8String\<close>: the branch for a number calls
  \<open>wrapNullTerminatedAsciiString\<close>; the branch for a string calls
  \<open>wrapNullTerminatedUtf8String\<close>, copies the encoded bytes into the reference's
  \<open>allocatedElementsView\<close> and stores the terminator after them.
\<close>

definition allocNullTerminatedUtf8String ::
  "stringOrNumber \<Rightarrow> 'e state \<Rightarrow> (error + heapRef) \<times> 'e state" where
  "allocNullTerminatedUtf8String valueOrMaxElementCount =
     bindM (case valueOrMaxElementCount of
              IsNumber maxElementCount \<Rightarrow>
                (let allocatedElementCount = maxElementCount + 1
                 in bindM (alloc allocatedElementCount) (\<lambda>address.
                    wrapNullTerminatedAsciiString address (Some allocatedElementCount)))
            | IsString value \<Rightarrow>
                (let encodedString = encodeUtf8 value;
                     allocatedElementCount = length encodedString + 1
                 in bindM (alloc allocatedElementCount) (\<lambda>address.
                    bindM (wrapNullTerminatedUtf8String address (Some allocatedElementCount)) (\<lambda>r.
                    bindM (allocatedElementsView r) (\<lambda>allocatedElementsView'.
                    bindM (allocatedElementsView r) (\<lambda>view2.
                    bindM (setElements view2 encodedString) (\<lambda>_.
                    bindM (viewSet allocatedElementsView' (Some (length encodedString)) 0) (\<lambda>_.
                    returnM r)))))))) (\<lambda>r.
     bindM (registerFinalizerIfEnabled r) (\<lambda>_.
     returnM r))"

definition allocNullTerminatedUtf16String ::
  "stringOrNumber \<Rightarrow> 'e state \<Rightarrow> (error + heapRef) \<times> 'e state" where
  "allocNullTerminatedUtf16String valueOrMaxElementCount =
     bindM (case valueOrMaxElementCount of
              IsNumber maxElementCount \<Rightarrow>
                (let allocatedElementCount = maxElementCount + 1
                 in bindM (alloc (allocatedElementCount * 2)) (\<lambda>address.
                    wrapNullTerminatedUtf16String address (Some allocatedElementCount)))
            | IsString value \<Rightarrow>
                (let allocatedElementCount = length value + 1
                 in bindM (alloc (allocatedElementCount * 2)) (\<lambda>address.
                    bindM (wrapNullTerminatedUtf16String address (Some allocatedElementCount)) (\<lambda>r.
                    bindM (StringRef_write r value) (\<lambda>_.
                    returnM r))))) (\<lambda>r.
     bindM (registerFinalizerIfEnabled r) (\<lambda>_.
     returnM r))"

definition allocNullTerminatedUtf32String ::
  "stringOrNumber \<Rightarrow> 'e state \<Rightarrow> (error + heapRef) \<times> 'e state" where
  "allocNullTerminatedUtf32String valueOrMaxElementCount =
     bindM (case valueOrMaxElementCount of
              IsNumber maxElementCount \<Rightarrow>
                (let allocatedElementCount = maxElementCount + 1
                 in bindM (alloc (allocatedElementCount * 4)) (\<lambda>address.
                    wrapNullTerminatedUtf32String address (Some allocatedElementCount)))
            | IsString value \<Rightarrow>
                (let allocatedElementCount = length value + 1
                 in bindM (alloc (allocatedElementCount * 4)) (\<lambda>address.
                    bindM (wrapNullTerminatedUtf32String address (Some allocatedElementCount)) (\<lambda>r.
                    bindM (StringRef_write r value) (\<lambda>_.
                    returnM r))))) (\<lambda>r.
     bindM (registerFinalizerIfEnabled r) (\<lambda>_.
     returnM r))"

subsection \<open>Allocating and wrapping numeric values and pointers\<close>

definition wrapPointer32 :: "nat \<Rightarrow> heapRef" where
  "wrapPointer32 address = \<lparr>ref_address = address, ref_class = Pointer32Ref, ref_elementCount = 0\<rparr>"

definition wrapPointer53 :: "nat \<Rightarrow> heapRef" where
  "wrapPointer53 address = \<lparr>ref_address = address, ref_class = Pointer53Ref, ref_elementCount = 0\<rparr>"

definition wrapPointer64 :: "nat \<Rightarrow> heapRef" where
  "wrapPointer64 address = \<lparr>ref_address = address, ref_class = Pointer64Ref, ref_elementCount = 0\<rparr>"

definition wrapNumeric :: "kind \<Rightarrow> nat \<Rightarrow> heapRef" where
  "wrapNumeric k address = \<lparr>ref_address = address, ref_class = NumericRef k, ref_elementCount = 0\<rparr>"

definition allocRef ::
  "nat \<Rightarrow> (nat \<Rightarrow> heapRef) \<Rightarrow> int option \<Rightarrow> 'e state \<Rightarrow> (error + heapRef) \<times> 'e state" where
  "allocRef byteCount wrap initialValue =
     bindM (alloc byteCount) (\<lambda>address.
     (let r = wrap address
      in bindM (case initialValue of
                  None \<Rightarrow> returnM ()
                | Some v \<Rightarrow> NumericRef_write r v) (\<lambda>_.
         bindM (registerFinalizerIfEnabled r) (\<lambda>_.
         returnM r))))"

definition allocPointer32 :: "int option \<Rightarrow> 'e state \<Rightarrow> (error + heapRef) \<times> 'e state" where
  "allocPointer32 initialValue = allocRef 4 wrapPointer32 initialValue"

definition allocPointer53 :: "int option \<Rightarrow> 'e state \<Rightarrow> (error + heapRef) \<times> 'e state" where
  "allocPointer53 initialValue = allocRef 8 wrapPointer53 initialValue"

definition allocPointer64 :: "int option \<Rightarrow> 'e state \<Rightarrow> (error + heapRef) \<times> 'e state" where
  "allocPointer64 initialValue = allocRef 8 wrapPointer64 initialValue"

definition allocNumeric :: "kind \<Rightarrow> int option \<Rightarrow> 'e state \<Rightarrow> (error + heapRef) \<times> 'e state" where
  "allocNumeric k initialValue = allocRef (bytesPerElementOf k) (wrapNumeric k) initialValue"

section \<open>The arena allocator over an array buffer\<close>

text \<open>
  \<open>ArrayBufferArenaAllocator\<close> is the embedder of the repository's own test: a bump
  allocator that replaces its buffer by a larger copy when it runs out, and never
  frees. \<open>nextBuffer\<close> is the identity the next \<open>new ArrayBuffer\<close> gets.
\<close>

record arena =
  heap :: bufid
  alignmentConstant :: nat
  currentAllocationAddress :: nat
  nextBuffer :: bufid

definition alignToNextMultiple :: "nat \<Rightarrow> nat \<Rightarrow> nat" where
  "alignToNextMultiple value alignment =
     (if alignment = 0 then value
      else (let alignmentRemainder = value mod alignment
            in if alignmentRemainder > 0 then value + (alignment - alignmentRemainder) else value))"

definition newArena :: "nat \<Rightarrow> nat \<Rightarrow> arena world" where
  "newArena initialCapacity alignment =
     \<lparr>buffers = (\<lambda>_. [])(0 := replicate initialCapacity 0),
      embedder = \<lparr>heap = 0, alignmentConstant = alignment,
                  currentAllocationAddress = alignment, nextBuffer = 1\<rparr>\<rparr>"

definition arena_allocate :: "nat \<Rightarrow> arena world \<Rightarrow> (error + nat) \<times> arena world" where
  "arena_allocate requestedByteSize w =
     (let a = embedder w;
          startAddress = currentAllocationAddress a;
          endAddress = alignToNextMultiple (startAddress + requestedByteSize) (alignmentConstant a);
          capacity = length (buffers w (heap a));
          w' = (if endAddress > capacity
                then (let largerHeap = nextBuffer a;
                          old = buffers w (heap a)
                      in w\<lparr>buffers := (buffers w)(largerHeap :=
                                         old @ replicate (endAddress * 2 - length old) 0),
                           embedder := a\<lparr>heap := largerHeap, nextBuffer := Suc largerHeap\<rparr>\<rparr>)
                else w)
      in (Inr startAddress,
          w'\<lparr>embedder := (embedder w')\<lparr>currentAllocationAddress := endAddress\<rparr>\<rparr>))"

definition arena_deallocate :: "nat \<Rightarrow> arena world \<Rightarrow> arena world" where
  "arena_deallocate address w = w"


section \<open>Notions used in the statements\<close>

text \<open>
  The view of a whole buffer, and the state in which the cached buffer and all eleven
  views have been replaced by those of buffer \<open>b\<close>.
\<close>

definition wholeView :: "'e state \<Rightarrow> kind \<Rightarrow> bufid \<Rightarrow> typedArray" where
  "wholeView s k b =
     \<lparr>ta_kind = k, ta_buffer = b, ta_begin = 0,
      ta_length = byteLength s b div bytesPerElementOf k\<rparr>"

definition rebuilt :: "bufid \<Rightarrow> 'e state \<Rightarrow> 'e state" where
  "rebuilt b s = s\<lparr>cachedHeap := b,
     cachedHeapInt8 := wholeView s Int8 b,
     cachedHeapUint8 := wholeView s Uint8 b,
     cachedHeapUint8Clamped := wholeView s Uint8Clamped b,
     cachedHeapInt16 := wholeView s Int16 b,
     cachedHeapUint16 := wholeView s Uint16 b,
     cachedHeapInt32 := wholeView s Int32 b,
     cachedHeapUint32 := wholeView s Uint32 b,
     cachedHeapBigInt64 := wholeView s BigInt64 b,
     cachedHeapBigUint64 := wholeView s BigUint64 b,
     cachedHeapFloat32 := wholeView s Float32 b,
     cachedHeapFloat64 := wholeView s Float64 b\<rparr>"

text \<open>
  One generation: every cached view is the view of its kind over the cached buffer,
  from its first byte, and the eleven lengths are those of one byte length.
\<close>

definition viewsOver :: "'e state \<Rightarrow> bufid \<Rightarrow> nat \<Rightarrow> bool" where
  "viewsOver s b n =
     list_all (\<lambda>k. cachedView k s =
                 \<lparr>ta_kind = k, ta_buffer = b, ta_begin = 0, ta_length = n div bytesPerElementOf k\<rparr>)
       allKinds"

definition oneGeneration :: "'e state \<Rightarrow> bool" where
  "oneGeneration s = viewsOver s (cachedHeap s) (ta_length (cachedHeapUint8 s))"

text \<open>
  The data model requires of the embedder that the byte length of a heap buffer is a
  multiple of every element width, that is of 8. \<open>wellSized\<close> says so of every buffer
  of a world, and \<open>capabilitiesKeepSizes\<close> that allocating and deallocating keep it so.
\<close>

definition wellSized :: "'e world \<Rightarrow> bool" where
  "wellSized w = (\<forall>b. length (buffers w b) mod 8 = 0)"

definition capabilitiesKeepSizes :: "'e state \<Rightarrow> bool" where
  "capabilitiesKeepSizes s =
     (\<forall>n w. wellSized w \<longrightarrow> wellSized (snd (allocate s n w)) \<and> wellSized (deallocate s n w))"

definition coherent :: "'e state \<Rightarrow> bool" where
  "coherent s = (oneGeneration s \<and> wellSized (world s) \<and> capabilitiesKeepSizes s)"

text \<open>
  The refresh step as the claim about the polling modes words it: under \<open>always\<close> the
  views are rebuilt if and only if the fetched buffer differs in length from the cached
  one.
\<close>

definition updateCacheIfNeeded_claimed :: "'e state \<Rightarrow> (error + unit) \<times> 'e state" where
  "updateCacheIfNeeded_claimed s =
     (case pollingMode (options s) of
        Some never \<Rightarrow> (Inr (), s)
      | Some whenEmpty \<Rightarrow>
          if byteLength s (cachedHeap s) = 0
          then bindM callHeapGetter (\<lambda>newHeap s'.
                 if byteLength s' newHeap > 0 then updateCache newHeap s' else (Inr (), s')) s
          else (Inr (), s)
      | _ \<Rightarrow>
          bindM callHeapGetter (\<lambda>newHeap s'.
            if byteLength s' newHeap \<noteq> byteLength s' (cachedHeap s')
            then updateCache newHeap s' else (Inr (), s')) s)"

subsection \<open>Example embedders and states\<close>

text \<open>
  An embedder that holds two buffers of eight bytes and names one of them as current;
  its allocator hands out address 8 and its deallocator does nothing.
\<close>

definition twoBuffers :: "bufid world" where
  "twoBuffers = \<lparr>buffers = (\<lambda>_. [])(0 := replicate 8 0, 1 := replicate 8 0), embedder = 0\<rparr>"

definition currentBuffer :: "bufid \<Rightarrow> bufid" where
  "currentBuffer e = e"

definition allocateAt8 :: "nat \<Rightarrow> bufid world \<Rightarrow> (error + nat) \<times> bufid world" where
  "allocateAt8 n w = (Inr 8, w)"

definition deallocateNothing :: "nat \<Rightarrow> bufid world \<Rightarrow> bufid world" where
  "deallocateNothing a w = w"

definition optionsWithMode :: "pollingMode \<Rightarrow> WasmHeapManagerOptions" where
  "optionsWithMode m =
     \<lparr>clearAllocatedRegions = None, pollingMode = Some m, enableGarbageCollection = None\<rparr>"

text \<open>
  The manager constructed over that embedder with the given polling mode, and the same
  manager after the embedder has made its other buffer the current one.
\<close>

definition managerOverTwoBuffers :: "pollingMode \<Rightarrow> bufid state" where
  "managerOverTwoBuffers m =
     rebuilt 0 ((initialFields currentBuffer allocateAt8 deallocateNothing
                   (Some (optionsWithMode m)) twoBuffers)\<lparr>calls := [CallHeapGetter]\<rparr>)"

definition afterReplacement :: "pollingMode \<Rightarrow> bufid state" where
  "afterReplacement m =
     (managerOverTwoBuffers m)\<lparr>world := (world (managerOverTwoBuffers m))\<lparr>embedder := 1\<rparr>\<rparr>"


subsection \<open>Notions used in the proofs about the refresh step\<close>

text \<open>The cache of a state: the cached buffer and the eleven views.\<close>

definition cacheOf :: "'e state \<Rightarrow> bufid \<times> typedArray list" where
  "cacheOf s = (cachedHeap s, map (\<lambda>k. cachedView k s) allKinds)"

text \<open>The refresh step returns at once, without calling the getter.\<close>

definition idle :: "'e state \<Rightarrow> bool" where
  "idle s = (pollingMode (options s) = Some never \<or>
             (pollingMode (options s) = Some whenEmpty \<and> byteLength s (cachedHeap s) > 0))"

text \<open>The buffer the getter would return now, and the state after the call is logged.\<close>

definition fetched :: "'e state \<Rightarrow> bufid" where
  "fetched s = heapGetter s (embedder (world s))"

definition logged :: "'e state \<Rightarrow> 'e state" where
  "logged s = s\<lparr>calls := calls s @ [CallHeapGetter]\<rparr>"

text \<open>
  A state has the shape of another when it differs from it only in the contents of the
  buffers (not in their lengths) and in the two logs.
\<close>

definition sameShape :: "'e state \<Rightarrow> 'e state \<Rightarrow> bool" where
  "sameShape t s =
     (options t = options s \<and> heapGetter t = heapGetter s \<and>
      embedder (world t) = embedder (world s) \<and>
      (\<forall>b. length (buffers (world t) b) = length (buffers (world s) b)) \<and>
      cacheOf t = cacheOf s)"

subsection \<open>Values a kind can hold\<close>

text \<open>
  The integers of the kind's range; for the two floating-point kinds, the bit patterns
  of the kind's width.
\<close>

definition representable :: "kind \<Rightarrow> int \<Rightarrow> bool" where
  "representable k v =
     (if isSigned k
      then - (2 ^ (8 * bytesPerElementOf k - 1)) \<le> v \<and> v < 2 ^ (8 * bytesPerElementOf k - 1)
      else 0 \<le> v \<and> v < 2 ^ (8 * bytesPerElementOf k))"

text \<open>
  The views in effect describe the cached buffer as it is now, and the address is a
  multiple of the width with the whole element inside the buffer.
\<close>

definition viewsCurrent :: "'e state \<Rightarrow> bool" where
  "viewsCurrent s =
     (oneGeneration s \<and> ta_length (cachedHeapUint8 s) = byteLength s (cachedHeap s))"

definition inBoundsAligned :: "'e state \<Rightarrow> nat \<Rightarrow> nat \<Rightarrow> bool" where
  "inBoundsAligned s address w =
     (address mod w = 0 \<and> address + w \<le> byteLength s (cachedHeap s))"

subsection \<open>The operations of the manager and of its references\<close>

text \<open>
  A computation keeps the cache coherent when it takes coherent states to coherent
  states, whatever it returns.
\<close>

definition keeps :: "('e state \<Rightarrow> (error + 'a) \<times> 'e state) \<Rightarrow> bool" where
  "keeps f = (\<forall>s. coherent s \<longrightarrow> coherent (snd (f s)))"

text \<open>
  The methods of the manager and of the references it issues, as operations, in six
  groups; \<open>perform\<close> runs one and gives the state after it, whether it returned or
  raised.
\<close>

datatype accessOp =
    GetView kind
  | Read kind nat
  | ReadAtomic kind nat
  | Write kind nat int
  | WriteAtomic kind nat int
  | ViewUint8Array nat nat
  | ViewArray kind nat nat

primrec performAccess :: "accessOp \<Rightarrow> 'e state \<Rightarrow> 'e state" where
  "performAccess (GetView k) s = snd (heapView k s)"
| "performAccess (Read k a) s = snd (readNumeric k a s)"
| "performAccess (ReadAtomic k a) s = snd (readNumericAtomic k a s)"
| "performAccess (Write k a v) s = snd (writeNumeric k a v s)"
| "performAccess (WriteAtomic k a v) s = snd (writeNumericAtomic k a v s)"
| "performAccess (ViewUint8Array a n) s = snd (viewUint8Array a n s)"
| "performAccess (ViewArray k a n) s = snd (viewArray k a n s)"

datatype stringOp =
    GetElementCount nat nat "nat option"
  | ReadAscii nat "nat option"
  | ReadUtf8 nat "nat option"
  | ReadUtf16 nat "nat option"
  | ReadUtf32 nat "nat option"
  | WriteAscii nat jsString
  | WriteUtf8 nat jsString nat
  | WriteUtf16 nat jsString "nat option"
  | WriteUtf32 nat jsString "nat option"
  | WrapString refClass nat "nat option"

primrec performString :: "decoders \<Rightarrow> stringOp \<Rightarrow> 'e state \<Rightarrow> 'e state" where
  "performString d (GetElementCount a w m) s = snd (getElementCountOfNullTerminatedString a w m s)"
| "performString d (ReadAscii a m) s = snd (readNullTerminatedAsciiString d a m s)"
| "performString d (ReadUtf8 a m) s = snd (readNullTerminatedUtf8String d a m s)"
| "performString d (ReadUtf16 a m) s = snd (readNullTerminatedUtf16String d a m s)"
| "performString d (ReadUtf32 a m) s = snd (readNullTerminatedUtf32String d a m s)"
| "performString d (WriteAscii a v) s = snd (writeNullTerminatedAsciiString a v s)"
| "performString d (WriteUtf8 a v m) s = snd (writeNullTerminatedUtf8String a v m s)"
| "performString d (WriteUtf16 a v m) s = snd (writeNullTerminatedUtf16String a v m s)"
| "performString d (WriteUtf32 a v m) s = snd (writeNullTerminatedUtf32String a v m s)"
| "performString d (WrapString c a m) s = snd (wrapNullTerminatedString c a m s)"

datatype allocOp =
    Alloc nat
  | AllocAscii stringOrNumber
  | AllocUtf8 stringOrNumber
  | AllocUtf16 stringOrNumber
  | AllocUtf32 stringOrNumber
  | AllocNumeric kind "int option"
  | AllocPointer32 "int option"
  | AllocPointer53 "int option"
  | AllocPointer64 "int option"
  | FreeAddress nat
  | FreeReference heapRef

primrec performAlloc :: "allocOp \<Rightarrow> 'e state \<Rightarrow> 'e state" where
  "performAlloc (Alloc n) s = snd (alloc n s)"
| "performAlloc (AllocAscii x) s = snd (allocNullTerminatedAsciiString x s)"
| "performAlloc (AllocUtf8 x) s = snd (allocNullTerminatedUtf8String x s)"
| "performAlloc (AllocUtf16 x) s = snd (allocNullTerminatedUtf16String x s)"
| "performAlloc (AllocUtf32 x) s = snd (allocNullTerminatedUtf32String x s)"
| "performAlloc (AllocNumeric k v) s = snd (allocNumeric k v s)"
| "performAlloc (AllocPointer32 v) s = snd (allocPointer32 v s)"
| "performAlloc (AllocPointer53 v) s = snd (allocPointer53 v s)"
| "performAlloc (AllocPointer64 v) s = snd (allocPointer64 v s)"
| "performAlloc (FreeAddress a) s = snd (free_address a s)"
| "performAlloc (FreeReference r) s = snd (free_heapReference r s)"

datatype numericRefOp =
    RefFree heapRef
  | RefClear heapRef
  | RefAllocatedBytesView heapRef
  | RefRead heapRef
  | RefReadAtomic heapRef
  | RefWrite heapRef int
  | RefWriteAtomic heapRef int
  | RefGetValue heapRef
  | RefSetValue heapRef int
  | RefPointerFree "bool option" heapRef

primrec performNumericRef :: "numericRefOp \<Rightarrow> 'e state \<Rightarrow> 'e state" where
  "performNumericRef (RefFree r) s = snd (HeapRef_free r s)"
| "performNumericRef (RefClear r) s = snd (HeapRef_clear r s)"
| "performNumericRef (RefAllocatedBytesView r) s = snd (allocatedBytesView r s)"
| "performNumericRef (RefRead r) s = snd (NumericRef_read r s)"
| "performNumericRef (RefReadAtomic r) s = snd (NumericRef_readAtomic r s)"
| "performNumericRef (RefWrite r v) s = snd (NumericRef_write r v s)"
| "performNumericRef (RefWriteAtomic r v) s = snd (NumericRef_writeAtomic r v s)"
| "performNumericRef (RefGetValue r) s = snd (NumericRef_get_value r s)"
| "performNumericRef (RefSetValue r v) s = snd (NumericRef_set_value r v s)"
| "performNumericRef (RefPointerFree opt r) s = snd (PointerRef_free opt r s)"

datatype arrayRefOp =
    RefView heapRef
  | RefReadAt heapRef nat
  | RefReadAtomicAt heapRef nat
  | RefWriteAt heapRef nat int
  | RefWriteAtomicAt heapRef nat int
  | RefArrayFree "bool option" heapRef

primrec performArrayRef :: "arrayRefOp \<Rightarrow> 'e state \<Rightarrow> 'e state" where
  "performArrayRef (RefView r) s = snd (TypedArrayRef_view r s)"
| "performArrayRef (RefReadAt r i) s = snd (TypedArrayRef_readAt r i s)"
| "performArrayRef (RefReadAtomicAt r i) s = snd (TypedArrayRef_readAtomicAt r i s)"
| "performArrayRef (RefWriteAt r i v) s = snd (TypedArrayRef_writeAt r i v s)"
| "performArrayRef (RefWriteAtomicAt r i v) s = snd (TypedArrayRef_writeAtomicAt r i v s)"
| "performArrayRef (RefArrayFree opt r) s = snd (PointerArrayRef_free opt r s)"

datatype stringRefOp =
    RefStringRead heapRef
  | RefStringWrite heapRef jsString
  | RefStringGetValue heapRef
  | RefStringSetValue heapRef jsString
  | RefEncodedElementCount heapRef
  | RefEncodedByteCount heapRef
  | RefEncodedBytesView heapRef
  | RefAllocatedElementsView heapRef
  | RefEncodedElementsView heapRef

primrec performStringRef :: "decoders \<Rightarrow> stringRefOp \<Rightarrow> 'e state \<Rightarrow> 'e state" where
  "performStringRef d (RefStringRead r) s = snd (StringRef_read d r s)"
| "performStringRef d (RefStringWrite r v) s = snd (StringRef_write r v s)"
| "performStringRef d (RefStringGetValue r) s = snd (StringRef_get_value d r s)"
| "performStringRef d (RefStringSetValue r v) s = snd (StringRef_set_value r v s)"
| "performStringRef d (RefEncodedElementCount r) s = snd (encodedElementCount r s)"
| "performStringRef d (RefEncodedByteCount r) s = snd (encodedByteCount r s)"
| "performStringRef d (RefEncodedBytesView r) s = snd (encodedBytesView r s)"
| "performStringRef d (RefAllocatedElementsView r) s = snd (allocatedElementsView r s)"
| "performStringRef d (RefEncodedElementsView r) s = snd (encodedElementsView r s)"

datatype operation =
    Access accessOp
  | Strings stringOp
  | Allocation allocOp
  | OnNumericRef numericRefOp
  | OnArrayRef arrayRefOp
  | OnStringRef stringRefOp

primrec perform :: "decoders \<Rightarrow> operation \<Rightarrow> 'e state \<Rightarrow> 'e state" where
  "perform d (Access x) s = performAccess x s"
| "perform d (Strings x) s = performString d x s"
| "perform d (Allocation x) s = performAlloc x s"
| "perform d (OnNumericRef x) s = performNumericRef x s"
| "perform d (OnArrayRef x) s = performArrayRef x s"
| "perform d (OnStringRef x) s = performStringRef d x s"

text \<open>Decoders for the examples: each element becomes one code unit.\<close>

definition plainDecoders :: decoders where
  "plainDecoders =
     \<lparr>decodeAscii = map of_nat, decodeUtf8 = map of_nat,
      decodeUtf16 = map of_nat, decodeUtf32 = map of_nat\<rparr>"

subsection \<open>What an access adds to the log of atomic primitives\<close>



subsection \<open>The elements a scan for the terminator looks at\<close>

text \<open>
  The elements of width \<open>w\<close> of the cached buffer from element index \<open>start\<close> on: all of
  them to the end of the buffer, or at most \<open>m\<close> of them when a maximum is given.
\<close>

definition heapElements :: "nat \<Rightarrow> nat \<Rightarrow> nat option \<Rightarrow> 'e state \<Rightarrow> nat list" where
  "heapElements w start m s =
     (let heap = buffers (world s) (cachedHeap s);
          total = length heap div w;
          count = (case m of None \<Rightarrow> total - start | Some m' \<Rightarrow> min m' (total - start))
      in map (\<lambda>j. loadRaw w ((start + j) * w) heap) [0 ..< count])"

definition elementKind :: "nat \<Rightarrow> kind" where
  "elementKind w = (if w = 1 then Uint8 else if w = 2 then Uint16 else Uint32)"

text \<open>
  The example manager under \<open>whenEmpty\<close> with the text "hi" and its terminator at
  address 1 of its buffer, and four bytes without a zero after that; and a reference
  to that text with room for four elements.
\<close>

definition textState :: "bufid state" where
  "textState =
     (managerOverTwoBuffers whenEmpty)\<lparr>world :=
        (world (managerOverTwoBuffers whenEmpty))\<lparr>buffers :=
          (buffers (world (managerOverTwoBuffers whenEmpty)))
            (0 := [7, 104, 105, 0, 33, 33, 33, 33])\<rparr>\<rparr>"

definition textRef :: heapRef where
  "textRef = \<lparr>ref_address = 1, ref_class = NullTerminatedUtf8StringRef, ref_elementCount = 4\<rparr>"

text \<open>
  The manager constructed over the repository's arena allocator with a heap of 32 bytes
  and alignment 8, and the same with every byte of the heap set to 255, as after the
  arena has been used and reset.
\<close>

definition arenaManager :: "WasmHeapManagerOptions option \<Rightarrow> arena state" where
  "arenaManager opts =
     rebuilt 0 ((initialFields heap arena_allocate arena_deallocate opts (newArena 32 8))
                  \<lparr>calls := [CallHeapGetter]\<rparr>)"

definition dirtyArenaManager :: "WasmHeapManagerOptions option \<Rightarrow> arena state" where
  "dirtyArenaManager opts =
     (arenaManager opts)\<lparr>world :=
        (world (arenaManager opts))\<lparr>buffers :=
          (buffers (world (arenaManager opts)))(0 := replicate 32 255)\<rparr>\<rparr>"

text \<open>The addresses passed to the deallocator, and the sizes passed to the allocator.\<close>

fun deallocations :: "call list \<Rightarrow> nat list" where
  "deallocations [] = []"
| "deallocations (CallDeallocate a # cs) = a # deallocations cs"
| "deallocations (_ # cs) = deallocations cs"

fun allocations :: "call list \<Rightarrow> nat list" where
  "allocations [] = []"
| "allocations (CallAllocate n # cs) = n # allocations cs"
| "allocations (_ # cs) = allocations cs"

definition optionsWithClear :: "bool \<Rightarrow> WasmHeapManagerOptions" where
  "optionsWithClear b =
     \<lparr>clearAllocatedRegions = Some b, pollingMode = None, enableGarbageCollection = None\<rparr>"

text \<open>The arena's world after one allocation that ended at the given address.\<close>

definition bumped :: "nat \<Rightarrow> arena state \<Rightarrow> arena world" where
  "bumped endAddress s =
     (world s)\<lparr>embedder := (embedder (world s))\<lparr>currentAllocationAddress := endAddress\<rparr>\<rparr>"

definition afterAllocate :: "nat \<Rightarrow> nat \<Rightarrow> arena state \<Rightarrow> arena state" where
  "afterAllocate n endAddress s =
     s\<lparr>world := bumped endAddress s, calls := calls s @ [CallAllocate n]\<rparr>"

text \<open>
  The arena manager whose heap holds, in the eight bytes at address 8, the little-endian
  integer 24: a pointer cell of any of the three flavors whose value is the address 24.
\<close>

definition pointerState :: "arena state" where
  "pointerState =
     (arenaManager None)\<lparr>world :=
        (world (arenaManager None))\<lparr>buffers :=
          (buffers (world (arenaManager None)))
            (0 := replicate 8 0 @ [24, 0, 0, 0, 0, 0, 0, 0] @ replicate 16 0)\<rparr>\<rparr>"

text \<open>
  The arena manager after an allocation of \<open>n\<close> bytes has returned address 8 and the
  bump pointer has moved to 16, with the heap holding 255 in every byte but the \<open>n\<close>
  allocated ones, which are zero: what \<open>alloc\<close> leaves behind on the used arena.
\<close>

definition allocatedState :: "nat \<Rightarrow> arena state" where
  "allocatedState n =
     (afterAllocate n 16 (dirtyArenaManager None))\<lparr>world :=
        (world (afterAllocate n 16 (dirtyArenaManager None)))\<lparr>buffers :=
          (buffers (world (afterAllocate n 16 (dirtyArenaManager None))))
            (0 := replicate 8 255 @ replicate n 0 @ replicate (24 - n) 255)\<rparr>\<rparr>"

definition abc :: jsString where
  "abc = [97, 98, 99]"

definition stringRefAt8 :: "refClass \<Rightarrow> nat \<Rightarrow> heapRef" where
  "stringRefAt8 c n = \<lparr>ref_address = 8, ref_class = c, ref_elementCount = n\<rparr>"

section \<open>Basic facts\<close>

lemmas monad_defs = returnM_def throwM_def bindM_def getsM_def modifyM_def

lemma le_val_le_bytes: "le_val (le_bytes n v) = v mod 256 ^ n"
proof (induction n arbitrary: v)
  case 0
  show ?case by simp
next
  case (Suc n)
  have "unat (of_nat (v mod 256) :: byte) = v mod 256"
    by (simp add: unat_of_nat)
  then show ?case
    using Suc[of "v div 256"] by (simp add: mod_mult2_eq)
qed

lemma length_le_bytes: "length (le_bytes n v) = n"
  by (induction n arbitrary: v) auto

lemma loadRaw_storeRaw:
  "off + w \<le> length bs \<Longrightarrow> loadRaw w off (storeRaw w off raw bs) = raw mod 256 ^ w"
  by (simp add: loadRaw_def storeRaw_def length_le_bytes le_val_le_bytes)

lemma length_storeRaw:
  "off + w \<le> length bs \<Longrightarrow> length (storeRaw w off raw bs) = length bs"
  by (simp add: storeRaw_def length_le_bytes)

lemma updateCache_ok:
  assumes "byteLength s b mod 8 = 0"
  shows "updateCache b s = (Inr (), rebuilt b s)"
proof -
  have m2: "byteLength s b mod 2 = 0" and m4: "byteLength s b mod 4 = 0"
    using assms by presburger+
  show ?thesis
    using assms m2 m4
    by (simp add: updateCache_def rebuilt_def monad_defs newTypedArray_def byteLength_def wholeView_def)
qed

lemma updateCache_fail:
  assumes "byteLength s b mod 8 \<noteq> 0"
  shows "fst (updateCache b s) = Inl RangeError"
  using assms
  by (simp add: updateCache_def monad_defs newTypedArray_def byteLength_def)

lemma updateCache_calls: "calls (snd (updateCache b s)) = calls s"
  by (simp add: updateCache_def monad_defs newTypedArray_def byteLength_def)

lemma updateCache_world: "world (snd (updateCache b s)) = world s"
  by (simp add: updateCache_def monad_defs newTypedArray_def byteLength_def)

lemma viewsOver_rebuilt: "viewsOver (rebuilt b s) b (byteLength s b)"
  by (simp add: viewsOver_def rebuilt_def allKinds_def wholeView_def)

lemma cachedHeap_rebuilt: "cachedHeap (rebuilt b s) = b"
  by (simp add: rebuilt_def)

lemma oneGeneration_rebuilt: "oneGeneration (rebuilt b s)"
  by (simp add: oneGeneration_def viewsOver_def rebuilt_def allKinds_def wholeView_def)

lemma refetch:
  assumes "\<not> (pollingMode (options s) = Some never \<or>
         (pollingMode (options s) = Some whenEmpty \<and> byteLength s (cachedHeap s) > 0))"
  shows "updateCacheIfNeeded s =
     (if byteLength s (heapGetter s (embedder (world s))) > 0
      then updateCache (heapGetter s (embedder (world s))) (s\<lparr>calls := calls s @ [CallHeapGetter]\<rparr>)
      else (Inr (), s\<lparr>calls := calls s @ [CallHeapGetter]\<rparr>))"
  using assms
  by (auto simp add: updateCacheIfNeeded_def resolvedPollingMode_def monad_defs callHeapGetter_def byteLength_def)

text \<open>
  Claim C5, as the code has it. With \<open>never\<close> the refresh step does nothing. With
  \<open>whenEmpty\<close> it does nothing while the cached buffer has bytes. With \<open>whenEmpty\<close> and
  an empty cached buffer, and with \<open>always\<close> on every access, it calls the getter
  exactly once; it leaves the cache as it is when the fetched buffer is empty and
  rebuilds the cache from the fetched buffer when that has nonzero length, whatever the
  length of the cached one. A rebuild from a buffer whose length is a multiple of 8
  succeeds and puts all eleven views over the fetched buffer.
\<close>

theorem updateCacheIfNeeded_by_mode:
  "(pollingMode (options s) = Some never \<longrightarrow> updateCacheIfNeeded s = (Inr (), s)) \<and>
   (pollingMode (options s) = Some whenEmpty \<and> byteLength s (cachedHeap s) > 0 \<longrightarrow>
      updateCacheIfNeeded s = (Inr (), s)) \<and>
   ((pollingMode (options s) = Some whenEmpty \<and> byteLength s (cachedHeap s) = 0) \<or>
    pollingMode (options s) = Some always \<longrightarrow>
      calls (snd (updateCacheIfNeeded s)) = calls s @ [CallHeapGetter] \<and>
      (byteLength s (heapGetter s (embedder (world s))) = 0 \<longrightarrow>
         updateCacheIfNeeded s = (Inr (), s\<lparr>calls := calls s @ [CallHeapGetter]\<rparr>)) \<and>
      (byteLength s (heapGetter s (embedder (world s))) > 0 \<longrightarrow>
         updateCacheIfNeeded s =
           updateCache (heapGetter s (embedder (world s))) (s\<lparr>calls := calls s @ [CallHeapGetter]\<rparr>)) \<and>
      (byteLength s (heapGetter s (embedder (world s))) > 0 \<and>
       byteLength s (heapGetter s (embedder (world s))) mod 8 = 0 \<longrightarrow>
         fst (updateCacheIfNeeded s) = Inr () \<and>
         cachedHeap (snd (updateCacheIfNeeded s)) = heapGetter s (embedder (world s)) \<and>
         viewsOver (snd (updateCacheIfNeeded s)) (heapGetter s (embedder (world s)))
           (byteLength s (heapGetter s (embedder (world s))))))"
proof (intro conjI impI)
  assume "pollingMode (options s) = Some never"
  then show "updateCacheIfNeeded s = (Inr (), s)"
    by (simp add: updateCacheIfNeeded_def resolvedPollingMode_def)
next
  assume "pollingMode (options s) = Some whenEmpty \<and> byteLength s (cachedHeap s) > 0"
  then show "updateCacheIfNeeded s = (Inr (), s)"
    by (simp add: updateCacheIfNeeded_def resolvedPollingMode_def)
next
  assume a: "(pollingMode (options s) = Some whenEmpty \<and> byteLength s (cachedHeap s) = 0) \<or>
    pollingMode (options s) = Some always"
  let ?b = "heapGetter s (embedder (world s))"
  let ?s = "s\<lparr>calls := calls s @ [CallHeapGetter]\<rparr>"
  have r: "updateCacheIfNeeded s = (if byteLength s ?b > 0 then updateCache ?b ?s else (Inr (), ?s))"
    using a by (intro refetch) auto
  show "calls (snd (updateCacheIfNeeded s)) = calls s @ [CallHeapGetter]"
    by (simp add: r updateCache_calls)
  show "updateCacheIfNeeded s = (Inr (), ?s)" if "byteLength s ?b = 0"
    using that by (simp add: r)
  show "updateCacheIfNeeded s = updateCache ?b ?s" if "byteLength s ?b > 0"
    using that by (simp add: r)
  have bl: "byteLength ?s ?b = byteLength s ?b" by (simp add: byteLength_def)
  {
    assume h: "byteLength s ?b > 0 \<and> byteLength s ?b mod 8 = 0"
    then have u: "updateCacheIfNeeded s = (Inr (), rebuilt ?b ?s)"
      using updateCache_ok[of ?s ?b] by (simp add: r bl)
    show "fst (updateCacheIfNeeded s) = Inr ()" by (simp add: u)
    show "cachedHeap (snd (updateCacheIfNeeded s)) = ?b" by (simp add: u cachedHeap_rebuilt)
    show "viewsOver (snd (updateCacheIfNeeded s)) ?b (byteLength s ?b)"
      using viewsOver_rebuilt[of ?b ?s] by (simp add: u bl)
  }
qed

text \<open>The example states are what the constructor returns.\<close>

lemma construct_two: "newWasmHeapManager currentBuffer allocateAt8 deallocateNothing
          (Some (optionsWithMode m)) twoBuffers = Inr (managerOverTwoBuffers m)"
proof -
  let ?s0 = "initialFields currentBuffer allocateAt8 deallocateNothing (Some (optionsWithMode m)) twoBuffers"
  have "byteLength (?s0\<lparr>calls := [CallHeapGetter]\<rparr>) 0 mod 8 = 0"
    by (simp add: byteLength_def initialFields_def twoBuffers_def)
  from updateCache_ok[OF this] show ?thesis
    by (simp add: newWasmHeapManager_def bindM_def callHeapGetter_def managerOverTwoBuffers_def
        initialFields_def currentBuffer_def twoBuffers_def)
qed

text \<open>
  Claim C5 as stated fails under \<open>always\<close>: when the embedder has replaced its buffer
  by another of the same length, the refresh step rebuilds the cache over the new
  buffer, where the claim's wording (rebuild if and only if the lengths differ) keeps
  the old one.
\<close>

theorem always_mode_counterexample:
  "updateCacheIfNeeded (afterReplacement always) \<noteq> updateCacheIfNeeded_claimed (afterReplacement always)"
proof -
  let ?s = "afterReplacement always"
  have l: "byteLength (?s\<lparr>calls := calls ?s @ [CallHeapGetter]\<rparr>) 1 mod 8 = 0"
    by (simp add: byteLength_def afterReplacement_def managerOverTwoBuffers_def rebuilt_def initialFields_def twoBuffers_def)
  have a: "cachedHeap (snd (updateCacheIfNeeded ?s)) = 1"
    using updateCache_ok[OF l]
    by (simp add: updateCacheIfNeeded_def resolvedPollingMode_def bindM_def callHeapGetter_def
        byteLength_def afterReplacement_def managerOverTwoBuffers_def rebuilt_def initialFields_def
        twoBuffers_def currentBuffer_def mergeOptions_def optionsWithMode_def)
  have b: "cachedHeap (snd (updateCacheIfNeeded_claimed ?s)) = 0"
    by (simp add: updateCacheIfNeeded_claimed_def bindM_def callHeapGetter_def
        byteLength_def afterReplacement_def managerOverTwoBuffers_def rebuilt_def initialFields_def
        twoBuffers_def currentBuffer_def mergeOptions_def optionsWithMode_def)
  show ?thesis using a b by auto
qed

lemma example_facts:
  "pollingMode (options (managerOverTwoBuffers m)) = Some m"
  "pollingMode (options (afterReplacement m)) = Some m"
  "cachedHeap (afterReplacement m) = 0"
  "byteLength (afterReplacement m) 0 = 8"
  "byteLength (afterReplacement m) (Suc 0) = 8"
  "heapGetter (afterReplacement m) (embedder (world (afterReplacement m))) = 1"
  "calls (afterReplacement m) = [CallHeapGetter]"
  by (simp_all add: byteLength_def afterReplacement_def managerOverTwoBuffers_def rebuilt_def
      initialFields_def twoBuffers_def currentBuffer_def mergeOptions_def optionsWithMode_def)

text \<open>
  The three polling modes at the example states: nothing happens under \<open>never\<close> and
  under \<open>whenEmpty\<close> with a cached buffer of eight bytes; under \<open>always\<close> the getter is
  called once more and the cache moves to the replacement buffer.
\<close>

theorem updateCacheIfNeeded_by_mode_witness:
  "pollingMode (options (managerOverTwoBuffers never)) = Some never \<and>
   updateCacheIfNeeded (managerOverTwoBuffers never) = (Inr (), managerOverTwoBuffers never) \<and>
   pollingMode (options (afterReplacement whenEmpty)) = Some whenEmpty \<and>
   byteLength (afterReplacement whenEmpty) (cachedHeap (afterReplacement whenEmpty)) > 0 \<and>
   updateCacheIfNeeded (afterReplacement whenEmpty) = (Inr (), afterReplacement whenEmpty) \<and>
   pollingMode (options (afterReplacement always)) = Some always \<and>
   byteLength (afterReplacement always) 1 = 8 \<and>
   calls (snd (updateCacheIfNeeded (afterReplacement always))) = [CallHeapGetter, CallHeapGetter] \<and>
   cachedHeap (snd (updateCacheIfNeeded (afterReplacement always))) = 1 \<and>
   viewsOver (snd (updateCacheIfNeeded (afterReplacement always))) 1 8"
proof -
  let ?n = "managerOverTwoBuffers never"
  let ?w = "afterReplacement whenEmpty"
  let ?a = "afterReplacement always"
  have n: "pollingMode (options ?n) = Some never"
    by (simp add: example_facts)
  from updateCacheIfNeeded_by_mode [of ?n] n
  have 1: "updateCacheIfNeeded ?n = (Inr (), ?n)" by blast
  have w: "pollingMode (options ?w) = Some whenEmpty \<and> byteLength ?w (cachedHeap ?w) > 0"
    by (simp add: example_facts)
  from updateCacheIfNeeded_by_mode [of ?w] w
  have 2: "updateCacheIfNeeded ?w = (Inr (), ?w)" by blast
  have a: "pollingMode (options ?a) = Some always"
    and b: "byteLength ?a (heapGetter ?a (embedder (world ?a))) > 0 \<and>
            byteLength ?a (heapGetter ?a (embedder (world ?a))) mod 8 = 0"
    by (simp_all add: example_facts)
  from updateCacheIfNeeded_by_mode [of ?a] a b
  have 3: "calls (snd (updateCacheIfNeeded ?a)) = calls ?a @ [CallHeapGetter] \<and>
           cachedHeap (snd (updateCacheIfNeeded ?a)) = heapGetter ?a (embedder (world ?a)) \<and>
           viewsOver (snd (updateCacheIfNeeded ?a)) (heapGetter ?a (embedder (world ?a)))
             (byteLength ?a (heapGetter ?a (embedder (world ?a))))"
    by blast
  show ?thesis using 1 2 3 by (simp add: example_facts)
qed

lemma cachedView_fun:
  "cachedHeapInt8 = cachedView Int8" "cachedHeapUint8 = cachedView Uint8"
  "cachedHeapUint8Clamped = cachedView Uint8Clamped" "cachedHeapInt16 = cachedView Int16"
  "cachedHeapUint16 = cachedView Uint16" "cachedHeapInt32 = cachedView Int32"
  "cachedHeapUint32 = cachedView Uint32" "cachedHeapBigInt64 = cachedView BigInt64"
  "cachedHeapBigUint64 = cachedView BigUint64" "cachedHeapFloat32 = cachedView Float32"
  "cachedHeapFloat64 = cachedView Float64"
  by (rule ext, simp)+

lemma heapView_eq:
  "heapView k = bindM updateCacheIfNeeded (\<lambda>_. getsM (cachedView k))"
  by (cases k)
    (simp_all add: heapInt8_def heapUint8_def heapUint8Clamped_def heapInt16_def heapUint16_def
      heapInt32_def heapUint32_def heapBigInt64_def heapBigUint64_def heapFloat32_def
      heapFloat64_def cachedView_fun)

lemma heapView_run:
  "heapView k s =
     (case updateCacheIfNeeded s of
        (Inl e, s') \<Rightarrow> (Inl e, s')
      | (Inr _, s') \<Rightarrow> (Inr (cachedView k s'), s'))"
  by (simp add: heapView_eq bindM_def getsM_def split: prod.splits sum.splits)

lemma heapView_ok:
  "updateCacheIfNeeded s = (Inr (), s1) \<Longrightarrow> heapView k s = (Inr (cachedView k s1), s1)"
  by (simp add: heapView_run)

lemma bindM_heapView_ok:
  "updateCacheIfNeeded s = (Inr (), s1) \<Longrightarrow> bindM (heapView k) g s = g (cachedView k s1) s1"
  by (simp add: bindM_def heapView_ok)

lemma cacheOf_cachedView:
  "cacheOf s = cacheOf t \<Longrightarrow> cachedView k s = cachedView k t"
  by (cases k) (simp_all add: cacheOf_def allKinds_def)

lemma cacheOf_cachedHeap: "cacheOf s = cacheOf t \<Longrightarrow> cachedHeap s = cachedHeap t"
  by (simp add: cacheOf_def)

lemma updateCache_result:
  "updateCache b s = (Inr (), s1) \<Longrightarrow> byteLength s b mod 8 = 0 \<and> s1 = rebuilt b s"
  using updateCache_ok[of s b] updateCache_fail[of s b]
  by (cases "byteLength s b mod 8 = 0") auto

lemma sameShape_byteLength: "sameShape t s \<Longrightarrow> byteLength t b = byteLength s b"
  by (simp add: sameShape_def byteLength_def)

lemma cacheOf_rebuilt:
  "byteLength t b = byteLength s b \<Longrightarrow> cacheOf (rebuilt b t) = cacheOf (rebuilt b s)"
  by (simp add: cacheOf_def rebuilt_def allKinds_def wholeView_def)

lemma cacheOf_logged [simp]: "cacheOf (logged s) = cacheOf s"
  by (simp add: cacheOf_def allKinds_def logged_def)

lemma world_rebuilt [simp]: "world (rebuilt b s) = world s"
  by (simp add: rebuilt_def)

lemma atomicOps_rebuilt [simp]: "atomicOps (rebuilt b s) = atomicOps s"
  by (simp add: rebuilt_def)

lemma calls_rebuilt [simp]: "calls (rebuilt b s) = calls s"
  by (simp add: rebuilt_def)

lemma options_rebuilt [simp]: "options (rebuilt b s) = options s"
  by (simp add: rebuilt_def)

lemma heapGetter_rebuilt [simp]: "heapGetter (rebuilt b s) = heapGetter s"
  by (simp add: rebuilt_def)

lemma byteLength_rebuilt [simp]: "byteLength (rebuilt b s) = byteLength s"
  by (rule ext) (simp add: byteLength_def)

lemma logged_simps [simp]:
  "world (logged s) = world s" "atomicOps (logged s) = atomicOps s"
  "options (logged s) = options s" "heapGetter (logged s) = heapGetter s"
  "calls (logged s) = calls s @ [CallHeapGetter]" "cachedHeap (logged s) = cachedHeap s"
  "byteLength (logged s) = byteLength s"
  by (simp_all add: logged_def byteLength_def fun_eq_iff)

lemma idle_run: "idle s \<Longrightarrow> updateCacheIfNeeded s = (Inr (), s)"
  by (auto simp: idle_def updateCacheIfNeeded_def resolvedPollingMode_def)

lemma busy_run:
  "\<not> idle s \<Longrightarrow> updateCacheIfNeeded s =
     (if byteLength s (fetched s) > 0 then updateCache (fetched s) (logged s)
      else (Inr (), logged s))"
  using refetch[of s] by (simp add: idle_def fetched_def logged_def)

lemma updateCacheIfNeeded_result:
  assumes "updateCacheIfNeeded s = (Inr (), s1)"
  shows "(idle s \<and> s1 = s) \<or>
         (\<not> idle s \<and> byteLength s (fetched s) = 0 \<and> s1 = logged s) \<or>
         (\<not> idle s \<and> byteLength s (fetched s) > 0 \<and> byteLength s (fetched s) mod 8 = 0 \<and>
            s1 = rebuilt (fetched s) (logged s))"
proof (cases "idle s")
  case True
  with idle_run[OF True] assms show ?thesis by simp
next
  case False
  note r = busy_run[OF False]
  show ?thesis
  proof (cases "byteLength s (fetched s) > 0")
    case True
    with r assms have "updateCache (fetched s) (logged s) = (Inr (), s1)" by simp
    from updateCache_result[OF this] have "byteLength s (fetched s) mod 8 = 0"
      and "s1 = rebuilt (fetched s) (logged s)" by simp_all
    with True False show ?thesis by blast
  next
    case F: False
    with r assms have "s1 = logged s" by simp
    with F False show ?thesis by blast
  qed
qed

lemma sameShape_same:
  assumes "sameShape t s"
  shows "options t = options s" "fetched t = fetched s" "byteLength t = byteLength s"
    "cachedHeap t = cachedHeap s" "cacheOf t = cacheOf s"
  using assms by (auto simp: sameShape_def fetched_def byteLength_def cacheOf_def)

lemma sameShape_idle: "sameShape t s \<Longrightarrow> idle t = idle s"
  by (simp add: idle_def sameShape_same)

lemma sameShape_logged: "sameShape t s \<Longrightarrow> sameShape (logged t) s"
  by (simp add: sameShape_def)

lemma sameShape_logged2: "sameShape t (logged s) = sameShape t s"
  by (simp add: sameShape_def)

lemma refresh_again:
  assumes r: "updateCacheIfNeeded s = (Inr (), s1)" and sh: "sameShape t s1"
  shows "\<exists>t1. updateCacheIfNeeded t = (Inr (), t1) \<and> world t1 = world t \<and>
           atomicOps t1 = atomicOps t \<and> sameShape t1 s1"
proof -
  from updateCacheIfNeeded_result[OF r]
  consider (idle) "idle s" "s1 = s"
    | (empty) "\<not> idle s" "byteLength s (fetched s) = 0" "s1 = logged s"
    | (rebuild) "\<not> idle s" "byteLength s (fetched s) > 0" "byteLength s (fetched s) mod 8 = 0"
        "s1 = rebuilt (fetched s) (logged s)"
    by (elim disjE conjE) simp_all
  then show ?thesis
  proof cases
    case idle
    with sh have "idle t" by (simp add: sameShape_idle)
    from idle_run[OF this] sh show ?thesis by simp
  next
    case empty
    from sh empty have sh': "sameShape t s" by (simp add: sameShape_logged2)
    then have "\<not> idle t" using empty by (simp add: sameShape_idle)
    from busy_run[OF this] have "updateCacheIfNeeded t = (Inr (), logged t)"
      using empty by (simp add: sameShape_same[OF sh'])
    then show ?thesis using sh by (simp add: sameShape_logged)
  next
    case rebuild
    let ?b = "fetched s"
    have o: "options t = options s" "fetched t = ?b" "byteLength t = byteLength s"
      "cachedHeap t = ?b"
      using sameShape_same[OF sh] rebuild
      by (simp_all add: cachedHeap_rebuilt fetched_def sameShape_def sh[unfolded sameShape_def])
    show ?thesis
    proof (cases "idle t")
      case True
      from idle_run[OF this] sh show ?thesis by simp
    next
      case False
      have "byteLength (logged t) ?b mod 8 = 0" using rebuild o by simp
      from updateCache_ok[OF this]
      have u: "updateCacheIfNeeded t = (Inr (), rebuilt ?b (logged t))"
        using busy_run[OF False] rebuild o by simp
      have c: "cacheOf (rebuilt ?b (logged t)) = cacheOf s1"
        unfolding rebuild by (rule cacheOf_rebuilt) (simp add: o)
      show ?thesis using u c sh by (simp add: sameShape_def)
    qed
  qed
qed

lemma elementIndex_1 [simp]: "elementIndex a (Suc 0) = Some a"
  by (simp add: elementIndex_def)

lemma readNumeric_eq:
  "readNumeric k a = bindM (heapView k) (\<lambda>view. viewGet view (elementIndex a (bytesPerElementOf k)))"
  by (cases k)
    (simp_all add: readInt8_def readUint8_def readUint8Clamped_def readInt16_def readUint16_def
      readInt32_def readUint32_def readBigInt64_def readBigUint64_def readFloat32_def
      readFloat64_def)

lemma writeNumeric_eq:
  "writeNumeric k a v = bindM (heapView k) (\<lambda>view. viewSet view (elementIndex a (bytesPerElementOf k)) v)"
  by (cases k)
    (simp_all add: writeInt8_def writeUint8_def writeUint8Clamped_def writeInt16_def
      writeUint16_def writeInt32_def writeUint32_def writeBigInt64_def writeBigUint64_def
      writeFloat32_def writeFloat64_def)

lemma readNumericAtomic_eq:
  "isAtomicKind k \<Longrightarrow>
   readNumericAtomic k a = bindM (heapView k) (\<lambda>view. Atomics_load view (a div bytesPerElementOf k))"
  by (cases k)
    (simp_all add: readInt8Atomic_def readUint8Atomic_def readInt16Atomic_def
      readUint16Atomic_def readInt32Atomic_def readUint32Atomic_def readBigInt64Atomic_def
      readBigUint64Atomic_def toIndex_def)

lemma writeNumericAtomic_eq:
  "isAtomicKind k \<Longrightarrow>
   writeNumericAtomic k a v =
     bindM (heapView k) (\<lambda>view. Atomics_store view (a div bytesPerElementOf k) v)"
  by (cases k)
    (simp_all add: writeInt8Atomic_def writeUint8Atomic_def writeInt16Atomic_def
      writeUint16Atomic_def writeInt32Atomic_def writeUint32Atomic_def writeBigInt64Atomic_def
      writeBigUint64Atomic_def toIndex_def)

lemma bpe_pos [simp]: "0 < bytesPerElementOf k"
  by (cases k) simp_all

lemma toRaw_bound: "toRaw k v < 256 ^ bytesPerElementOf k"
proof (cases "k = Uint8Clamped")
  case True
  then show ?thesis by (simp add: toRaw_def)
next
  case False
  have "v mod 2 ^ (8 * bytesPerElementOf k) < 2 ^ (8 * bytesPerElementOf k)"
    by simp
  moreover have "(2::int) ^ (8 * bytesPerElementOf k) = int (256 ^ bytesPerElementOf k)"
    by (simp add: power_mult)
  ultimately show ?thesis using False
    by (simp add: toRaw_def nat_less_iff)
qed

lemma fromRaw_toRaw:
  assumes "representable k v"
  shows "fromRaw k (toRaw k v) = v"
proof -
  let ?n = "8 * bytesPerElementOf k"
  obtain m where n: "?n = Suc m" using gr0_implies_Suc[of ?n] by auto
  then have m: "?n - 1 = m" by simp
  have M: "(2::int) ^ ?n = 2 * 2 ^ (?n - 1)" unfolding m unfolding n by simp
  show ?thesis
  proof (cases "isSigned k")
    case False
    then have r: "0 \<le> v" "v < 2 ^ ?n" using assms by (simp_all add: representable_def)
    then have "v mod 2 ^ ?n = v" by simp
    moreover have "k = Uint8Clamped \<Longrightarrow> max 0 (min 255 v) = v"
      using r by (simp add: max_def min_def)
    ultimately show ?thesis using False r by (simp add: fromRaw_def toRaw_def)
  next
    case True
    then have c: "k \<noteq> Uint8Clamped" by auto
    from True have r: "- (2 ^ (?n - 1)) \<le> v" "v < 2 ^ (?n - 1)"
      using assms by (simp_all add: representable_def)
    show ?thesis
    proof (cases "0 \<le> v")
      case True
      then have m: "v mod 2 ^ ?n = v" using r M by simp
      have "nat v < 2 ^ (?n - 1)" using r True by (simp add: nat_less_iff)
      then show ?thesis using c m True \<open>isSigned k\<close>
        by (simp add: fromRaw_def toRaw_def)
    next
      case False
      have "(v + 2 ^ ?n) mod 2 ^ ?n = v + 2 ^ ?n"
        using r False M by (intro mod_pos_pos_trivial) simp_all
      then have m: "v mod 2 ^ ?n = v + 2 ^ ?n" by simp
      have "(2::nat) ^ (?n - 1) \<le> nat (v + 2 ^ ?n)"
      proof -
        have "(2::int) ^ (?n - 1) \<le> v + 2 ^ ?n" using r M by simp
        then show ?thesis by (simp add: le_nat_iff)
      qed
      moreover have "0 \<le> v + 2 ^ ?n" using r M by simp
      ultimately show ?thesis using c m \<open>isSigned k\<close>
        by (simp add: fromRaw_def toRaw_def)
    qed
  qed
qed

lemma ta_currentLength_fits:
  assumes "i < ta_currentLength B ta"
  shows "ta_byteOffset ta i + bytesPerElementOf (ta_kind ta) \<le> length (B (ta_buffer ta))"
proof -
  let ?w = "bytesPerElementOf (ta_kind ta)"
  from assms have f: "(ta_begin ta + ta_length ta) * ?w \<le> length (B (ta_buffer ta))"
    and l: "i < ta_length ta"
    by (auto simp: ta_currentLength_def split: if_splits)
  have "(ta_begin ta + i) * ?w + ?w = (ta_begin ta + Suc i) * ?w" by simp
  also have "\<dots> \<le> (ta_begin ta + ta_length ta) * ?w"
    using l by (intro mult_le_mono1) simp
  finally show ?thesis using f by (simp add: ta_byteOffset_def)
qed

lemma length_ta_set: "length (ta_set B ta idx v b) = length (B b)"
proof (cases idx)
  case None
  then show ?thesis by (simp add: ta_set_def)
next
  case (Some i)
  show ?thesis
  proof (cases "i < ta_currentLength B ta")
    case True
    from ta_currentLength_fits[OF True] show ?thesis
      using Some True by (simp add: ta_set_def length_storeRaw)
  next
    case False
    then show ?thesis using Some by (simp add: ta_set_def)
  qed
qed

lemma ta_currentLength_ta_set [simp]:
  "ta_currentLength (ta_set B ta idx v) ta' = ta_currentLength B ta'"
  by (simp add: ta_currentLength_def length_ta_set)

lemma ta_get_ta_set:
  assumes "i < ta_currentLength B ta"
  shows "ta_get (ta_set B ta (Some i) v) ta (Some i) = Some (fromRaw (ta_kind ta) (toRaw (ta_kind ta) v))"
proof -
  have "toRaw (ta_kind ta) v mod 256 ^ bytesPerElementOf (ta_kind ta) = toRaw (ta_kind ta) v"
    using toRaw_bound by simp
  with ta_currentLength_fits[OF assms] assms show ?thesis
    by (simp add: ta_get_def) (simp add: ta_set_def loadRaw_storeRaw)
qed

lemma cacheOf_world_update [simp]: "cacheOf (s\<lparr>world := w\<rparr>) = cacheOf s"
  by (simp add: cacheOf_def allKinds_def)

lemma cacheOf_atomicOps_update [simp]: "cacheOf (s\<lparr>atomicOps := w\<rparr>) = cacheOf s"
  by (simp add: cacheOf_def allKinds_def)

lemma sameShape_stored:
  "sameShape (s\<lparr>world := (world s)\<lparr>buffers := ta_set (buffers (world s)) ta idx v\<rparr>\<rparr>) s"
  by (simp add: sameShape_def length_ta_set)

lemma sameShape_stored_atomic:
  "sameShape (s\<lparr>world := (world s)\<lparr>buffers := ta_set (buffers (world s)) ta idx v\<rparr>,
                atomicOps := ops\<rparr>) s"
  by (simp add: sameShape_def length_ta_set)

lemma plain_round_trip:
  assumes r: "updateCacheIfNeeded s = (Inr (), s1)"
    and i: "elementIndex a (bytesPerElementOf k) = Some i"
    and b: "i < ta_currentLength (buffers (world s1)) (cachedView k s1)"
    and k: "ta_kind (cachedView k s1) = k"
    and v: "representable k v"
  shows "\<exists>s2 s3. writeNumeric k a v s = (Inr (), s2) \<and> readNumeric k a s2 = (Inr (Some v), s3)"
proof -
  let ?ta = "cachedView k s1"
  let ?s2 = "s1\<lparr>world := (world s1)\<lparr>buffers := ta_set (buffers (world s1)) ?ta (Some i) v\<rparr>\<rparr>"
  have w: "writeNumeric k a v s = (Inr (), ?s2)"
    by (simp add: writeNumeric_eq bindM_heapView_ok[OF r] i viewSet_def)
  have "sameShape ?s2 s1" by (rule sameShape_stored)
  from refresh_again[OF r this]
  obtain t1 where t: "updateCacheIfNeeded ?s2 = (Inr (), t1)" "world t1 = world ?s2"
    "sameShape t1 s1" by blast
  have c: "cachedView k t1 = ?ta"
    using t(3) by (intro cacheOf_cachedView) (simp add: sameShape_def)
  have "readNumeric k a ?s2 = (Inr (ta_get (buffers (world t1)) ?ta (Some i)), t1)"
    by (simp add: readNumeric_eq bindM_heapView_ok[OF t(1)] i viewGet_def c)
  also have "ta_get (buffers (world t1)) ?ta (Some i) = Some v"
    using ta_get_ta_set[OF b, of v] fromRaw_toRaw[OF v] by (simp add: t(2) k)
  finally show ?thesis using w by blast
qed

lemma atomic_round_trip:
  assumes r: "updateCacheIfNeeded s = (Inr (), s1)"
    and b: "a div bytesPerElementOf k < ta_currentLength (buffers (world s1)) (cachedView k s1)"
    and k: "ta_kind (cachedView k s1) = k"
    and at: "isAtomicKind k"
    and v: "representable k v"
  shows "\<exists>s2 s3. writeNumericAtomic k a v s = (Inr (), s2) \<and>
                 readNumericAtomic k a s2 = (Inr v, s3)"
proof -
  let ?ta = "cachedView k s1"
  let ?i = "a div bytesPerElementOf k"
  let ?s2 = "s1\<lparr>world := (world s1)\<lparr>buffers := ta_set (buffers (world s1)) ?ta (Some ?i) v\<rparr>,
                atomicOps := atomicOps s1 @
                  [AtomicStore k (ta_buffer ?ta) (ta_begin ?ta + ?i) (toRaw k v)]\<rparr>"
  have w: "writeNumericAtomic k a v s = (Inr (), ?s2)"
    using b at by (simp add: writeNumericAtomic_eq bindM_heapView_ok[OF r] Atomics_store_def k)
  have "sameShape ?s2 s1" by (rule sameShape_stored_atomic)
  from refresh_again[OF r this]
  obtain t1 where t: "updateCacheIfNeeded ?s2 = (Inr (), t1)" "world t1 = world ?s2"
    "sameShape t1 s1" by blast
  have c: "cachedView k t1 = ?ta"
    using t(3) by (intro cacheOf_cachedView) (simp add: sameShape_def)
  have g: "ta_get (buffers (world t1)) ?ta (Some ?i) = Some v"
    using ta_get_ta_set[OF b, of v] fromRaw_toRaw[OF v] by (simp add: t(2) k)
  have b': "?i < ta_currentLength (buffers (world t1)) ?ta"
    using b by (simp add: t(2))
  have "fst (readNumericAtomic k a ?s2) = Inr v"
    using g b' at
    by (simp add: readNumericAtomic_eq bindM_heapView_ok[OF t(1)] Atomics_load_def c k ta_get_def)
  then show ?thesis using w by (metis prod.collapse)
qed

lemma allKinds_complete: "k \<in> set allKinds"
  by (cases k) (simp_all add: allKinds_def)

lemma view_of_generation:
  assumes "oneGeneration s"
  shows "cachedView k s = \<lparr>ta_kind = k, ta_buffer = cachedHeap s, ta_begin = 0,
           ta_length = ta_length (cachedHeapUint8 s) div bytesPerElementOf k\<rparr>"
  using assms allKinds_complete[of k]
  by (simp add: oneGeneration_def viewsOver_def list_all_iff)

lemma in_bounds_index:
  assumes c: "viewsCurrent s" and b: "inBoundsAligned s a (bytesPerElementOf k)"
  shows "elementIndex a (bytesPerElementOf k) = Some (a div bytesPerElementOf k)"
    and "a div bytesPerElementOf k < ta_currentLength (buffers (world s)) (cachedView k s)"
    and "ta_kind (cachedView k s) = k"
proof -
  let ?w = "bytesPerElementOf k"
  let ?n = "byteLength s (cachedHeap s)"
  from c have g: "oneGeneration s" and n: "ta_length (cachedHeapUint8 s) = ?n"
    by (simp_all add: viewsCurrent_def)
  note vw = view_of_generation[OF g, of k]
  show "elementIndex a ?w = Some (a div ?w)"
    using b by (simp add: inBoundsAligned_def elementIndex_def)
  show "ta_kind (cachedView k s) = k" by (simp add: vw)
  have "(a + ?w) div ?w \<le> ?n div ?w"
    using b by (intro div_le_mono) (simp add: inBoundsAligned_def)
  moreover have "(a + ?w) div ?w = a div ?w + 1" by (intro div_add_self2) simp
  ultimately have lt: "a div ?w < ?n div ?w" by simp
  have "(?n div ?w) * ?w \<le> length (buffers (world s) (cachedHeap s))"
    by (simp add: byteLength_def)
  then show "a div ?w < ta_currentLength (buffers (world s)) (cachedView k s)"
    using lt by (simp add: vw n ta_currentLength_def)
qed

lemma float32ToUint32_id: "representable Float32 v \<Longrightarrow> float32ToUint32 v = v"
  using fromRaw_toRaw[of Uint32 v] toRaw_bound[of Float32 v]
  by (simp add: float32ToUint32_def loadRaw_storeRaw representable_def toRaw_def)

lemma uint32ToFloat32_id: "representable Float32 v \<Longrightarrow> uint32ToFloat32 v = v"
  using fromRaw_toRaw[of Float32 v] toRaw_bound[of Uint32 v]
  by (simp add: uint32ToFloat32_def loadRaw_storeRaw representable_def toRaw_def)

lemma float64ToBigUint64_id: "representable Float64 v \<Longrightarrow> float64ToBigUint64 v = v"
  using fromRaw_toRaw[of BigUint64 v] toRaw_bound[of Float64 v]
  by (simp add: float64ToBigUint64_def loadRaw_storeRaw representable_def toRaw_def)

lemma bigUint64ToFloat64_id: "representable Float64 v \<Longrightarrow> bigUint64ToFloat64 v = v"
  using fromRaw_toRaw[of Float64 v] toRaw_bound[of BigUint64 v]
  by (simp add: bigUint64ToFloat64_def loadRaw_storeRaw representable_def toRaw_def)

text \<open>The kind of view that carries the atomic access of each kind.\<close>

lemma emulated_atomic_round_trip:
  assumes r: "updateCacheIfNeeded s = (Inr (), s1)"
    and c: "viewsCurrent s1"
    and b: "inBoundsAligned s1 a (bytesPerElementOf k)"
    and v: "representable k v"
  shows "\<exists>s2 s3. writeNumericAtomic k a v s = (Inr (), s2) \<and>
                 readNumericAtomic k a s2 = (Inr v, s3)"
proof -
  have direct: "\<exists>s2 s3. writeNumericAtomic k' a v s = (Inr (), s2) \<and>
                 readNumericAtomic k' a s2 = (Inr v, s3)"
    if "isAtomicKind k'" "bytesPerElementOf k' = bytesPerElementOf k" "representable k' v" for k'
  proof -
    from b that have b': "inBoundsAligned s1 a (bytesPerElementOf k')" by simp
    show ?thesis
      by (rule atomic_round_trip[OF r in_bounds_index(2)[OF c b'] in_bounds_index(3)[OF c b'] that(1,3)])
  qed
  show ?thesis
  proof (cases "isAtomicKind k")
    case True
    from direct[OF True refl v] show ?thesis .
  next
    case False
    then consider "k = Uint8Clamped" | "k = Float32" | "k = Float64"
      by (cases k) simp_all
    then show ?thesis
    proof cases
      case 1
      with v have v8: "representable Uint8 v" and cl: "0 \<le> v" "v \<le> 255"
        by (simp_all add: representable_def)
      from direct[of Uint8] 1 v8 show ?thesis
        using cl by (simp add: writeUint8ClampedAtomic_def readUint8ClampedAtomic_def)
    next
      case 2
      with v have v32: "representable Uint32 v" by (simp add: representable_def)
      from direct[of Uint32] 2 v32 obtain s2 s3 where
        w: "writeUint32Atomic a v s = (Inr (), s2)" and rd: "readUint32Atomic a s2 = (Inr v, s3)"
        by auto
      have "writeNumericAtomic k a v s = (Inr (), s2)"
        using w v 2 by (simp add: writeFloat32Atomic_def float32ToUint32_id)
      moreover have "readNumericAtomic k a s2 = (Inr v, s3)"
        using rd v 2 by (simp add: readFloat32Atomic_def bindM_def returnM_def uint32ToFloat32_id)
      ultimately show ?thesis by blast
    next
      case 3
      with v have v64: "representable BigUint64 v" by (simp add: representable_def)
      from direct[of BigUint64] 3 v64 obtain s2 s3 where
        w: "writeBigUint64Atomic a v s = (Inr (), s2)"
        and rd: "readBigUint64Atomic a s2 = (Inr v, s3)"
        by auto
      have "writeNumericAtomic k a v s = (Inr (), s2)"
        using w v 3 by (simp add: writeFloat64Atomic_def float64ToBigUint64_id)
      moreover have "readNumericAtomic k a s2 = (Inr v, s3)"
        using rd v 3 by (simp add: readFloat64Atomic_def bindM_def returnM_def bigUint64ToFloat64_id)
      ultimately show ?thesis by blast
    qed
  qed
qed

text \<open>
  Claim C3. Let the refresh step before the access succeed and leave views that describe
  the cached buffer as it is, and let the address be a multiple of the kind's width with
  the whole element inside the buffer. Then for every kind and every value the kind can
  hold, writing succeeds and reading the same address afterwards returns the value; so
  do the atomic write and the atomic read.
\<close>

theorem numeric_round_trip:
  assumes "updateCacheIfNeeded s = (Inr (), s1)"
    and "viewsCurrent s1"
    and "inBoundsAligned s1 a (bytesPerElementOf k)"
    and "representable k v"
  shows "(\<exists>s2 s3. writeNumeric k a v s = (Inr (), s2) \<and>
                  readNumeric k a s2 = (Inr (Some v), s3)) \<and>
         (\<exists>s2 s3. writeNumericAtomic k a v s = (Inr (), s2) \<and>
                  readNumericAtomic k a s2 = (Inr v, s3))"
  using plain_round_trip[OF assms(1) in_bounds_index[OF assms(2,3)] assms(4)]
    emulated_atomic_round_trip[OF assms]
  by simp


lemma example_idle: "idle (managerOverTwoBuffers whenEmpty)"
  by (simp add: idle_def byteLength_def managerOverTwoBuffers_def rebuilt_def
      initialFields_def twoBuffers_def mergeOptions_def optionsWithMode_def)

lemma example_current: "viewsCurrent (managerOverTwoBuffers m)"
  by (simp add: viewsCurrent_def oneGeneration_def viewsOver_def allKinds_def byteLength_def
      managerOverTwoBuffers_def rebuilt_def wholeView_def initialFields_def twoBuffers_def)

lemma example_in_bounds:
  "inBoundsAligned (managerOverTwoBuffers m) 4 (bytesPerElementOf Int32)"
  "inBoundsAligned (managerOverTwoBuffers m) 0 (bytesPerElementOf Float64)"
  by (simp_all add: inBoundsAligned_def byteLength_def
      managerOverTwoBuffers_def rebuilt_def initialFields_def twoBuffers_def)

text \<open>
  The round trip at the example manager: the 32-bit integer \<open>-5\<close> at address 4, and the
  bit pattern of the double nearest to pi at address 0, through both pairs.
\<close>

theorem numeric_round_trip_witness:
  "updateCacheIfNeeded (managerOverTwoBuffers whenEmpty) = (Inr (), managerOverTwoBuffers whenEmpty) \<and>
   viewsCurrent (managerOverTwoBuffers whenEmpty) \<and>
   inBoundsAligned (managerOverTwoBuffers whenEmpty) 4 (bytesPerElementOf Int32) \<and>
   representable Int32 (- 5) \<and>
   fst (readInt32 4 (snd (writeInt32 4 (- 5) (managerOverTwoBuffers whenEmpty)))) = Inr (Some (- 5)) \<and>
   fst (readInt32Atomic 4 (snd (writeInt32Atomic 4 (- 5) (managerOverTwoBuffers whenEmpty)))) = Inr (- 5) \<and>
   inBoundsAligned (managerOverTwoBuffers whenEmpty) 0 (bytesPerElementOf Float64) \<and>
   representable Float64 4614256656552045848 \<and>
   fst (readFloat64 0 (snd (writeFloat64 0 4614256656552045848 (managerOverTwoBuffers whenEmpty))))
     = Inr (Some 4614256656552045848) \<and>
   fst (readFloat64Atomic 0 (snd (writeFloat64Atomic 0 4614256656552045848
          (managerOverTwoBuffers whenEmpty)))) = Inr 4614256656552045848"
proof -
  let ?m = "managerOverTwoBuffers whenEmpty"
  note r = idle_run[OF example_idle]
  have v1: "representable Int32 (- 5)" and v2: "representable Float64 4614256656552045848"
    by (simp_all add: representable_def)
  from numeric_round_trip[OF r example_current example_in_bounds(1) v1]
  have 1: "fst (readInt32 4 (snd (writeInt32 4 (- 5) ?m))) = Inr (Some (- 5)) \<and>
           fst (readInt32Atomic 4 (snd (writeInt32Atomic 4 (- 5) ?m))) = Inr (- 5)"
    by auto
  from numeric_round_trip[OF r example_current example_in_bounds(2) v2]
  have 2: "fst (readFloat64 0 (snd (writeFloat64 0 4614256656552045848 ?m)))
             = Inr (Some 4614256656552045848) \<and>
           fst (readFloat64Atomic 0 (snd (writeFloat64Atomic 0 4614256656552045848 ?m)))
             = Inr 4614256656552045848"
    by auto
  show ?thesis using r example_current example_in_bounds v1 v2 1 2 by simp
qed

lemma cacheOf_updates [simp]:
  "cacheOf (s\<lparr>calls := c\<rparr>) = cacheOf s"
  "cacheOf (s\<lparr>finalizationRegistry := f\<rparr>) = cacheOf s"
  by (simp_all add: cacheOf_def allKinds_def)

lemma oneGeneration_cacheOf: "cacheOf t = cacheOf s \<Longrightarrow> oneGeneration t = oneGeneration s"
  by (simp add: oneGeneration_def viewsOver_def cacheOf_def allKinds_def)

lemma coherent_transfer:
  assumes "coherent s" and "cacheOf t = cacheOf s" and "allocate t = allocate s"
    and "deallocate t = deallocate s" and "wellSized (world t)"
  shows "coherent t"
proof -
  from assms(1) have "oneGeneration s" "capabilitiesKeepSizes s" by (simp_all add: coherent_def)
  with oneGeneration_cacheOf[OF assms(2)] assms(3,4) have "oneGeneration t" "capabilitiesKeepSizes t"
    by (simp_all add: capabilitiesKeepSizes_def)
  with assms(5) show ?thesis by (simp add: coherent_def)
qed

lemma wellSized_lengths:
  "wellSized w \<Longrightarrow> (\<And>b. length (B b) = length (buffers w b)) \<Longrightarrow> wellSized (w\<lparr>buffers := B\<rparr>)"
  by (simp add: wellSized_def)

lemma coherent_buffers:
  assumes "coherent s" and "\<And>b. length (B b) = length (buffers (world s) b)"
  shows "coherent (s\<lparr>world := (world s)\<lparr>buffers := B\<rparr>\<rparr>)"
  using assms(1) wellSized_lengths[of "world s" B, OF _ assms(2)]
  by (intro coherent_transfer[OF assms(1)]) (simp_all add: coherent_def)

lemma keepsI: "(\<And>s. coherent s \<Longrightarrow> coherent (snd (f s))) \<Longrightarrow> keeps f"
  by (simp add: keeps_def)

lemma keepsD: "keeps f \<Longrightarrow> coherent s \<Longrightarrow> coherent (snd (f s))"
  by (simp add: keeps_def)

lemma keeps_bindM: "keeps f \<Longrightarrow> (\<And>x. keeps (g x)) \<Longrightarrow> keeps (bindM f g)"
proof (rule keepsI)
  fix s :: "'a state"
  assume f: "keeps f" and g: "\<And>x. keeps (g x)" and c: "coherent s"
  obtain r s' where fs: "f s = (r, s')" by (cases "f s")
  with keepsD[OF f c] have c': "coherent s'" by simp
  show "coherent (snd (bindM f g s))"
  proof (cases r)
    case (Inl e)
    with fs c' show ?thesis by (simp add: bindM_def)
  next
    case (Inr x)
    with fs keepsD[OF g c', of x] show ?thesis by (simp add: bindM_def)
  qed
qed

lemma keeps_returnM: "keeps (returnM x)"
  by (simp add: keeps_def returnM_def)

lemma keeps_throwM: "keeps (throwM e)"
  by (simp add: keeps_def throwM_def)

lemma keeps_getsM: "keeps (getsM f)"
  by (simp add: keeps_def getsM_def)

lemma keeps_same: "(\<And>s. snd (f s) = s) \<Longrightarrow> keeps f"
  by (simp add: keeps_def)

lemma capabilities_rebuilt [simp]:
  "allocate (rebuilt b s) = allocate s" "deallocate (rebuilt b s) = deallocate s"
  by (simp_all add: rebuilt_def)

lemma coherent_rebuilt: "coherent s \<Longrightarrow> coherent (rebuilt b s)"
  by (simp add: coherent_def oneGeneration_rebuilt capabilitiesKeepSizes_def)

lemma refresh_coherent:
  assumes c: "coherent s"
  shows "\<exists>s1. updateCacheIfNeeded s = (Inr (), s1) \<and> coherent s1 \<and> world s1 = world s \<and>
              atomicOps s1 = atomicOps s"
proof (cases "idle s")
  case True
  from idle_run[OF True] c show ?thesis by simp
next
  case False
  have l: "coherent (logged s)"
    using c by (intro coherent_transfer[OF c]) (simp_all add: logged_def coherent_def)
  show ?thesis
  proof (cases "byteLength s (fetched s) > 0")
    case True
    have "byteLength (logged s) (fetched s) mod 8 = 0"
      using c by (simp add: coherent_def wellSized_def byteLength_def)
    from updateCache_ok[OF this] have u: "updateCacheIfNeeded s = (Inr (), rebuilt (fetched s) (logged s))"
      using busy_run[OF False] True by simp
    have "coherent (rebuilt (fetched s) (logged s))"
      using l by (rule coherent_rebuilt)
    with u show ?thesis by simp
  next
    case F: False
    with busy_run[OF False] l show ?thesis by simp
  qed
qed

lemma keeps_updateCacheIfNeeded: "keeps updateCacheIfNeeded"
proof (rule keepsI)
  fix s :: "'a state" assume "coherent s"
  from refresh_coherent[OF this] obtain s1 where "updateCacheIfNeeded s = (Inr (), s1)"
    "coherent s1" by blast
  then show "coherent (snd (updateCacheIfNeeded s))" by simp
qed

lemma keeps_heapView: "keeps (heapView k)"
  unfolding heapView_eq by (intro keeps_bindM keeps_updateCacheIfNeeded keeps_getsM)

lemma keeps_getters:
  "keeps heapInt8" "keeps heapUint8" "keeps heapUint8Clamped" "keeps heapInt16"
  "keeps heapUint16" "keeps heapInt32" "keeps heapUint32" "keeps heapBigInt64"
  "keeps heapBigUint64" "keeps heapFloat32" "keeps heapFloat64"
  using keeps_heapView[of Int8] keeps_heapView[of Uint8] keeps_heapView[of Uint8Clamped]
    keeps_heapView[of Int16] keeps_heapView[of Uint16] keeps_heapView[of Int32]
    keeps_heapView[of Uint32] keeps_heapView[of BigInt64] keeps_heapView[of BigUint64]
    keeps_heapView[of Float32] keeps_heapView[of Float64]
  by simp_all

lemma keeps_viewGet: "keeps (viewGet ta idx)"
  by (simp add: keeps_def viewGet_def)

lemma keeps_viewSet: "keeps (viewSet ta idx v)"
proof (rule keepsI)
  fix s :: "'a state" assume c: "coherent s"
  from coherent_buffers[OF c, of "ta_set (buffers (world s)) ta idx v"]
  show "coherent (snd (viewSet ta idx v s))"
    by (simp add: viewSet_def length_ta_set)
qed

lemma coherent_atomicOps:
  assumes "coherent s"
  shows "coherent (s\<lparr>atomicOps := x\<rparr>)"
  by (rule coherent_transfer[OF assms]) (use assms in \<open>simp_all add: coherent_def\<close>)

lemma keeps_Atomics_load: "keeps (Atomics_load ta i)"
  by (rule keepsI) (simp add: Atomics_load_def coherent_atomicOps)

lemma keeps_Atomics_store: "keeps (Atomics_store ta i v)"
proof (rule keepsI)
  fix s :: "'a state" assume c: "coherent s"
  have "coherent (s\<lparr>world := (world s)\<lparr>buffers := ta_set (buffers (world s)) ta (Some i) v\<rparr>\<rparr>)"
    by (rule coherent_buffers[OF c]) (simp add: length_ta_set)
  then have "coherent ((s\<lparr>world := (world s)\<lparr>buffers := ta_set (buffers (world s)) ta (Some i) v\<rparr>\<rparr>)
          \<lparr>atomicOps := x\<rparr>)" for x
    by (rule coherent_atomicOps)
  then show "coherent (snd (Atomics_store ta i v s))"
    using c by (simp add: Atomics_store_def)
qed

lemma keeps_callAllocate: "keeps (callAllocate n)"
proof (rule keepsI)
  fix s :: "'a state" assume c: "coherent s"
  obtain r w' where a: "allocate s n (world s) = (r, w')" by (cases "allocate s n (world s)")
  from c have "capabilitiesKeepSizes s" "wellSized (world s)" by (simp_all add: coherent_def)
  then have "wellSized (snd (allocate s n (world s)))"
    unfolding capabilitiesKeepSizes_def by blast
  then have "wellSized w'" using a by simp
  then show "coherent (snd (callAllocate n s))"
    using a by (intro coherent_transfer[OF c]) (simp_all add: callAllocate_def cacheOf_def allKinds_def)
qed

lemma keeps_callDeallocate: "keeps (callDeallocate a)"
proof (rule keepsI)
  fix s :: "'a state" assume c: "coherent s"
  from c have "capabilitiesKeepSizes s" "wellSized (world s)" by (simp_all add: coherent_def)
  then have "wellSized (deallocate s a (world s))"
    unfolding capabilitiesKeepSizes_def by blast
  then show "coherent (snd (callDeallocate a s))"
    by (intro coherent_transfer[OF c]) (simp_all add: callDeallocate_def cacheOf_def allKinds_def)
qed

lemma length_fillFrom: "length (fillFrom n i ta v B b) = length (B b)"
  by (induction n arbitrary: i B) (simp_all add: length_ta_set)

lemma length_ta_fill: "length (ta_fill B ta v b) = length (B b)"
  by (simp add: ta_fill_def length_fillFrom)

lemma length_fold_ta_set:
  "length (fold (\<lambda>(i, e) B'. ta_set B' ta (Some i) (int e)) xs B b) = length (B b)"
  by (induction xs arbitrary: B) (auto simp: length_ta_set)

lemma length_writeElements: "length (writeElements ta es B b) = length (B b)"
  by (simp add: writeElements_def length_fold_ta_set)

lemma keeps_fillView: "keeps (fillView ta v)"
proof (rule keepsI)
  fix s :: "'a state" assume c: "coherent s"
  from coherent_buffers[OF c, of "ta_fill (buffers (world s)) ta v"]
  show "coherent (snd (fillView ta v s))"
    by (simp add: fillView_def length_ta_fill)
qed

lemma keeps_setElements: "keeps (setElements ta es)"
proof (rule keepsI)
  fix s :: "'a state" assume c: "coherent s"
  from coherent_buffers[OF c, of "writeElements ta es (buffers (world s))"] c
  show "coherent (snd (setElements ta es s))"
    by (simp add: setElements_def length_writeElements)
qed

lemma keeps_scanForZero: "keeps (scanForZero ta)"
  by (rule keeps_same) (simp add: scanForZero_def split: option.splits)

lemma keeps_registerFinalizerIfEnabled: "keeps (registerFinalizerIfEnabled r)"
proof (rule keepsI)
  fix s :: "'a state" assume c: "coherent s"
  have "coherent (s\<lparr>finalizationRegistry := x\<rparr>)" for x
    by (rule coherent_transfer[OF c]) (use c in \<open>simp_all add: cacheOf_def allKinds_def coherent_def\<close>)
  with c show "coherent (snd (registerFinalizerIfEnabled r s))"
    by (simp add: registerFinalizerIfEnabled_def)
qed

lemma keeps_assertNotFreed: "keeps (assertNotFreed r)"
  by (simp add: assertNotFreed_def keeps_returnM keeps_throwM)

lemmas keeps_basic = keeps_bindM keeps_returnM keeps_throwM keeps_getsM keeps_heapView
  keeps_getters keeps_viewGet keeps_viewSet keeps_Atomics_load keeps_Atomics_store
  keeps_callAllocate keeps_callDeallocate keeps_fillView keeps_setElements keeps_scanForZero
  keeps_registerFinalizerIfEnabled keeps_assertNotFreed

lemma keeps_readNumeric: "keeps (readNumeric k a)"
  unfolding readNumeric_eq by (intro keeps_basic)

lemma keeps_writeNumeric: "keeps (writeNumeric k a v)"
  unfolding writeNumeric_eq by (intro keeps_basic)

lemma keeps_readNumericAtomic: "keeps (readNumericAtomic k a)"
proof (cases "isAtomicKind k")
  case True
  then show ?thesis by (simp add: readNumericAtomic_eq) (intro keeps_basic)
next
  case False
  have 8: "keeps (readNumericAtomic Uint8 a)" "keeps (readNumericAtomic Uint32 a)"
    "keeps (readNumericAtomic BigUint64 a)"
    by (simp_all only: readNumericAtomic_eq isAtomicKind.simps) (intro keeps_basic)+
  from False consider "k = Uint8Clamped" | "k = Float32" | "k = Float64"
    by (cases k) simp_all
  then show ?thesis
    using 8 by cases (auto simp add: readUint8ClampedAtomic_def readFloat32Atomic_def
        readFloat64Atomic_def intro!: keeps_bindM keeps_returnM)
qed

lemma keeps_writeNumericAtomic: "keeps (writeNumericAtomic k a v)"
proof (cases "isAtomicKind k")
  case True
  then show ?thesis by (simp add: writeNumericAtomic_eq) (intro keeps_basic)
next
  case False
  have 8: "keeps (writeNumericAtomic Uint8 a x)" "keeps (writeNumericAtomic Uint32 a x)"
    "keeps (writeNumericAtomic BigUint64 a x)" for x
    by (simp_all only: writeNumericAtomic_eq isAtomicKind.simps) (intro keeps_basic)+
  from False consider "k = Uint8Clamped" | "k = Float32" | "k = Float64"
    by (cases k) simp_all
  then show ?thesis
    using 8 by cases (auto simp add: writeUint8ClampedAtomic_def writeFloat32Atomic_def
        writeFloat64Atomic_def Let_def)
qed

lemma keeps_pure: "keeps (\<lambda>s. (r s, s))"
  by (simp add: keeps_def)

lemma keeps_viewUint8Array: "keeps (viewUint8Array a n)"
  unfolding viewUint8Array_def by (intro keeps_bindM keeps_getters keeps_pure)

lemma keeps_viewArray: "keeps (viewArray k a n)"
  unfolding viewArray_def Let_def by (intro keeps_bindM keeps_heapView keeps_pure)

lemma keeps_scan_sub: "keeps (\<lambda>s. scanForZero (f s) s)"
  by (rule keeps_same) (simp add: scanForZero_def split: option.splits)

lemma keeps_getElementCount: "keeps (getElementCountOfNullTerminatedString a w m)"
  unfolding getElementCountOfNullTerminatedString_def Let_def
  by (auto intro!: keeps_bindM keeps_getters keeps_scan_sub keeps_throwM)

lemma keeps_readEncoded: "keeps (readEncoded k a m)"
  unfolding readEncoded_def Let_def
  by (intro keeps_bindM keeps_getElementCount keeps_heapView keeps_pure)

lemma keeps_readStrings:
  "keeps (readNullTerminatedAsciiString d a m)" "keeps (readNullTerminatedUtf8String d a m)"
  "keeps (readNullTerminatedUtf16String d a m)" "keeps (readNullTerminatedUtf32String d a m)"
  unfolding readNullTerminatedAsciiString_def readNullTerminatedUtf8String_def
    readNullTerminatedUtf16String_def readNullTerminatedUtf32String_def
  by (intro keeps_bindM keeps_readEncoded keeps_returnM)+

lemma coherent_terminated:
  assumes c: "coherent s"
  shows "coherent (s\<lparr>world := (world s)\<lparr>buffers :=
           ta_set (writeElements region es (buffers (world s))) h idx v\<rparr>\<rparr>)"
  by (rule coherent_buffers[OF c]) (simp add: length_ta_set length_writeElements)

lemma coherent_written:
  assumes c: "coherent s"
  shows "coherent (s\<lparr>world := (world s)\<lparr>buffers := writeElements region es (buffers (world s))\<rparr>\<rparr>)"
  by (rule coherent_buffers[OF c]) (simp add: length_writeElements)

lemma keeps_writeAscii: "keeps (writeNullTerminatedAsciiString a v)"
  unfolding writeNullTerminatedAsciiString_def
  by (intro keeps_bindM keeps_getters keepsI)
    (simp add: Let_def coherent_terminated split: prod.splits)

lemma keeps_writeUtf8: "keeps (writeNullTerminatedUtf8String a v m)"
  unfolding writeNullTerminatedUtf8String_def
  by (intro keeps_bindM keeps_getters keepsI)
    (simp add: Let_def coherent_terminated coherent_written split: prod.splits)

lemma keeps_writeUtf16: "keeps (writeNullTerminatedUtf16String a v m)"
  unfolding writeNullTerminatedUtf16String_def
  by (intro keeps_bindM keeps_getters keepsI)
    (simp add: Let_def coherent_terminated split: prod.splits)

lemma keeps_writeUtf32: "keeps (writeNullTerminatedUtf32String a v m)"
  unfolding writeNullTerminatedUtf32String_def
  by (intro keeps_bindM keeps_getters keepsI)
    (simp add: Let_def coherent_terminated split: prod.splits)

lemma keeps_if: "keeps f \<Longrightarrow> keeps g \<Longrightarrow> keeps (if b then f else g)"
  by simp

lemma keeps_alloc: "keeps (alloc n)"
  unfolding alloc_def
  by (intro keeps_bindM keeps_callAllocate keeps_getsM keeps_if keeps_viewUint8Array
      keeps_fillView keeps_returnM)

lemma keeps_free_address: "keeps (free_address a)"
  by (simp add: free_address_def keeps_callDeallocate)

lemma keeps_free_heapReference: "keeps (free_heapReference r)"
  unfolding free_heapReference_def
  by (intro keeps_if keeps_bindM keeps_callDeallocate keeps_returnM)

lemma keeps_HeapRef_free: "keeps (HeapRef_free r)"
  by (simp add: HeapRef_free_def keeps_free_heapReference)

lemma keeps_allocatedBytesView: "keeps (allocatedBytesView r)"
  by (simp add: allocatedBytesView_def keeps_viewUint8Array)

lemma keeps_HeapRef_clear: "keeps (HeapRef_clear r)"
  unfolding HeapRef_clear_def
  by (intro keeps_bindM keeps_assertNotFreed keeps_allocatedBytesView keeps_fillView)

lemma keeps_pointer_access:
  "keeps (readPointer32 a)" "keeps (readPointer53 a)" "keeps (readPointer64 a)"
  "keeps (readPointer32Atomic a)" "keeps (readPointer53Atomic a)" "keeps (readPointer64Atomic a)"
  "keeps (writePointer32 a v)" "keeps (writePointer53 a v)" "keeps (writePointer64 a v)"
  "keeps (writePointer32Atomic a v)" "keeps (writePointer53Atomic a v)"
  "keeps (writePointer64Atomic a v)"
  using keeps_readNumeric[of Uint32 a] keeps_readNumeric[of BigUint64 a]
    keeps_readNumericAtomic[of Uint32 a] keeps_readNumericAtomic[of BigUint64 a]
    keeps_writeNumeric[of Uint32 a v] keeps_writeNumeric[of BigUint64 a v]
    keeps_writeNumericAtomic[of Uint32 a v] keeps_writeNumericAtomic[of BigUint64 a v]
  by (simp_all add: readPointer32_def readPointer53_def readPointer64_def
      readPointer32Atomic_def readPointer53Atomic_def readPointer64Atomic_def
      writePointer32_def writePointer53_def writePointer64_def
      writePointer32Atomic_def writePointer53Atomic_def writePointer64Atomic_def)

lemmas keeps_numeric = keeps_readNumeric keeps_writeNumeric keeps_readNumericAtomic
  keeps_writeNumericAtomic keeps_pointer_access

lemma keeps_NumericRef_read: "keeps (NumericRef_read r)"
  unfolding NumericRef_read_def
  by (intro keeps_bindM keeps_assertNotFreed)
    (simp add: keeps_numeric keeps_throwM split: refClass.splits)

lemma keeps_NumericRef_readAtomic: "keeps (NumericRef_readAtomic r)"
  unfolding NumericRef_readAtomic_def
  by (intro keeps_bindM keeps_assertNotFreed)
    (simp add: keeps_numeric keeps_throwM split: refClass.splits)

lemma keeps_NumericRef_write: "keeps (NumericRef_write r v)"
  unfolding NumericRef_write_def
  by (intro keeps_bindM keeps_assertNotFreed)
    (simp add: keeps_numeric keeps_throwM split: refClass.splits)

lemma keeps_NumericRef_writeAtomic: "keeps (NumericRef_writeAtomic r v)"
  unfolding NumericRef_writeAtomic_def
  by (intro keeps_bindM keeps_assertNotFreed)
    (simp add: keeps_numeric keeps_throwM split: refClass.splits)

lemma keeps_NumericRef_value:
  "keeps (NumericRef_get_value r)" "keeps (NumericRef_set_value r v)"
  unfolding NumericRef_get_value_def NumericRef_set_value_def
  by (intro keeps_bindM keeps_assertNotFreed keeps_NumericRef_read keeps_NumericRef_write)+

lemma keeps_case_option:
  "keeps f \<Longrightarrow> (\<And>x. keeps (g x)) \<Longrightarrow> keeps (case o' of None \<Rightarrow> f | Some x \<Rightarrow> g x)"
  by (cases o') simp_all

lemma keeps_PointerRef_free: "keeps (PointerRef_free opt r)"
  unfolding PointerRef_free_def
  by (intro keeps_if keeps_bindM keeps_NumericRef_read keeps_case_option keeps_throwM
      keeps_free_address keeps_HeapRef_free)

lemma keeps_TypedArrayRef_view: "keeps (TypedArrayRef_view r)"
  unfolding TypedArrayRef_view_def
  by (intro keeps_bindM keeps_assertNotFreed keeps_case_option keeps_throwM keeps_viewArray)

lemma keeps_TypedArrayRef_readAt: "keeps (TypedArrayRef_readAt r i)"
  unfolding TypedArrayRef_readAt_def
  by (intro keeps_bindM keeps_assertNotFreed)
    (simp add: keeps_numeric keeps_throwM split: refClass.splits)

lemma keeps_TypedArrayRef_readAtomicAt: "keeps (TypedArrayRef_readAtomicAt r i)"
  unfolding TypedArrayRef_readAtomicAt_def
  by (intro keeps_bindM keeps_assertNotFreed)
    (simp add: keeps_numeric keeps_throwM split: refClass.splits)

lemma keeps_TypedArrayRef_writeAt: "keeps (TypedArrayRef_writeAt r i v)"
  unfolding TypedArrayRef_writeAt_def
  by (intro keeps_bindM keeps_assertNotFreed)
    (simp add: keeps_numeric keeps_throwM split: refClass.splits)

lemma keeps_TypedArrayRef_writeAtomicAt: "keeps (TypedArrayRef_writeAtomicAt r i v)"
  unfolding TypedArrayRef_writeAtomicAt_def
  by (intro keeps_bindM keeps_assertNotFreed)
    (simp add: keeps_numeric keeps_throwM split: refClass.splits)

lemma keeps_freeElementsFrom: "keeps (freeElementsFrom n i r)"
proof (induction n arbitrary: i)
  case 0
  show ?case by (simp add: keeps_returnM)
next
  case (Suc n)
  show ?case
    unfolding freeElementsFrom.simps
    by (intro keeps_bindM keeps_TypedArrayRef_readAt keeps_case_option keeps_throwM
        keeps_free_address Suc)
qed

lemma keeps_PointerArrayRef_free: "keeps (PointerArrayRef_free opt r)"
  unfolding PointerArrayRef_free_def
  by (intro keeps_if keeps_bindM keeps_assertNotFreed keeps_freeElementsFrom keeps_HeapRef_free)

lemma keeps_encodedElementCount: "keeps (encodedElementCount r)"
  unfolding encodedElementCount_def
  by (intro keeps_bindM keeps_assertNotFreed keeps_if keeps_getElementCount keeps_throwM)

lemma keeps_encodedByteCount: "keeps (encodedByteCount r)"
  unfolding encodedByteCount_def
  by (intro keeps_bindM keeps_encodedElementCount keeps_returnM)

lemma keeps_encodedBytesView: "keeps (encodedBytesView r)"
  unfolding encodedBytesView_def
  by (intro keeps_bindM keeps_assertNotFreed keeps_getters keeps_encodedByteCount keeps_pure)

lemma keeps_StringRef_read: "keeps (StringRef_read d r)"
  unfolding StringRef_read_def
  by (intro keeps_bindM keeps_assertNotFreed)
    (simp add: keeps_readStrings keeps_throwM split: refClass.splits)

lemma keeps_StringRef_write: "keeps (StringRef_write r v)"
  unfolding StringRef_write_def
  by (intro keeps_bindM keeps_assertNotFreed)
    (auto simp add: keeps_writeAscii keeps_writeUtf16 keeps_writeUtf32 keeps_throwM
      intro!: keeps_bindM keeps_writeUtf8 keeps_returnM split: refClass.splits)

lemma keeps_StringRef_value:
  "keeps (StringRef_get_value d r)" "keeps (StringRef_set_value r v)"
  unfolding StringRef_get_value_def StringRef_set_value_def
  by (intro keeps_bindM keeps_assertNotFreed keeps_StringRef_read keeps_StringRef_write)+

lemma keeps_allocatedElementsView: "keeps (allocatedElementsView r)"
  unfolding allocatedElementsView_def
  by (auto simp add: keeps_allocatedBytesView keeps_throwM
      intro!: keeps_bindM keeps_assertNotFreed keeps_viewArray split: refClass.splits)

lemma keeps_encodedElementsViewOf: "keeps (encodedElementsViewOf k r)"
  unfolding encodedElementsViewOf_def Let_def
  by (intro keeps_bindM keeps_assertNotFreed keeps_heapView keeps_encodedElementCount keeps_pure)

lemma keeps_encodedElementsView: "keeps (encodedElementsView r)"
  unfolding encodedElementsView_def
  by (auto simp add: keeps_encodedBytesView keeps_encodedElementsViewOf keeps_throwM
      intro!: keeps_bindM keeps_assertNotFreed split: refClass.splits)

lemma keeps_wrapString: "keeps (wrapNullTerminatedString c a m)"
  unfolding wrapNullTerminatedString_def
  by (intro keeps_bindM keeps_case_option keeps_getElementCount keeps_returnM)

lemma keeps_wraps:
  "keeps (wrapNullTerminatedAsciiString a m)" "keeps (wrapNullTerminatedUtf8String a m)"
  "keeps (wrapNullTerminatedUtf16String a m)" "keeps (wrapNullTerminatedUtf32String a m)"
  by (simp_all add: wrapNullTerminatedAsciiString_def wrapNullTerminatedUtf8String_def
      wrapNullTerminatedUtf16String_def wrapNullTerminatedUtf32String_def keeps_wrapString)

lemma keeps_case_stringOrNumber:
  "(\<And>n. keeps (f n)) \<Longrightarrow> (\<And>v. keeps (g v)) \<Longrightarrow>
   keeps (case x of IsNumber n \<Rightarrow> f n | IsString v \<Rightarrow> g v)"
  by (cases x) simp_all

lemmas keeps_alloc_parts = keeps_bindM keeps_case_stringOrNumber keeps_alloc keeps_wraps
  keeps_StringRef_write keeps_returnM keeps_registerFinalizerIfEnabled
  keeps_allocatedElementsView keeps_setElements keeps_viewSet

lemma keeps_allocStrings:
  "keeps (allocNullTerminatedAsciiString x)" "keeps (allocNullTerminatedUtf8String x)"
  "keeps (allocNullTerminatedUtf16String x)" "keeps (allocNullTerminatedUtf32String x)"
  unfolding allocNullTerminatedAsciiString_def allocNullTerminatedUtf8String_def
    allocNullTerminatedUtf16String_def allocNullTerminatedUtf32String_def Let_def
  by (intro keeps_alloc_parts)+

lemma keeps_allocRef: "keeps (allocRef n wrap v)"
  unfolding allocRef_def Let_def
  by (intro keeps_bindM keeps_alloc keeps_case_option keeps_returnM keeps_NumericRef_write
      keeps_registerFinalizerIfEnabled)

lemma keeps_allocNumerics:
  "keeps (allocNumeric k v)" "keeps (allocPointer32 v)" "keeps (allocPointer53 v)"
  "keeps (allocPointer64 v)"
  by (simp_all add: allocNumeric_def allocPointer32_def allocPointer53_def allocPointer64_def
      keeps_allocRef)

lemma perform_coherent: "coherent s \<Longrightarrow> coherent (perform d op s)"
proof (cases op)
  case (Access x)
  assume "coherent s"
  then show ?thesis unfolding Access
    by (cases x) (simp_all add: keepsD keeps_heapView keeps_numeric keeps_viewUint8Array keeps_viewArray)
next
  case (Strings x)
  assume "coherent s"
  then show ?thesis unfolding Strings
    by (cases x) (simp_all add: keepsD keeps_getElementCount keeps_readStrings keeps_writeAscii
        keeps_writeUtf8 keeps_writeUtf16 keeps_writeUtf32 keeps_wrapString)
next
  case (Allocation x)
  assume "coherent s"
  then show ?thesis unfolding Allocation
    by (cases x) (simp_all add: keepsD keeps_alloc keeps_allocStrings keeps_allocNumerics
        keeps_free_address keeps_free_heapReference)
next
  case (OnNumericRef x)
  assume "coherent s"
  then show ?thesis unfolding OnNumericRef
    by (cases x) (simp_all add: keepsD keeps_HeapRef_free keeps_HeapRef_clear
        keeps_allocatedBytesView keeps_NumericRef_read keeps_NumericRef_readAtomic
        keeps_NumericRef_write keeps_NumericRef_writeAtomic keeps_NumericRef_value
        keeps_PointerRef_free)
next
  case (OnArrayRef x)
  assume "coherent s"
  then show ?thesis unfolding OnArrayRef
    by (cases x) (simp_all add: keepsD keeps_TypedArrayRef_view keeps_TypedArrayRef_readAt
        keeps_TypedArrayRef_readAtomicAt keeps_TypedArrayRef_writeAt
        keeps_TypedArrayRef_writeAtomicAt keeps_PointerArrayRef_free)
next
  case (OnStringRef x)
  assume "coherent s"
  then show ?thesis unfolding OnStringRef
    by (cases x) (simp_all add: keepsD keeps_StringRef_read keeps_StringRef_write
        keeps_StringRef_value keeps_encodedElementCount keeps_encodedByteCount
        keeps_encodedBytesView keeps_allocatedElementsView keeps_encodedElementsView)
qed

lemma fold_perform_coherent: "coherent s \<Longrightarrow> coherent (fold (perform d) ops s)"
  by (induction ops arbitrary: s) (simp_all add: perform_coherent)

lemma getter_coherent:
  assumes "coherent s"
  shows "\<exists>s'. heapView k s = (Inr (cachedView k s'), s') \<and> coherent s' \<and>
           ta_buffer (cachedView k s') = cachedHeap s' \<and> ta_kind (cachedView k s') = k"
proof -
  from refresh_coherent[OF assms] obtain s1 where
    r: "updateCacheIfNeeded s = (Inr (), s1)" and c: "coherent s1" by blast
  from c have "oneGeneration s1" by (simp add: coherent_def)
  from view_of_generation[OF this, of k] heapView_ok[OF r, of k] c show ?thesis by simp
qed

lemma constructed_generation:
  assumes "newWasmHeapManager g al de opts w = Inr s0"
  shows "oneGeneration s0 \<and> cachedHeap s0 = g (embedder w)"
proof -
  let ?i = "initialFields g al de opts w"
  let ?l = "?i\<lparr>calls := calls ?i @ [CallHeapGetter]\<rparr>"
  have b: "bindM callHeapGetter updateCache ?i = updateCache (g (embedder w)) ?l"
    by (simp add: bindM_def callHeapGetter_def initialFields_def)
  obtain r s' where u: "updateCache (g (embedder w)) ?l = (r, s')"
    by (cases "updateCache (g (embedder w)) ?l")
  with assms b have "r = Inr ()" "s' = s0"
    by (auto simp: newWasmHeapManager_def split: sum.splits)
  with u updateCache_result[of "g (embedder w)" ?l s0] have "s0 = rebuilt (g (embedder w)) ?l"
    by simp
  then show ?thesis by (simp add: oneGeneration_rebuilt cachedHeap_rebuilt)
qed

text \<open>
  Claim C7. A manager that the constructor returns has its eleven views in one
  generation over the buffer the getter named. Where every buffer of the embedder has a
  byte length that is a multiple of 8 (the data model's requirement, which the
  capabilities keep), every operation of the manager and of its references, and every
  sequence of them, leaves the eleven cached views one generation over the cached
  buffer, whether it returns or raises; and each getter hands out the view of its kind
  over that buffer.
\<close>

theorem one_generation_invariant:
  "(newWasmHeapManager g al de opts w = Inr s0 \<longrightarrow>
      oneGeneration s0 \<and> cachedHeap s0 = g (embedder w)) \<and>
   (coherent s \<longrightarrow>
      coherent (perform d op s) \<and>
      coherent (fold (perform d) ops s) \<and>
      list_all (\<lambda>k. ta_buffer (cachedView k (perform d op s)) = cachedHeap (perform d op s) \<and>
                     ta_kind (cachedView k (perform d op s)) = k) allKinds \<and>
      (\<exists>s'. heapView k s = (Inr (cachedView k s'), s') \<and> coherent s' \<and>
             ta_buffer (cachedView k s') = cachedHeap s' \<and> ta_kind (cachedView k s') = k))"
proof (intro conjI impI)
  assume "newWasmHeapManager g al de opts w = Inr s0"
  from constructed_generation[OF this]
  show "oneGeneration s0" and "cachedHeap s0 = g (embedder w)" by simp_all
next
  assume c: "coherent s"
  show p: "coherent (perform d op s)" by (rule perform_coherent[OF c])
  show "coherent (fold (perform d) ops s)" by (rule fold_perform_coherent[OF c])
  from p have "oneGeneration (perform d op s)" by (simp add: coherent_def)
  from view_of_generation[OF this]
  show "list_all (\<lambda>k. ta_buffer (cachedView k (perform d op s)) = cachedHeap (perform d op s) \<and>
                     ta_kind (cachedView k (perform d op s)) = k) allKinds"
    by (simp add: list_all_iff)
  show "\<exists>s'. heapView k s = (Inr (cachedView k s'), s') \<and> coherent s' \<and>
             ta_buffer (cachedView k s') = cachedHeap s' \<and> ta_kind (cachedView k s') = k"
    by (rule getter_coherent[OF c])
qed

lemma example_coherent: "coherent (afterReplacement m)"
proof -
  have "oneGeneration (afterReplacement m)"
    by (simp add: afterReplacement_def managerOverTwoBuffers_def oneGeneration_def viewsOver_def
        allKinds_def rebuilt_def wholeView_def)
  moreover have "wellSized (world (afterReplacement m))"
    by (simp add: afterReplacement_def managerOverTwoBuffers_def rebuilt_def initialFields_def
        twoBuffers_def wellSized_def)
  moreover have "capabilitiesKeepSizes (afterReplacement m)"
    by (simp add: afterReplacement_def managerOverTwoBuffers_def rebuilt_def initialFields_def
        capabilitiesKeepSizes_def allocateAt8_def deallocateNothing_def)
  ultimately show ?thesis by (simp add: coherent_def)
qed

text \<open>
  The invariant at the example: the constructor over the two-buffer embedder, and the
  manager under \<open>always\<close> after the embedder has replaced its buffer, through a write,
  an allocation and the \<open>Float64\<close> getter.
\<close>

theorem one_generation_invariant_witness:
  "newWasmHeapManager currentBuffer allocateAt8 deallocateNothing
      (Some (optionsWithMode always)) twoBuffers = Inr (managerOverTwoBuffers always) \<and>
   oneGeneration (managerOverTwoBuffers always) \<and>
   coherent (afterReplacement always) \<and>
   coherent (perform plainDecoders (Access (Write Int32 4 7)) (afterReplacement always)) \<and>
   coherent (fold (perform plainDecoders) [Allocation (Alloc 4), Access (Write Int32 4 7)]
               (afterReplacement always)) \<and>
   (\<exists>s'. heapView Float64 (afterReplacement always) = (Inr (cachedView Float64 s'), s') \<and>
          ta_buffer (cachedView Float64 s') = cachedHeap s')"
  using one_generation_invariant [of currentBuffer allocateAt8 deallocateNothing
      "Some (optionsWithMode always)" twoBuffers "managerOverTwoBuffers always"
      "afterReplacement always" plainDecoders "Access (Write Int32 4 7)"
      "[Allocation (Alloc 4), Access (Write Int32 4 7)]" Float64]
    construct_two [of always] example_coherent [of always]
  by blast















lemma indexOfFrom_None: "indexOfFrom x i xs = None \<longleftrightarrow> x \<notin> set xs"
  by (induction xs arbitrary: i) auto

lemma indexOfFrom_first:
  "n < length xs \<Longrightarrow> xs ! n = x \<Longrightarrow> (\<forall>j<n. xs ! j \<noteq> x) \<Longrightarrow>
   indexOfFrom x i xs = Some (i + n)"
proof (induction xs arbitrary: i n)
  case Nil
  then show ?case by simp
next
  case (Cons y ys)
  show ?case
  proof (cases n)
    case 0
    with Cons.prems show ?thesis by simp
  next
    case (Suc n')
    with Cons.prems have "y \<noteq> x" by auto
    moreover have "indexOfFrom x (Suc i) ys = Some (Suc i + n')"
      using Cons.prems Suc by (intro Cons.IH) auto
    ultimately show ?thesis using Suc by simp
  qed
qed

lemma indexOfFrom_Some:
  "indexOfFrom x i xs = Some r \<Longrightarrow>
   i \<le> r \<and> r - i < length xs \<and> xs ! (r - i) = x \<and> (\<forall>j < r - i. xs ! j \<noteq> x)"
proof (induction xs arbitrary: i)
  case Nil
  then show ?case by simp
next
  case (Cons y ys)
  show ?case
  proof (cases "y = x")
    case True
    with Cons.prems show ?thesis by simp
  next
    case False
    with Cons.prems have "indexOfFrom x (Suc i) ys = Some r" by simp
    from Cons.IH[OF this] have h: "Suc i \<le> r" "r - Suc i < length ys" "ys ! (r - Suc i) = x"
      "\<forall>j < r - Suc i. ys ! j \<noteq> x" by simp_all
    from h(1) have e: "r - i = Suc (r - Suc i)" by simp
    have "\<forall>j < r - i. (y # ys) ! j \<noteq> x"
    proof (intro allI impI)
      fix j assume "j < r - i"
      then show "(y # ys) ! j \<noteq> x" using False h(4) e by (cases j) auto
    qed
    then show ?thesis using h e by simp
  qed
qed

lemma relativeIndex_nat [simp]: "relativeIndex len (int i) = min i len"
  by (simp add: relativeIndex_def)

lemma relativeIndex_nat_add [simp]: "relativeIndex len (int i + int m) = min (i + m) len"
  using relativeIndex_nat[of len "i + m"] by (simp del: relativeIndex_nat)

lemma whole_view_length:
  assumes "viewsCurrent s"
  shows "cachedView k s = \<lparr>ta_kind = k, ta_buffer = cachedHeap s, ta_begin = 0,
           ta_length = byteLength s (cachedHeap s) div bytesPerElementOf k\<rparr>"
    and "ta_currentLength (buffers (world s)) (cachedView k s)
           = byteLength s (cachedHeap s) div bytesPerElementOf k"
proof -
  from assms have g: "oneGeneration s"
    and n: "ta_length (cachedHeapUint8 s) = byteLength s (cachedHeap s)"
    by (simp_all add: viewsCurrent_def)
  show v: "cachedView k s = \<lparr>ta_kind = k, ta_buffer = cachedHeap s, ta_begin = 0,
           ta_length = byteLength s (cachedHeap s) div bytesPerElementOf k\<rparr>"
    using view_of_generation[OF g, of k] n by simp
  show "ta_currentLength (buffers (world s)) (cachedView k s)
           = byteLength s (cachedHeap s) div bytesPerElementOf k"
    by (simp add: v ta_currentLength_def byteLength_def)
qed

lemma span_elements:
  assumes vc: "viewsCurrent s"
  shows "ta_elements (buffers (world s))
           (subarray (buffers (world s)) (cachedView k s) (int start)
              (case m of None \<Rightarrow> None | Some m' \<Rightarrow> Some (int start + int m')))
         = heapElements (bytesPerElementOf k) start m s"
proof -
  let ?B = "buffers (world s)"
  let ?w = "bytesPerElementOf k"
  let ?total = "byteLength s (cachedHeap s) div ?w"
  let ?count = "case m of None \<Rightarrow> ?total - start | Some m' \<Rightarrow> min m' (?total - start)"
  let ?e = "case m of None \<Rightarrow> ?total | Some m' \<Rightarrow> min (start + m') ?total"
  let ?sub = "subarray ?B (cachedView k s) (int start)
              (case m of None \<Rightarrow> None | Some m' \<Rightarrow> Some (int start + int m'))"
  note v = whole_view_length[OF vc, of k]
  have sub: "?sub = \<lparr>ta_kind = k, ta_buffer = cachedHeap s, ta_begin = min start ?total,
                     ta_length = ?e - min start ?total\<rparr>"
  proof -
    have "?sub = (cachedView k s)\<lparr>ta_begin := ta_begin (cachedView k s) + min start ?total,
                     ta_length := ?e - min start ?total\<rparr>"
      by (cases m) (simp_all add: subarray_def Let_def v(2))
    then show ?thesis by (simp add: v(1))
  qed
  have len: "?e - min start ?total = ?count"
    by (cases m) auto
  have fit: "(min start ?total + ?count) * ?w \<le> length (?B (cachedHeap s))"
  proof -
    have "min start ?total + ?count \<le> ?total" by (cases m) auto
    then have "(min start ?total + ?count) * ?w \<le> ?total * ?w" by (rule mult_le_mono1)
    also have "\<dots> \<le> length (?B (cachedHeap s))" by (simp add: byteLength_def)
    finally show ?thesis .
  qed
  have cl: "ta_currentLength ?B ?sub = ?count"
    using fit by (simp add: sub len ta_currentLength_def)
  have off: "ta_byteOffset ?sub j = (start + j) * ?w" if "j < ?count" for j
  proof -
    from that have "start \<le> ?total" by (cases m) auto
    then show ?thesis by (simp add: sub ta_byteOffset_def min_def)
  qed
  have kk: "ta_kind ?sub = k" "ta_buffer ?sub = cachedHeap s"
    by (simp_all add: sub)
  have "ta_elements ?B ?sub
          = map (\<lambda>i. loadRaw ?w (ta_byteOffset ?sub i) (?B (cachedHeap s))) [0 ..< ?count]"
    unfolding ta_elements_def cl kk ..
  also have "\<dots> = map (\<lambda>j. loadRaw ?w ((start + j) * ?w) (?B (cachedHeap s))) [0 ..< ?count]"
    by (rule map_cong[OF refl]) (simp add: off)
  also have "\<dots> = heapElements ?w start m s"
    by (cases m) (simp_all add: heapElements_def Let_def byteLength_def)
  finally show ?thesis .
qed

lemma getElementCount_run:
  assumes r: "updateCacheIfNeeded s = (Inr (), s1)" and vc: "viewsCurrent s1"
    and w: "w = 1 \<or> w = 2 \<or> w = 4"
  shows "getElementCountOfNullTerminatedString a w m s =
     (case indexOfFrom 0 0 (heapElements w (a div w) m s1) of
        None \<Rightarrow> (Inl NullTerminatorNotFound, s1)
      | Some n \<Rightarrow> (Inr n, s1))"
proof -
  have k: "bytesPerElementOf (elementKind w) = w"
    using w by (auto simp: elementKind_def)
  have "getElementCountOfNullTerminatedString a w m s =
     bindM (heapView (elementKind w)) (\<lambda>h s. scanForZero (subarray (buffers (world s)) h
        (int (a div w)) (case m of None \<Rightarrow> None | Some m' \<Rightarrow> Some (int (a div w) + int m'))) s) s"
    using w by (auto simp: getElementCountOfNullTerminatedString_def Let_def elementKind_def)
  also have "\<dots> = scanForZero (subarray (buffers (world s1)) (cachedView (elementKind w) s1)
        (int (a div w)) (case m of None \<Rightarrow> None | Some m' \<Rightarrow> Some (int (a div w) + int m'))) s1"
    by (simp add: bindM_heapView_ok[OF r])
  finally show ?thesis
    using span_elements[OF vc, of "elementKind w" "a div w" m]
    by (simp add: scanForZero_def ta_indexOf_def k)
qed


lemma stringBytesPerElement_cases:
  "stringBytesPerElement c = 1 \<or> stringBytesPerElement c = 2 \<or> stringBytesPerElement c = 4"
  by (cases c) simp_all

lemma encodedElementCount_live:
  "\<not> isFreed r \<Longrightarrow> isStringClass (ref_class r) \<Longrightarrow>
   encodedElementCount r =
     getElementCountOfNullTerminatedString (ref_address r)
       (stringBytesPerElement (ref_class r)) (Some (ref_elementCount r))"
  by (rule ext) (simp add: encodedElementCount_def assertNotFreed_def bindM_def returnM_def)

lemma heapElements_bounded: "length (heapElements w start (Some m) s) \<le> m"
  by (simp add: heapElements_def Let_def)

text \<open>
  Claim C8. Let the refresh step succeed and leave views that describe the cached buffer
  as it is, and let the width be 1, 2 or 4. The scan looks at the elements of that width
  from element index \<open>address div width\<close> on: at most \<open>maxElementCount\<close> of them when a
  maximum is given, all of them to the end of the heap otherwise. When none of them is
  zero it raises NullTerminatorNotFound; otherwise it returns the index of the first
  zero element, the number of elements before it. It returns nothing else. For a live
  string reference \<open>encodedElementCount\<close> is this scan at the reference's address, bounded
  by its allocated element count, so what it returns is the index of the first zero
  element and is less than the allocated element count.
\<close>

theorem null_terminator_discovery:
  assumes "updateCacheIfNeeded s = (Inr (), s1)"
    and "viewsCurrent s1"
    and "w = 1 \<or> w = 2 \<or> w = 4"
  shows
    "(0 \<notin> set (heapElements w (a div w) m s1) \<longrightarrow>
        getElementCountOfNullTerminatedString a w m s = (Inl NullTerminatorNotFound, s1)) \<and>
     (\<forall>n. n < length (heapElements w (a div w) m s1) \<and>
          heapElements w (a div w) m s1 ! n = 0 \<and>
          (\<forall>j<n. heapElements w (a div w) m s1 ! j \<noteq> 0) \<longrightarrow>
        getElementCountOfNullTerminatedString a w m s = (Inr n, s1)) \<and>
     (\<forall>n s'. getElementCountOfNullTerminatedString a w m s = (Inr n, s') \<longrightarrow>
        n < length (heapElements w (a div w) m s1) \<and>
        heapElements w (a div w) m s1 ! n = 0 \<and>
        (\<forall>j<n. heapElements w (a div w) m s1 ! j \<noteq> 0)) \<and>
     (\<forall>e s'. getElementCountOfNullTerminatedString a w m s = (Inl e, s') \<longrightarrow>
        e = NullTerminatorNotFound \<and> 0 \<notin> set (heapElements w (a div w) m s1)) \<and>
     (\<forall>m'. m = Some m' \<longrightarrow> length (heapElements w (a div w) m s1) \<le> m') \<and>
     (\<forall>r n s'. \<not> isFreed r \<and> isStringClass (ref_class r) \<and> a = ref_address r \<and>
          w = stringBytesPerElement (ref_class r) \<and> m = Some (ref_elementCount r) \<longrightarrow>
        encodedElementCount r s = getElementCountOfNullTerminatedString a w m s \<and>
        (encodedElementCount r s = (Inr n, s') \<longrightarrow>
           n < ref_elementCount r \<and> heapElements w (a div w) m s1 ! n = 0))"
proof -
  let ?xs = "heapElements w (a div w) m s1"
  note run = getElementCount_run[OF assms, of a m]
  have none: "getElementCountOfNullTerminatedString a w m s = (Inl NullTerminatorNotFound, s1)"
    if "0 \<notin> set ?xs"
    using that indexOfFrom_None[of 0 0 ?xs] by (simp add: run)
  have first: "getElementCountOfNullTerminatedString a w m s = (Inr n, s1)"
    if "n < length ?xs" "?xs ! n = 0" "\<forall>j<n. ?xs ! j \<noteq> 0" for n
    using indexOfFrom_first[OF that, of 0] by (simp add: run)
  have only: "n < length ?xs \<and> ?xs ! n = 0 \<and> (\<forall>j<n. ?xs ! j \<noteq> 0)"
    if "getElementCountOfNullTerminatedString a w m s = (Inr n, s')" for n s'
  proof -
    from that run have "indexOfFrom 0 0 ?xs = Some n"
      by (auto split: option.splits)
    from indexOfFrom_Some[OF this] show ?thesis by simp
  qed
  have err: "e = NullTerminatorNotFound \<and> 0 \<notin> set ?xs"
    if "getElementCountOfNullTerminatedString a w m s = (Inl e, s')" for e s'
  proof -
    from that run have "indexOfFrom 0 0 ?xs = None \<and> e = NullTerminatorNotFound"
      by (auto split: option.splits)
    then show ?thesis by (simp add: indexOfFrom_None)
  qed
  have bound: "length ?xs \<le> m'" if "m = Some m'" for m'
    using that heapElements_bounded[of w "a div w" m' s1] by simp
  have ref: "encodedElementCount r s = getElementCountOfNullTerminatedString a w m s \<and>
        (encodedElementCount r s = (Inr n, s') \<longrightarrow>
           n < ref_elementCount r \<and> ?xs ! n = 0)"
    if "\<not> isFreed r \<and> isStringClass (ref_class r) \<and> a = ref_address r \<and>
          w = stringBytesPerElement (ref_class r) \<and> m = Some (ref_elementCount r)" for r n s'
  proof -
    from that have e: "encodedElementCount r s = getElementCountOfNullTerminatedString a w m s"
      by (simp add: encodedElementCount_live)
    from that have b: "length ?xs \<le> ref_elementCount r" using bound by simp
    show ?thesis using e only[of n s'] b by auto
  qed
  show ?thesis using none first only err bound ref by blast
qed

lemma text_facts:
  "idle textState" "viewsCurrent textState"
  "heapElements 1 1 (Some 4) textState = [104, 105, 0, 33]"
  "heapElements 1 4 None textState = [33, 33, 33, 33]"
proof -
  show "idle textState"
    by (simp add: idle_def textState_def byteLength_def managerOverTwoBuffers_def rebuilt_def
        initialFields_def mergeOptions_def optionsWithMode_def)
  show "viewsCurrent textState"
    by (simp add: viewsCurrent_def oneGeneration_def viewsOver_def allKinds_def byteLength_def
        textState_def managerOverTwoBuffers_def rebuilt_def wholeView_def initialFields_def
        twoBuffers_def)
  have b: "buffers (world textState) (cachedHeap textState) = [7, 104, 105, 0, 33, 33, 33, 33]"
    by (simp add: textState_def managerOverTwoBuffers_def rebuilt_def)
  show "heapElements 1 1 (Some 4) textState = [104, 105, 0, 33]"
    by (simp add: heapElements_def Let_def b loadRaw_def upt_rec)
  show "heapElements 1 4 None textState = [33, 33, 33, 33]"
    by (simp add: heapElements_def Let_def b loadRaw_def upt_rec)
qed

text \<open>
  The scan at the example text: bounded to the four allocated elements it returns 2, the
  length of "hi"; from address 4 without a bound it finds no zero before the end of the
  heap; and the reference's \<open>encodedElementCount\<close> is 2.
\<close>

theorem null_terminator_discovery_witness:
  "updateCacheIfNeeded textState = (Inr (), textState) \<and> viewsCurrent textState \<and>
   getElementCountOfNullTerminatedString 1 1 (Some 4) textState = (Inr 2, textState) \<and>
   getElementCountOfNullTerminatedString 4 1 None textState
     = (Inl NullTerminatorNotFound, textState) \<and>
   \<not> isFreed textRef \<and> isStringClass (ref_class textRef) \<and>
   encodedElementCount textRef textState = (Inr 2, textState)"
proof -
  note r = idle_run[OF text_facts(1)]
  have w: "(1::nat) = 1 \<or> (1::nat) = 2 \<or> (1::nat) = 4" by simp
  note t1 = null_terminator_discovery[OF r text_facts(2) w, of 1 "Some 4"]
  note t2 = null_terminator_discovery[OF r text_facts(2) w, of 4 None]
  have a: "getElementCountOfNullTerminatedString 1 1 (Some 4) textState = (Inr 2, textState)"
  proof -
    have e: "heapElements 1 (1 div 1) (Some 4) textState = [104, 105, 0, 33]"
      using text_facts(3) by simp
    have "(2::nat) < length (heapElements 1 (1 div 1) (Some 4) textState) \<and>
          heapElements 1 (1 div 1) (Some 4) textState ! 2 = 0 \<and>
          (\<forall>j<2. heapElements 1 (1 div 1) (Some 4) textState ! j \<noteq> 0)"
      unfolding e by (simp add: less_Suc_eq numeral_2_eq_2)
    with t1 show ?thesis by blast
  qed
  have b: "getElementCountOfNullTerminatedString 4 1 None textState
     = (Inl NullTerminatorNotFound, textState)"
  proof -
    have e: "heapElements 1 (4 div 1) None textState = [33, 33, 33, 33]"
      using text_facts(4) by simp
    have "0 \<notin> set (heapElements 1 (4 div 1) None textState)"
      unfolding e by simp
    with t2 show ?thesis by blast
  qed
  have l: "\<not> isFreed textRef \<and> isStringClass (ref_class textRef) \<and> 1 = ref_address textRef \<and>
          1 = stringBytesPerElement (ref_class textRef) \<and> Some 4 = Some (ref_elementCount textRef)"
    by (simp add: textRef_def isFreed_def)
  with t1 have "encodedElementCount textRef textState
      = getElementCountOfNullTerminatedString 1 1 (Some 4) textState" by blast
  with a have e: "encodedElementCount textRef textState = (Inr 2, textState)" by simp
  have f: "\<not> isFreed textRef \<and> isStringClass (ref_class textRef)"
    by (simp add: textRef_def isFreed_def)
  show ?thesis using a b r text_facts(2) e f by blast
qed

lemma allocations_append [simp]: "allocations (xs @ ys) = allocations xs @ allocations ys"
  by (induction xs rule: allocations.induct) simp_all

lemma deallocations_append [simp]: "deallocations (xs @ ys) = deallocations xs @ deallocations ys"
  by (induction xs rule: deallocations.induct) simp_all

lemma fillFrom_bytes:
  assumes "ta_kind ta = Uint8" and "i + c \<le> ta_length ta"
    and "ta_begin ta + ta_length ta \<le> length (B (ta_buffer ta))"
  shows "fillFrom c i ta 0 B =
     B(ta_buffer ta := take (ta_begin ta + i) (B (ta_buffer ta)) @ replicate c 0 @
                       drop (ta_begin ta + i + c) (B (ta_buffer ta)))"
  using assms
proof (induction c arbitrary: i B)
  case 0
  then show ?case by simp
next
  case (Suc c)
  let ?b = "ta_buffer ta"
  let ?o = "ta_begin ta + i"
  let ?B = "B(?b := take ?o (B ?b) @ [0] @ drop (?o + 1) (B ?b))"
  have cur: "ta_currentLength B ta = ta_length ta"
    using Suc.prems by (simp add: ta_currentLength_def)
  have one: "ta_set B ta (Some i) 0 = ?B"
    using Suc.prems cur
    by (simp add: ta_set_def ta_byteOffset_def storeRaw_def toRaw_def)
  have len: "length (?B ?b) = length (B ?b)"
    using Suc.prems by simp
  have ih: "fillFrom c (Suc i) ta 0 ?B =
     ?B(?b := take (ta_begin ta + Suc i) (?B ?b) @ replicate c 0 @
              drop (ta_begin ta + Suc i + c) (?B ?b))"
    using Suc.prems len by (intro Suc.IH) simp_all
  have t: "take (ta_begin ta + Suc i) (?B ?b) = take ?o (B ?b) @ [0]"
    using Suc.prems by simp
  have d: "drop (ta_begin ta + Suc i + c) (?B ?b) = drop (?o + Suc c) (B ?b)"
    using Suc.prems by (simp add: ac_simps)
  have "fillFrom (Suc c) i ta 0 B = fillFrom c (Suc i) ta 0 ?B"
    by (simp only: fillFrom.simps one)
  also have "\<dots> = ?B(?b := (take ?o (B ?b) @ [0]) @ replicate c 0 @ drop (?o + Suc c) (B ?b))"
    by (simp only: ih t d)
  also have "\<dots> = B(?b := take ?o (B ?b) @ replicate (Suc c) 0 @ drop (?o + Suc c) (B ?b))"
    by simp
  finally show ?case .
qed

lemma viewUint8Array_run:
  assumes r: "updateCacheIfNeeded s = (Inr (), s1)" and vc: "viewsCurrent s1"
    and b: "a + n \<le> byteLength s1 (cachedHeap s1)"
  shows "viewUint8Array a n s =
     (Inr \<lparr>ta_kind = Uint8, ta_buffer = cachedHeap s1, ta_begin = a, ta_length = n\<rparr>, s1)"
proof -
  note v = whole_view_length[OF vc, of Uint8, simplified]
  have h: "heapUint8 = heapView Uint8" by simp
  have "subarray (buffers (world s1)) (cachedView Uint8 s1) (int a) (Some (int a + int n))
      = (cachedView Uint8 s1)\<lparr>ta_begin := ta_begin (cachedView Uint8 s1) + a, ta_length := n\<rparr>"
    using b by (simp add: subarray_def Let_def v(2) min_def)
  then show ?thesis
    unfolding viewUint8Array_def
    by (simp add: bindM_heapView_ok[OF r, of Uint8, simplified] v(1))
qed


lemma refresh_allocations:
  assumes "updateCacheIfNeeded s = (Inr (), s1)"
  shows "allocations (calls s1) = allocations (calls s)"
    and "deallocations (calls s1) = deallocations (calls s)"
  using updateCacheIfNeeded_result[OF assms] by auto

lemma ta_fill_bytes:
  assumes "a + n \<le> length (B b)"
  shows "ta_fill B \<lparr>ta_kind = Uint8, ta_buffer = b, ta_begin = a, ta_length = n\<rparr> 0 =
           B(b := take a (B b) @ replicate n 0 @ drop (a + n) (B b))"
proof -
  let ?ta = "\<lparr>ta_kind = Uint8, ta_buffer = b, ta_begin = a, ta_length = n\<rparr>"
  have "ta_currentLength B ?ta = n" using assms by (simp add: ta_currentLength_def)
  then show ?thesis
    using fillFrom_bytes[of ?ta 0 n B] assms by (simp add: ta_fill_def)
qed

text \<open>
  Claim C9. Let the allocator return an address for the requested size. With
  \<open>clearAllocatedRegions\<close> off, \<open>alloc\<close> returns that address and the state is the one
  the allocator left, with the one call logged: no byte is touched. With it on, where
  the refresh step after the allocation succeeds and leaves views that describe the
  cached buffer as it is, and the allocated span lies inside that buffer, \<open>alloc\<close>
  returns the same address, has called the allocator exactly once, with the requested
  size, and has set every byte of the span to zero and no other. The option is on by
  default.
\<close>

theorem alloc_zero_fill:
  assumes "allocate s n (world s) = (Inr address, w')"
  shows
    "(clearAllocatedRegions (options s) \<noteq> Some True \<longrightarrow>
        alloc n s = (Inr address, s\<lparr>world := w', calls := calls s @ [CallAllocate n]\<rparr>)) \<and>
     (clearAllocatedRegions (options s) = Some True \<and>
      updateCacheIfNeeded (s\<lparr>world := w', calls := calls s @ [CallAllocate n]\<rparr>) = (Inr (), s1) \<and>
      viewsCurrent s1 \<and> address + n \<le> byteLength s1 (cachedHeap s1) \<longrightarrow>
        alloc n s =
          (Inr address,
           s1\<lparr>world := (world s1)\<lparr>buffers := (buffers (world s1))(cachedHeap s1 :=
              take address (buffers (world s1) (cachedHeap s1)) @ replicate n 0 @
              drop (address + n) (buffers (world s1) (cachedHeap s1)))\<rparr>\<rparr>) \<and>
        allocations (calls (snd (alloc n s))) = allocations (calls s) @ [n]) \<and>
     clearAllocatedRegions (mergeOptions defaultWasmHeapManagerOptions None) = Some True"
proof (intro conjI impI)
  let ?sA = "s\<lparr>world := w', calls := calls s @ [CallAllocate n]\<rparr>"
  have ca: "callAllocate n s = (Inr address, ?sA)"
    using assms by (simp add: callAllocate_def)
  show "alloc n s = (Inr address, ?sA)" if "clearAllocatedRegions (options s) \<noteq> Some True"
    using that by (simp add: alloc_def bindM_def ca getsM_def returnM_def)
  show "clearAllocatedRegions (mergeOptions defaultWasmHeapManagerOptions None) = Some True"
    by (simp add: mergeOptions_def defaultWasmHeapManagerOptions_def)
  assume h: "clearAllocatedRegions (options s) = Some True \<and>
      updateCacheIfNeeded ?sA = (Inr (), s1) \<and>
      viewsCurrent s1 \<and> address + n \<le> byteLength s1 (cachedHeap s1)"
  then have r: "updateCacheIfNeeded ?sA = (Inr (), s1)" and vc: "viewsCurrent s1"
    and b: "address + n \<le> byteLength s1 (cachedHeap s1)"
    and on: "clearAllocatedRegions (options s) = Some True" by simp_all
  note v = viewUint8Array_run[OF r vc b]
  have f: "ta_fill (buffers (world s1))
             \<lparr>ta_kind = Uint8, ta_buffer = cachedHeap s1, ta_begin = address, ta_length = n\<rparr> 0
           = (buffers (world s1))(cachedHeap s1 :=
              take address (buffers (world s1) (cachedHeap s1)) @ replicate n 0 @
              drop (address + n) (buffers (world s1) (cachedHeap s1)))"
    using b by (intro ta_fill_bytes) (simp add: byteLength_def)
  show a: "alloc n s =
          (Inr address,
           s1\<lparr>world := (world s1)\<lparr>buffers := (buffers (world s1))(cachedHeap s1 :=
              take address (buffers (world s1) (cachedHeap s1)) @ replicate n 0 @
              drop (address + n) (buffers (world s1) (cachedHeap s1)))\<rparr>\<rparr>)"
    using on by (simp add: alloc_def bindM_def ca getsM_def returnM_def v fillView_def f)
  show "allocations (calls (snd (alloc n s))) = allocations (calls s) @ [n]"
    using refresh_allocations(1)[OF r] by (simp add: a)
qed

lemmas arena_defs = dirtyArenaManager_def arenaManager_def rebuilt_def initialFields_def
  newArena_def wholeView_def byteLength_def mergeOptions_def defaultWasmHeapManagerOptions_def
  optionsWithClear_def bumped_def afterAllocate_def

lemma dirty_allocate:
  "allocate s = arena_allocate \<Longrightarrow> embedder (world s) =
      \<lparr>heap = 0, alignmentConstant = 8, currentAllocationAddress = start, nextBuffer = 1\<rparr> \<Longrightarrow>
   length (buffers (world s) 0) = 32 \<Longrightarrow> alignToNextMultiple (start + n) 8 \<le> 32 \<Longrightarrow>
   allocate s n (world s) = (Inr start, bumped (alignToNextMultiple (start + n) 8) s)"
  by (simp add: arena_allocate_def Let_def bumped_def)

lemma dirty_facts:
  "allocate (dirtyArenaManager opts) = arena_allocate"
  "embedder (world (dirtyArenaManager opts)) =
      \<lparr>heap = 0, alignmentConstant = 8, currentAllocationAddress = 8, nextBuffer = 1\<rparr>"
  "buffers (world (dirtyArenaManager opts)) 0 = replicate 32 255"
  "calls (dirtyArenaManager opts) = [CallHeapGetter]"
  "cachedHeap (dirtyArenaManager opts) = 0"
  "options (dirtyArenaManager opts) = mergeOptions defaultWasmHeapManagerOptions opts"
  by (simp_all add: arena_defs)

lemma dirty_allocate_4:
  "allocate (dirtyArenaManager opts) 4 (world (dirtyArenaManager opts))
     = (Inr 8, bumped 16 (dirtyArenaManager opts))"
  using dirty_allocate[of "dirtyArenaManager opts" 8 4]
  by (simp add: dirty_facts alignToNextMultiple_def)

lemma after_facts:
  "idle (afterAllocate n e (dirtyArenaManager None))"
  "viewsCurrent (afterAllocate n e (dirtyArenaManager opts))"
  "byteLength (afterAllocate n e (dirtyArenaManager opts)) 0 = 32"
  "cachedHeap (afterAllocate n e (dirtyArenaManager opts)) = 0"
  "buffers (world (afterAllocate n e (dirtyArenaManager opts))) 0 = replicate 32 255"
  "calls (afterAllocate n e (dirtyArenaManager opts)) = [CallHeapGetter, CallAllocate n]"
proof -
  show "idle (afterAllocate n e (dirtyArenaManager None))"
    by (simp add: idle_def arena_defs)
  show "viewsCurrent (afterAllocate n e (dirtyArenaManager opts))"
    by (simp add: viewsCurrent_def oneGeneration_def viewsOver_def allKinds_def arena_defs)
qed (simp_all add: arena_defs)

text \<open>
  Allocation at the example: four bytes from the arena whose heap holds 255 throughout.
  By default the four bytes at the returned address 8 are zero afterwards and the others
  are as before; with the option off the heap is as before.
\<close>

theorem alloc_zero_fill_witness:
  "allocate (dirtyArenaManager None) 4 (world (dirtyArenaManager None))
     = (Inr 8, bumped 16 (dirtyArenaManager None)) \<and>
   clearAllocatedRegions (options (dirtyArenaManager None)) = Some True \<and>
   fst (alloc 4 (dirtyArenaManager None)) = Inr 8 \<and>
   buffers (world (snd (alloc 4 (dirtyArenaManager None)))) 0
     = replicate 8 255 @ replicate 4 0 @ replicate 20 255 \<and>
   allocations (calls (snd (alloc 4 (dirtyArenaManager None)))) = [4] \<and>
   clearAllocatedRegions (options (dirtyArenaManager (Some (optionsWithClear False)))) \<noteq> Some True \<and>
   fst (alloc 4 (dirtyArenaManager (Some (optionsWithClear False)))) = Inr 8 \<and>
   buffers (world (snd (alloc 4 (dirtyArenaManager (Some (optionsWithClear False)))))) 0
     = replicate 32 255"
proof -
  let ?d = "dirtyArenaManager None"
  let ?o = "dirtyArenaManager (Some (optionsWithClear False))"
  let ?a = "afterAllocate 4 16 ?d"
  have on: "clearAllocatedRegions (options ?d) = Some True"
    by (simp add: dirty_facts mergeOptions_def defaultWasmHeapManagerOptions_def)
  have off: "clearAllocatedRegions (options ?o) \<noteq> Some True"
    by (simp add: dirty_facts mergeOptions_def optionsWithClear_def)
  have r: "updateCacheIfNeeded (?d\<lparr>world := bumped 16 ?d, calls := calls ?d @ [CallAllocate 4]\<rparr>)
             = (Inr (), ?a)"
    using idle_run[OF after_facts(1), of 4 16] by (simp add: afterAllocate_def)
  have b: "8 + 4 \<le> byteLength ?a (cachedHeap ?a)"
    by (simp add: after_facts)
  from alloc_zero_fill[OF dirty_allocate_4, of None ?a] on r after_facts(2)[of 4 16 None] b
  have 1: "alloc 4 ?d =
          (Inr 8,
           ?a\<lparr>world := (world ?a)\<lparr>buffers := (buffers (world ?a))(cachedHeap ?a :=
              take 8 (buffers (world ?a) (cachedHeap ?a)) @ replicate 4 0 @
              drop (8 + 4) (buffers (world ?a) (cachedHeap ?a)))\<rparr>\<rparr>) \<and>
        allocations (calls (snd (alloc 4 ?d))) = allocations (calls ?d) @ [4]"
    by blast
  from alloc_zero_fill[OF dirty_allocate_4, of "Some (optionsWithClear False)"] off
  have 2: "alloc 4 ?o = (Inr 8, ?o\<lparr>world := bumped 16 ?o, calls := calls ?o @ [CallAllocate 4]\<rparr>)"
    by blast
  have 3: "buffers (bumped 16 ?o) 0 = replicate 32 255"
    by (simp add: bumped_def dirty_facts)
  have 4: "take 8 (replicate 32 255 :: byte list) @ replicate 4 0 @ drop (8 + 4) (replicate 32 255)
            = replicate 8 255 @ replicate 4 0 @ replicate 20 255"
    by simp
  note 1 [THEN conjunct1]
  then have 5: "buffers (world (snd (alloc 4 ?d))) 0 = replicate 8 255 @ replicate 4 0 @ replicate 20 255"
    using 4 by (simp add: after_facts)
  have 7: "fst (alloc 4 ?d) = Inr 8" "fst (alloc 4 ?o) = Inr 8"
    "buffers (world (snd (alloc 4 ?o))) 0 = replicate 32 255"
    using 1 [THEN conjunct1] 2 3 by simp_all
  from 1 have "allocations (calls (snd (alloc 4 ?d))) = allocations (calls ?d) @ [4]"
    by (rule conjunct2)
  then have 6: "allocations (calls (snd (alloc 4 ?d))) = [4]"
    by (simp add: dirty_facts)
  show ?thesis
    using dirty_allocate_4[of None] on off 5 6 7 by simp
qed

lemma HeapRef_free_live:
  "\<not> isFreed r \<Longrightarrow>
   HeapRef_free r s =
     (Inr (r\<lparr>ref_address := 0\<rparr>),
      s\<lparr>world := deallocate s (ref_address r) (world s),
        calls := calls s @ [CallDeallocate (ref_address r)]\<rparr>)"
  by (simp add: HeapRef_free_def free_heapReference_def bindM_def callDeallocate_def returnM_def)


lemma freed_assert: "isFreed r \<Longrightarrow> bindM (assertNotFreed r) g s = (Inl UseAfterFree, s)"
  by (simp add: assertNotFreed_def bindM_def throwM_def)






lemma freed_allocatedElementsView:
  assumes "isFreed r"
    and "ref_class r = NullTerminatedUtf16StringRef \<or> ref_class r = NullTerminatedUtf32StringRef"
  shows "allocatedElementsView r s = (Inl UseAfterFree, s)"
  using assms by (auto simp: allocatedElementsView_def freed_assert)

lemma inherited_free:
  "Pointer32Ref_free opt r = HeapRef_free r" "Pointer53Ref_free opt r = HeapRef_free r"
  "Pointer64Ref_free opt r = HeapRef_free r" "PointerArrayRef_free None r = HeapRef_free r"
  "PointerRef_free None r = HeapRef_free r"
  by (simp_all add: Pointer32Ref_free_def Pointer53Ref_free_def Pointer64Ref_free_def
      PointerArrayRef_free_def PointerRef_free_def)


lemma pointer_facts:
  "idle pointerState"
  "cachedHeapUint32 pointerState = \<lparr>ta_kind = Uint32, ta_buffer = 0, ta_begin = 0, ta_length = 8\<rparr>"
  "cachedHeapBigUint64 pointerState
     = \<lparr>ta_kind = BigUint64, ta_buffer = 0, ta_begin = 0, ta_length = 4\<rparr>"
  "buffers (world pointerState) 0 = replicate 8 0 @ [24, 0, 0, 0, 0, 0, 0, 0] @ replicate 16 0"
  "calls pointerState = [CallHeapGetter]"
  "deallocate pointerState = arena_deallocate"
  by (simp_all add: idle_def pointerState_def arenaManager_def rebuilt_def initialFields_def
      newArena_def wholeView_def byteLength_def mergeOptions_def defaultWasmHeapManagerOptions_def)


lemma idle_getters:
  assumes "idle s"
  shows "heapUint8 s = (Inr (cachedHeapUint8 s), s)"
    "heapUint16 s = (Inr (cachedHeapUint16 s), s)"
    "heapUint32 s = (Inr (cachedHeapUint32 s), s)"
    "heapBigUint64 s = (Inr (cachedHeapBigUint64 s), s)"
  using heapView_ok[OF idle_run[OF assms], of Uint8] heapView_ok[OF idle_run[OF assms], of Uint16]
    heapView_ok[OF idle_run[OF assms], of Uint32] heapView_ok[OF idle_run[OF assms], of BigUint64]
  by simp_all

lemma pointer_cell_32:
  "NumericRef_read (wrapPointer32 8) pointerState = (Inr (Some 24), pointerState)"
  by (simp add: NumericRef_read_def wrapPointer32_def assertNotFreed_def isFreed_def bindM_def
      returnM_def readPointer32_def readUint32_def idle_getters[OF pointer_facts(1)]
      viewGet_def ta_get_def elementIndex_def ta_currentLength_def ta_byteOffset_def
      pointer_facts loadRaw_def fromRaw_def)

lemma pointer_cell_53:
  "NumericRef_read (wrapPointer53 8) pointerState = (Inr (Some 24), pointerState)"
  by (simp add: NumericRef_read_def wrapPointer53_def assertNotFreed_def isFreed_def bindM_def
      returnM_def readPointer53_def readBigUint64_def idle_getters[OF pointer_facts(1)]
      viewGet_def ta_get_def elementIndex_def ta_currentLength_def ta_byteOffset_def
      pointer_facts loadRaw_def fromRaw_def)

lemma pointer_cell_64:
  "NumericRef_read (wrapPointer64 8) pointerState = (Inr (Some 24), pointerState)"
  by (simp add: NumericRef_read_def wrapPointer64_def assertNotFreed_def isFreed_def bindM_def
      returnM_def readPointer64_def readBigUint64_def idle_getters[OF pointer_facts(1)]
      viewGet_def ta_get_def elementIndex_def ta_currentLength_def ta_byteOffset_def
      pointer_facts loadRaw_def fromRaw_def)

lemma pointer_free_one_call:
  "\<not> isFreed r \<Longrightarrow>
   deallocations (calls (snd (Pointer32Ref_free opt r s))) = deallocations (calls s) @ [ref_address r] \<and>
   deallocations (calls (snd (Pointer53Ref_free opt r s))) = deallocations (calls s) @ [ref_address r] \<and>
   deallocations (calls (snd (Pointer64Ref_free opt r s))) = deallocations (calls s) @ [ref_address r]"
  by (simp add: inherited_free HeapRef_free_live)

lemma PointerRef_free_cascade:
  assumes "NumericRef_read r s = (Inr (Some p), s)" and "\<not> isFreed r"
  shows "deallocations (calls (snd (PointerRef_free (Some True) r s)))
           = deallocations (calls s) @ [nat p, ref_address r]"
  using assms
  by (simp add: PointerRef_free_def bindM_def free_address_def callDeallocate_def
      HeapRef_free_live)

text \<open>
  Claim C4 at a pointer cell at address 8 whose value is the address 24. The references
  of the three pointer flavors read 24 from it, and their \<open>free\<close> with
  \<open>freePointedAddress: true\<close> calls the deallocator once, for address 8: the pointed
  address 24 is not freed. The method \<open>PointerRef.free\<close>, which no reference class
  inherits, would call it for 24 and then for 8.
\<close>

theorem pointer_free_without_cascade:
  "fst (NumericRef_read (wrapPointer32 8) pointerState) = Inr (Some 24) \<and>
   deallocations (calls (snd (Pointer32Ref_free (Some True) (wrapPointer32 8) pointerState))) = [8] \<and>
   fst (NumericRef_read (wrapPointer53 8) pointerState) = Inr (Some 24) \<and>
   deallocations (calls (snd (Pointer53Ref_free (Some True) (wrapPointer53 8) pointerState))) = [8] \<and>
   fst (NumericRef_read (wrapPointer64 8) pointerState) = Inr (Some 24) \<and>
   deallocations (calls (snd (Pointer64Ref_free (Some True) (wrapPointer64 8) pointerState))) = [8] \<and>
   deallocations (calls (snd (PointerRef_free (Some True) (wrapPointer32 8) pointerState)))
     = [24, 8]"
proof -
  have l: "\<not> isFreed (wrapPointer32 8)" "\<not> isFreed (wrapPointer53 8)"
    "\<not> isFreed (wrapPointer64 8)"
    "ref_address (wrapPointer32 8) = 8" "ref_address (wrapPointer53 8) = 8"
    "ref_address (wrapPointer64 8) = 8"
    by (simp_all add: isFreed_def wrapPointer32_def wrapPointer53_def wrapPointer64_def)
  show ?thesis
    using pointer_free_one_call[OF l(1), of "Some True" pointerState]
      pointer_free_one_call[OF l(2), of "Some True" pointerState]
      pointer_free_one_call[OF l(3), of "Some True" pointerState]
      PointerRef_free_cascade[OF pointer_cell_32 l(1)]
    by (simp add: pointer_cell_32 pointer_cell_53 pointer_cell_64 l pointer_facts)
qed

text \<open>
  \<open>allocatedBytesView\<close> has no check of its own: on a freed reference it is the view of
  the bytes at address 0, where the refresh step and the bounds allow one.
\<close>

lemma allocatedBytesView_unchecked:
  "allocatedBytesView r = viewUint8Array (ref_address r) (allocatedByteCount r)"
  "isFreed r \<Longrightarrow> allocatedBytesView r = viewUint8Array 0 (allocatedByteCount r)"
  by (simp_all add: allocatedBytesView_def isFreed_def)

end
